theory Spec2Isabelle
  imports Main
begin

unbundle bit_operations_syntax

section \<open>JavaScript values\<close>

text \<open>
  The webhook handlers work on untyped payloads (\<^verbatim>\<open>any\<close>). A payload is a value of
  \<open>jsval\<close>: the results of \<^verbatim>\<open>JSON.parse\<close> plus \<open>Undefined\<close>, which a property read
  yields where the property is missing. A number is kept as the two things the handlers
  observe of it: whether it is truthy (neither zero nor NaN) and the text that
  \<^verbatim>\<open>String\<close> and \<^verbatim>\<open>JSON.stringify\<close> give it. A string is a sequence of code units
  below 256 (Latin-1); strings with other code units are outside the model. An object is
  the list of its own properties.
\<close>

datatype jsval =
    Undefined
  | Null
  | Bool bool
  | Num bool string
  | Str string
  | Arr "jsval list"
  | Obj "(string \<times> jsval) list"

datatype exn = TypeError | SyntaxError | Error string

text \<open>\<^verbatim>\<open>v == null\<close>: the values that \<^verbatim>\<open>?.\<close> and \<^verbatim>\<open>??\<close> treat as absent.\<close>

fun nullish :: "jsval \<Rightarrow> bool" where
  "nullish Undefined = True"
| "nullish Null = True"
| "nullish _ = False"

text \<open>\<^verbatim>\<open>a ?? b\<close>\<close>

definition nc :: "jsval \<Rightarrow> jsval \<Rightarrow> jsval" where
  "nc a b = (if nullish a then b else a)"

text \<open>\<^verbatim>\<open>!!v\<close>\<close>

fun truthy :: "jsval \<Rightarrow> bool" where
  "truthy Undefined = False"
| "truthy Null = False"
| "truthy (Bool b) = b"
| "truthy (Num nonzero shown) = nonzero"
| "truthy (Str s) = (s \<noteq> [])"
| "truthy (Arr _) = True"
| "truthy (Obj _) = True"

text \<open>\<^verbatim>\<open>a || b\<close>\<close>

definition lor :: "jsval \<Rightarrow> jsval \<Rightarrow> jsval" where
  "lor a b = (if truthy a then a else b)"

text \<open>
  \<^verbatim>\<open>v?.k\<close> for a property name \<open>k\<close> that no primitive value has: absent on
  \<^verbatim>\<open>null\<close>, \<^verbatim>\<open>undefined\<close> and on every value that is not an object.
\<close>

fun opt_get :: "jsval \<Rightarrow> string \<Rightarrow> jsval" where
  "opt_get (Obj ps) k = (case map_of ps k of None \<Rightarrow> Undefined | Some v \<Rightarrow> v)"
| "opt_get _ k = Undefined"

text \<open>\<^verbatim>\<open>v?.[0]\<close>\<close>

fun opt_first :: "jsval \<Rightarrow> jsval" where
  "opt_first (Arr (x # xs)) = x"
| "opt_first (Str (c # cs)) = Str [c]"
| "opt_first (Obj ps) = (case map_of ps ''0'' of None \<Rightarrow> Undefined | Some v \<Rightarrow> v)"
| "opt_first _ = Undefined"

subsection \<open>Strings\<close>

fun show_nat :: "nat \<Rightarrow> string" where
  "show_nat n =
     (if n < 10 then [''0123456789'' ! n]
      else show_nat (n div 10) @ [''0123456789'' ! (n mod 10)])"

fun join :: "string \<Rightarrow> string list \<Rightarrow> string" where
  "join sep [] = []"
| "join sep [x] = x"
| "join sep (x # y # ys) = x @ sep @ join sep (y # ys)"

text \<open>The results of a list of computations, or the first exception among them.\<close>

fun all_right :: "('e + 'a) list \<Rightarrow> 'e + 'a list" where
  "all_right [] = Inr []"
| "all_right (Inl e # rs) = Inl e"
| "all_right (Inr x # rs) = (case all_right rs of Inl e \<Rightarrow> Inl e | Inr xs \<Rightarrow> Inr (x # xs))"

text \<open>
  \<^verbatim>\<open>String(v)\<close>. An object prints as \<^verbatim>\<open>[object Object]\<close> through the inherited
  \<^verbatim>\<open>toString\<close>; an own property \<^verbatim>\<open>toString\<close>, which in a parsed payload is never a
  function, hides it, and the conversion raises a TypeError. An array prints its elements
  separated by commas, \<^verbatim>\<open>null\<close> and \<^verbatim>\<open>undefined\<close> as nothing, and raises when an
  element does.
\<close>

fun String :: "jsval \<Rightarrow> exn + string" where
  "String Undefined = Inr ''undefined''"
| "String Null = Inr ''null''"
| "String (Bool b) = Inr (if b then ''true'' else ''false'')"
| "String (Num nonzero shown) = Inr shown"
| "String (Str s) = Inr s"
| "String (Arr xs) =
     (case all_right (map (\<lambda>x. if nullish x then Inr [] else String x) xs) of
        Inl e \<Rightarrow> Inl e
      | Inr ss \<Rightarrow> Inr (join '','' ss))"
| "String (Obj ps) =
     (if map_of ps ''toString'' = None then Inr ''[object Object]'' else Inl TypeError)"

text \<open>\<^verbatim>\<open>String(v)\<close>, then the rest of the computation with the string.\<close>

definition then_str :: "jsval \<Rightarrow> (string \<Rightarrow> exn + 'a) \<Rightarrow> exn + 'a" where
  "then_str v f = (case String v of Inl e \<Rightarrow> Inl e | Inr s \<Rightarrow> f s)"

text \<open>
  \<^verbatim>\<open>JSON.stringify(v)\<close> for a value of a parsed payload: the text in which the client
  sends an array or an object.
\<close>

definition json_escape :: "char \<Rightarrow> string" where
  "json_escape c =
     (let n = (of_char c :: nat)
      in if n = 34 then [CHR 0x5C, CHR 0x22]
         else if n = 92 then [CHR 0x5C, CHR 0x5C]
         else if n = 8 then [CHR 0x5C, CHR ''b'']
         else if n = 9 then [CHR 0x5C, CHR ''t'']
         else if n = 10 then [CHR 0x5C, CHR ''n'']
         else if n = 12 then [CHR 0x5C, CHR ''f'']
         else if n = 13 then [CHR 0x5C, CHR ''r'']
         else if n < 32 then
           [CHR 0x5C, CHR ''u'', CHR ''0'', CHR ''0'',
            ''0123456789abcdef'' ! (n div 16), ''0123456789abcdef'' ! (n mod 16)]
         else [c])"

definition json_quote :: "string \<Rightarrow> string" where
  "json_quote s = CHR 0x22 # concat (map json_escape s) @ [CHR 0x22]"

fun json_text :: "jsval \<Rightarrow> string" where
  "json_text Undefined = ''null''"
| "json_text Null = ''null''"
| "json_text (Bool b) = (if b then ''true'' else ''false'')"
| "json_text (Num nonzero shown) = shown"
| "json_text (Str s) = json_quote s"
| "json_text (Arr xs) = ''['' @ join '','' (map json_text xs) @ '']''"
| "json_text (Obj ps) =
     ''{'' @ join '','' (map (\<lambda>kv. json_quote (fst kv) @ '':'' @ json_text (snd kv)) ps) @ ''}''"

text \<open>
  \<^verbatim>\<open>toLowerCase\<close> and \<^verbatim>\<open>trim\<close> on code units below 256: the letters A to Z and the
  Latin-1 capitals 192 to 222 (but 215, the multiplication sign) have a lower case 32
  higher; the blanks are tab, line feed, vertical tab, form feed, carriage return, space
  and the no-break space 160.
\<close>

definition lower_char :: "char \<Rightarrow> char" where
  "lower_char c =
     (case map_of (zip ''ABCDEFGHIJKLMNOPQRSTUVWXYZ'' ''abcdefghijklmnopqrstuvwxyz'') c of
        Some l \<Rightarrow> l
      | None \<Rightarrow>
          (let n = (of_char c :: nat)
           in if 192 \<le> n \<and> n \<le> 222 \<and> n \<noteq> 215 then char_of (n + 32) else c))"

definition toLowerCase :: "string \<Rightarrow> string" where
  "toLowerCase s = map lower_char s"

definition is_space :: "char \<Rightarrow> bool" where
  "is_space c = (of_char c \<in> {9, 10, 11, 12, 13, 32, 160 :: nat})"

definition trim :: "string \<Rightarrow> string" where
  "trim s = rev (dropWhile is_space (rev (dropWhile is_space s)))"

text \<open>\<^verbatim>\<open>s.split(c)\<close> for a one-character separator: never the empty list.\<close>

fun split :: "char \<Rightarrow> string \<Rightarrow> string list" where
  "split c [] = [[]]"
| "split c (x # xs) =
     (if x = c then [] # split c xs
      else (case split c xs of [] \<Rightarrow> [[x]] | p # ps \<Rightarrow> (x # p) # ps))"

text \<open>\<^verbatim>\<open>s.includes(t)\<close>\<close>

fun includes_js :: "string \<Rightarrow> string \<Rightarrow> bool" where
  "includes_js [] t = (t = [])"
| "includes_js (x # xs) t = (take (length t) (x # xs) = t \<or> includes_js xs t)"

section \<open>Card-processor webhook: signature verification\<close>

text \<open>\<^verbatim>\<open>tsec\<close>: the loop ORs the XOR of the character codes into \<open>r\<close>.\<close>

definition charCodeAt :: "string \<Rightarrow> nat \<Rightarrow> nat" where
  "charCodeAt s i = of_char (s ! i)"

definition tsec :: "string \<Rightarrow> string \<Rightarrow> bool" where
  "tsec a b =
     (if length a \<noteq> length b then False
      else fold (\<lambda>i r. r OR (charCodeAt a i XOR charCodeAt b i)) [0 ..< length a] 0 = 0)"

text \<open>
  \<^verbatim>\<open>parseStripeSigHeader\<close>. \<^verbatim>\<open>const [k, v] = p.split("=")\<close> leaves \<open>v\<close> undefined
  (\<open>None\<close>) when the part has no \<^verbatim>\<open>=\<close>; the loop state is \<open>(t, v1)\<close>.
\<close>

definition sig_part :: "string \<Rightarrow> string \<times> string option" where
  "sig_part p =
     (case split CHR ''='' p of
        [] \<Rightarrow> ([], None)
      | [k] \<Rightarrow> (k, None)
      | k # v # _ \<Rightarrow> (k, Some v))"

definition sig_step ::
  "string option \<times> string option list \<Rightarrow> string \<Rightarrow> string option \<times> string option list" where
  "sig_step st p =
     (let (k, v) = sig_part p;
          t' = (if k = ''t'' then v else fst st);
          v1' = (if k = ''v1'' then snd st @ [v] else snd st)
      in (t', v1'))"

definition parseStripeSigHeader :: "string option \<Rightarrow> (string \<times> string option list) option" where
  "parseStripeSigHeader header =
     (case header of
        None \<Rightarrow> None
      | Some h \<Rightarrow>
          if h = [] then None
          else
            (let parts = map trim (split CHR '','' h);
                 (t, v1) = foldl sig_step (None, []) parts
             in case t of
                  None \<Rightarrow> None
                | Some tv \<Rightarrow> if tv = [] \<or> v1 = [] then None else Some (tv, v1)))"

text \<open>
  \<^verbatim>\<open>parsed.v1.some((given) => tsec(given, expected))\<close>: stops at the first match;
  \<^verbatim>\<open>given.length\<close> raises a TypeError when \<open>given\<close> is undefined.
\<close>

fun some_tsec :: "string option list \<Rightarrow> string \<Rightarrow> exn + bool" where
  "some_tsec [] expected = Inr False"
| "some_tsec (None # gs) expected = Inl TypeError"
| "some_tsec (Some g # gs) expected =
     (if tsec g expected then Inr True else some_tsec gs expected)"

text \<open>
  \<^verbatim>\<open>verifyStripeSignature\<close>. \<open>hmac secret message\<close> stands for \<^verbatim>\<open>hmacSHA256Hex\<close>,
  the platform's HMAC-SHA256 rendered in hexadecimal.
\<close>

definition verifyStripeSignature ::
  "(string \<Rightarrow> string \<Rightarrow> string) \<Rightarrow> string \<Rightarrow> string \<Rightarrow> string \<Rightarrow> exn + bool" where
  "verifyStripeSignature hmac rawBody sigHeader secret =
     (case parseStripeSigHeader (Some sigHeader) of
        None \<Rightarrow> Inr False
      | Some (t, v1) \<Rightarrow> some_tsec v1 (hmac secret (t @ ''.'' @ rawBody)))"

section \<open>Card-processor webhook: normalization\<close>

text \<open>\<^verbatim>\<open>extractProductName\<close>\<close>

definition extractProductName :: "jsval \<Rightarrow> exn + string" where
  "extractProductName evt =
     (let obj = nc (opt_get (opt_get evt ''data'') ''object'') (Obj []);
          metaName = opt_get (opt_get obj ''metadata'') ''product_name''
      in if truthy metaName then String metaName
         else
           (let line = opt_first (opt_get obj ''display_items'');
                planName = nc (opt_get (opt_get line ''plan'') ''nickname'')
                             (nc (opt_get (opt_get line ''price'') ''nickname'') (Str []))
            in if truthy planName then String planName else Inr ''Premium Access''))"

text \<open>\<^verbatim>\<open>extractBuyerEmail\<close>: the \<^verbatim>\<open>switch\<close> compares \<^verbatim>\<open>evt?.type\<close> strictly.\<close>

definition extractBuyerEmail :: "jsval \<Rightarrow> jsval" where
  "extractBuyerEmail evt =
     (let obj = opt_get (opt_get evt ''data'') ''object'';
          ty = opt_get evt ''type''
      in if ty = Str ''checkout.session.completed'' then
           nc (opt_get (opt_get obj ''customer_details'') ''email'')
             (nc (opt_get obj ''customer_email'')
               (nc (opt_get (opt_get obj ''customer'') ''email'') Null))
         else if ty = Str ''payment_intent.succeeded'' then
           nc (opt_get obj ''receipt_email'')
             (nc (opt_get (opt_get obj ''customer'') ''email'')
               (nc (opt_get (opt_get (opt_get obj ''latest_charge'') ''billing_details'') ''email'')
                  Null))
         else if ty = Str ''invoice.paid'' then
           nc (opt_get obj ''customer_email'')
             (nc (opt_get (opt_get obj ''customer'') ''email'')
               (nc (opt_get obj ''account_customer_email'') Null))
         else Null)"

text \<open>
  \<^verbatim>\<open>NormalizedStripeInfo\<close>. The fields declared \<^verbatim>\<open>string | null\<close> receive whatever
  the payload holds, so they are \<open>jsval\<close>.
\<close>

record NormalizedStripeInfo =
  eventId :: string
  customerId :: jsval
  checkoutSessionId :: jsval
  email :: jsval
  productName :: string
  planId :: jsval

text \<open>
  \<^verbatim>\<open>normalizeStripeEvent\<close>. The two conversions \<^verbatim>\<open>String(evt?.id ?? "")\<close> and
  \<^verbatim>\<open>extractProductName(evt)\<close> come first and may raise.
\<close>

definition normalizeStripeEvent :: "jsval \<Rightarrow> exn + NormalizedStripeInfo" where
  "normalizeStripeEvent evt =
     then_str (nc (opt_get evt ''id'') (Str [])) (\<lambda>event_id.
       case extractProductName evt of
         Inl e \<Rightarrow> Inl e
       | Inr product \<Rightarrow>
           (let obj = nc (opt_get (opt_get evt ''data'') ''object'') (Obj []);
                ty = nc (opt_get evt ''type'') (Str []);
                base = \<lparr> eventId = event_id,
                         customerId = Null,
                         checkoutSessionId = Null,
                         email = Null,
                         productName = product,
                         planId = Null \<rparr>
            in Inr
              (if ty = Str ''checkout.session.completed'' then
                 base \<lparr> customerId := nc (opt_get obj ''customer'') Null,
                        checkoutSessionId := nc (opt_get obj ''id'') Null,
                        email :=
                          nc (opt_get (opt_get obj ''customer_details'') ''email'')
                            (nc (opt_get obj ''customer_email'')
                              (nc (opt_get (opt_get obj ''customer'') ''email'') Null)),
                        planId :=
                          nc (opt_get (opt_get obj ''metadata'') ''plan_id'')
                            (nc (opt_get (opt_get obj ''metadata'') ''product_name'') Null) \<rparr>
               else if ty = Str ''payment_intent.succeeded'' then
                 (let charges0 = opt_first (opt_get (opt_get obj ''charges'') ''data'')
                  in base \<lparr> customerId := nc (opt_get obj ''customer'') Null,
                            checkoutSessionId :=
                              nc (opt_get (opt_get obj ''metadata'') ''checkout_session_id'')
                                (nc (opt_get obj ''latest_charge'') Null),
                            email :=
                              nc (opt_get (opt_get charges0 ''billing_details'') ''email'')
                                (nc (opt_get obj ''receipt_email'')
                                  (nc (opt_get (opt_get obj ''customer'') ''email'') Null)),
                            planId :=
                              nc (opt_get (opt_get obj ''metadata'') ''plan_id'')
                                (nc (opt_get (opt_get obj ''metadata'') ''product_name'') Null) \<rparr>)
               else base)))"

text \<open>The handler's two event-type tests, \<^verbatim>\<open>shouldSend\<close> and \<^verbatim>\<open>shouldProcessDb\<close>.\<close>

definition shouldSend :: "jsval \<Rightarrow> bool" where
  "shouldSend evt =
     (let ty = opt_get evt ''type''
      in ty = Str ''checkout.session.completed'' \<or> ty = Str ''payment_intent.succeeded''
         \<or> ty = Str ''invoice.paid'')"

definition shouldProcessDb :: "jsval \<Rightarrow> bool" where
  "shouldProcessDb evt =
     (let ty = opt_get evt ''type''
      in ty = Str ''checkout.session.completed'' \<or> ty = Str ''payment_intent.succeeded'')"

section \<open>Premium status client\<close>

text \<open>
  \<^verbatim>\<open>getPremiumStatus\<close> calls \<^verbatim>\<open>fetch\<close>. What the network answers is an input of the
  model: either \<^verbatim>\<open>fetch\<close> rejects with an error carrying a message, or a response
  arrives with its status, its text (\<open>None\<close> when \<^verbatim>\<open>res.text()\<close> rejects) and the
  outcome of \<^verbatim>\<open>res.json()\<close> (\<open>Inl\<close> the message of the error it rejects with).
\<close>

datatype fetch_result =
    NetworkError string
  | HttpResponse nat "string option" "string + jsval"

record PremiumStatusResponse =
  isPremium :: bool
  member :: jsval
  error :: jsval

text \<open>\<^verbatim>\<open>res.ok\<close>\<close>

definition res_ok :: "nat \<Rightarrow> bool" where
  "res_ok st = (200 \<le> st \<and> st \<le> 299)"

text \<open>The message of the TypeError that reading a property of \<^verbatim>\<open>null\<close> raises.\<close>

definition null_read_message :: string where
  "null_read_message = ''Cannot read properties of null (reading 'isPremium')''"

text \<open>
  The body of the \<^verbatim>\<open>try\<close> block, given the answer to the request: \<open>Inl\<close> is the message
  of the error the \<^verbatim>\<open>catch\<close> clause receives.
\<close>

definition premium_try :: "fetch_result \<Rightarrow> string + PremiumStatusResponse" where
  "premium_try r =
     (case r of
        NetworkError msg \<Rightarrow> Inl msg
      | HttpResponse st txt js \<Rightarrow>
          if \<not> res_ok st then
            Inr \<lparr> isPremium = False, member = Null,
                  error = Str (''http_'' @ show_nat st @ '': ''
                               @ (case txt of None \<Rightarrow> [] | Some t \<Rightarrow> t)) \<rparr>
          else
            (case js of
               Inl msg \<Rightarrow> Inl msg
             | Inr data \<Rightarrow>
                 if nullish data then Inl null_read_message
                 else Inr \<lparr> isPremium = truthy (opt_get data ''isPremium''),
                            member = nc (opt_get data ''member'') Null,
                            error = opt_get data ''error'' \<rparr>))"

text \<open>
  \<^verbatim>\<open>getPremiumStatus\<close>; \<open>fetch\<close> maps the e-mail address sent in the request body to
  the answer of the network.
\<close>

definition getPremiumStatus :: "(string \<Rightarrow> fetch_result) \<Rightarrow> string \<Rightarrow> PremiumStatusResponse" where
  "getPremiumStatus fetch email_in =
     (if trim email_in = [] then
        \<lparr> isPremium = False, member = Null, error = Str ''empty_email'' \<rparr>
      else
        (case premium_try (fetch (toLowerCase (trim email_in))) of
           Inl msg \<Rightarrow> \<lparr> isPremium = False, member = Null, error = Str msg \<rparr>
         | Inr resp \<Rightarrow> resp))"

text \<open>
  The failure paths of \<^verbatim>\<open>getPremiumStatus\<close>: an empty or blank address, a rejected
  request, a status outside 200..299, a body that is not JSON, and the JSON body
  \<^verbatim>\<open>null\<close>, whose first property read raises.
\<close>

definition premium_failure :: "(string \<Rightarrow> fetch_result) \<Rightarrow> string \<Rightarrow> bool" where
  "premium_failure fetch email_in =
     (trim email_in = [] \<or>
      (case fetch (toLowerCase (trim email_in)) of
         NetworkError msg \<Rightarrow> True
       | HttpResponse st txt js \<Rightarrow> \<not> res_ok st \<or> (case js of Inl msg \<Rightarrow> True | Inr d \<Rightarrow> nullish d)))"

text \<open>The message of the error that the platform raises during the request, if it does.\<close>

definition raised_message :: "fetch_result \<Rightarrow> string option" where
  "raised_message r =
     (case r of
        NetworkError msg \<Rightarrow> Some msg
      | HttpResponse st txt js \<Rightarrow>
          (if res_ok st then (case js of Inl msg \<Rightarrow> Some msg | Inr d \<Rightarrow> None) else None))"

section \<open>Configuration, platform, requests and responses\<close>

text \<open>
  The values exported by \<^verbatim>\<open>_shared/config.ts\<close> that the handlers read. \<^verbatim>\<open>read\<close> yields
  \<^verbatim>\<open>null\<close> (\<open>None\<close>) or a trimmed string; \<^verbatim>\<open>db\<close> exists when both the URL and the
  service-role key are set.
\<close>

record config =
  stripeWebhookSecret :: "string option"
  brevoApiKey :: "string option"
  emailFrom :: "string option"
  requireGumroadAuth :: bool
  gumroadWebhookSecret :: "string option"
  gumroadSellerId :: "string option"
  payhipApiKey :: "string option"
  telegramBotToken :: "string option"
  telegramCommunityChatId :: "string option"
  supabaseUrl :: string
  supabaseServiceRoleKey :: string

definition db :: "config \<Rightarrow> bool" where
  "db cfg = (supabaseUrl cfg \<noteq> [] \<and> supabaseServiceRoleKey cfg \<noteq> [])"

text \<open>Truthiness of a \<^verbatim>\<open>string | null\<close> value.\<close>

definition configured :: "string option \<Rightarrow> bool" where
  "configured v = (case v of None \<Rightarrow> False | Some s \<Rightarrow> s \<noteq> [])"

text \<open>
  The primitives of the runtime that the handlers call: HMAC-SHA256 in hexadecimal
  (secret, then message), \<^verbatim>\<open>JSON.parse\<close> (\<open>None\<close> when it raises), the entries of
  \<^verbatim>\<open>URLSearchParams\<close>, and \<^verbatim>\<open>Number.isFinite(Number(s))\<close>.
\<close>

record platform =
  hmacSHA256Hex :: "string \<Rightarrow> string \<Rightarrow> string"
  JSON_parse :: "string \<Rightarrow> jsval option"
  form_entries :: "string \<Rightarrow> (string \<times> string) list"
  finite_number :: "string \<Rightarrow> bool"

text \<open>A request: its method, its headers by lower-case name, and its raw body.\<close>

record request =
  req_method :: string
  headers :: "string \<Rightarrow> string option"
  req_body :: string

text \<open>\<^verbatim>\<open>req.headers.get(name)\<close>: header names are case-insensitive.\<close>

definition header :: "request \<Rightarrow> string \<Rightarrow> string option" where
  "header req name = headers req (toLowerCase name)"

datatype body = Json jsval | Text string

datatype response = Response nat body

fun status :: "response \<Rightarrow> nat" where
  "status (Response st b) = st"

text \<open>An early \<^verbatim>\<open>return\<close>, an exception, or the value to go on with.\<close>

datatype 'a step = Throw exn | Reply response | Cont 'a

section \<open>Database and outbound calls\<close>

text \<open>
  A row maps column names to SQL values, \<open>None\<close> for NULL; values are kept as text. The
  write requests that the handlers issue through the Supabase client are
  \<open>Upsert table row onConflict ignoreDuplicates\<close>, \<open>Insert table row\<close> and
  \<open>Update table values column key\<close> (\<^verbatim>\<open>update(values).eq(column, key)\<close>).
\<close>

type_synonym row = "(string \<times> string option) list"

datatype dbop =
    Upsert string row string bool
  | Insert string row
  | Update string row string string

datatype notification =
    BrevoEmail jsval string
  | TelegramNotify string string
  | AutoInvite string

text \<open>
  The state outside the handler: the tables, the log of the write requests issued, and the
  log of the outbound notification calls (e-mail through Brevo, Telegram message,
  Telegram invite).
\<close>

record world =
  tables :: "string \<Rightarrow> row list"
  writes :: "dbop list"
  notifications :: "notification list"

text \<open>
  What the outside answers during one request: the clock, which write requests the
  database rejects and with which message, the column values the database fills in on
  insertion, the failure of the Brevo call if any, and the signed URLs of the storage.
\<close>

record outcomes =
  now :: string
  db_fails :: "dbop \<Rightarrow> bool"
  db_message :: string
  defaults :: "string \<Rightarrow> row"
  brevo_error :: "string option"
  pdf_signed_url :: "string option"
  csv_signed_url :: "string option"

text \<open>
  The SQL value of a JavaScript value sent in a row. The client sends the row as JSON and
  the columns are text: a string is stored as it is, a number and a boolean as printed,
  an array or an object as its JSON text.
\<close>

fun sql_text :: "jsval \<Rightarrow> string" where
  "sql_text (Str s) = s"
| "sql_text v = json_text v"

definition cell :: "jsval \<Rightarrow> string option" where
  "cell v = (if nullish v then None else Some (sql_text v))"

text \<open>\<^verbatim>\<open>JSON.stringify\<close> of a row literal leaves out the properties that are undefined.\<close>

definition json_row :: "(string \<times> jsval) list \<Rightarrow> row" where
  "json_row ps = map (\<lambda>(c, v). (c, cell v)) (filter (\<lambda>(c, v). v \<noteq> Undefined) ps)"

definition col :: "row \<Rightarrow> string \<Rightarrow> string option" where
  "col r c = (case map_of r c of None \<Rightarrow> None | Some v \<Rightarrow> v)"

fun set_col :: "string \<Rightarrow> string option \<Rightarrow> row \<Rightarrow> row" where
  "set_col c v [] = [(c, v)]"
| "set_col c v ((c', v') # r) = (if c' = c then (c, v) # r else (c', v') # set_col c v r)"

definition merge_row :: "row \<Rightarrow> row \<Rightarrow> row" where
  "merge_row old new = foldl (\<lambda>r (c, v). set_col c v r) old new"

text \<open>
  \<open>INSERT ... ON CONFLICT (c)\<close>: a row whose key is NULL never conflicts; on a conflict
  the row is left alone (\<^verbatim>\<open>ignoreDuplicates\<close>) or takes the new values. The second
  component is the list of rows the statement returns.
\<close>

definition db_upsert :: "row \<Rightarrow> row \<Rightarrow> string \<Rightarrow> bool \<Rightarrow> row list \<Rightarrow> row list \<times> row list" where
  "db_upsert dflt new c ignoreDuplicates tbl =
     (case col new c of
        None \<Rightarrow> (tbl @ [merge_row dflt new], [merge_row dflt new])
      | Some k \<Rightarrow>
          if filter (\<lambda>r. col r c = Some k) tbl = [] then
            (tbl @ [merge_row dflt new], [merge_row dflt new])
          else if ignoreDuplicates then (tbl, [])
          else (map (\<lambda>r. if col r c = Some k then merge_row r new else r) tbl,
                map (\<lambda>r. merge_row r new) (filter (\<lambda>r. col r c = Some k) tbl)))"

definition db_update :: "row \<Rightarrow> string \<Rightarrow> string \<Rightarrow> row list \<Rightarrow> row list" where
  "db_update vals c k tbl = map (\<lambda>r. if col r c = Some k then merge_row r vals else r) tbl"

text \<open>
  One write request: it is logged, and unless the database rejects it (\<open>None\<close>, the
  \<^verbatim>\<open>error\<close> of the client's result) the table changes and the returned rows come back.
\<close>

definition exec :: "outcomes \<Rightarrow> dbop \<Rightarrow> world \<Rightarrow> row list option \<times> world" where
  "exec oc q w =
     (let w' = w \<lparr> writes := writes w @ [q] \<rparr>
      in if db_fails oc q then (None, w')
         else
           (case q of
              Upsert t new c ign \<Rightarrow>
                (let res = db_upsert (defaults oc t) new c ign (tables w t)
                 in (Some (snd res), w' \<lparr> tables := (tables w)(t := fst res) \<rparr>))
            | Insert t new \<Rightarrow>
                (Some [], w' \<lparr> tables := (tables w)(t := tables w t @ [merge_row (defaults oc t) new]) \<rparr>)
            | Update t vals c k \<Rightarrow>
                (Some [], w' \<lparr> tables := (tables w)(t := db_update vals c k (tables w t)) \<rparr>)))"

section \<open>Card-processor webhook: handler\<close>

definition bad :: "string \<Rightarrow> nat \<Rightarrow> response" where
  "bad msg st = Response st (Json (Obj [(''ok'', Bool False), (''error'', Str msg)]))"

definition ok :: "jsval \<Rightarrow> response" where
  "ok data = Response 200 (Json data)"

text \<open>
  The handler up to \<^verbatim>\<open>JSON.parse\<close>: health check, configuration, signature. The first
  read of the parsed event (\<^verbatim>\<open>evt.id\<close> with a database, \<^verbatim>\<open>evt.type\<close> without) raises a
  TypeError when the body is the JSON value \<^verbatim>\<open>null\<close>; nothing is written before it.
\<close>

definition stripe_gate :: "config \<Rightarrow> platform \<Rightarrow> request \<Rightarrow> jsval step" where
  "stripe_gate cfg plat req =
     (if req_method req = ''GET'' then Reply (ok (Obj [(''status'', Str ''ok'')]))
      else
        (case stripeWebhookSecret cfg of
           None \<Rightarrow> Reply (bad ''server not configured (secret)'' 500)
         | Some secret \<Rightarrow>
             if secret = [] then Reply (bad ''server not configured (secret)'' 500)
             else if \<not> configured (brevoApiKey cfg) \<or> \<not> configured (emailFrom cfg)
             then Reply (bad ''server not configured (email)'' 500)
             else
               (case header req ''stripe-signature'' of
                  None \<Rightarrow> Reply (bad ''missing signature'' 400)
                | Some sigHeader \<Rightarrow>
                    if sigHeader = [] then Reply (bad ''missing signature'' 400)
                    else
                      (case verifyStripeSignature (hmacSHA256Hex plat) (req_body req) sigHeader secret of
                         Inl e \<Rightarrow> Throw e
                       | Inr valid \<Rightarrow>
                           if \<not> valid then Reply (bad ''bad signature'' 400)
                           else
                             (case JSON_parse plat (req_body req) of
                                None \<Rightarrow> Throw SyntaxError
                              | Some evt \<Rightarrow> if nullish evt then Throw TypeError else Cont evt)))))"

text \<open>
  The idempotency ledger: \<open>True\<close> when the event is a duplicate, that is when the upsert
  succeeds and returns no row. Without a database there is no ledger.
\<close>

definition ledger_op :: "jsval \<Rightarrow> dbop" where
  "ledger_op evt =
     Upsert ''stripe_event_ledger''
       (json_row [(''event_id'', opt_get evt ''id''), (''event_type'', opt_get evt ''type'')])
       ''event_id'' True"

definition stripe_ledger :: "config \<Rightarrow> outcomes \<Rightarrow> jsval \<Rightarrow> world \<Rightarrow> bool \<times> world" where
  "stripe_ledger cfg oc evt w =
     (if db cfg then
        (let res = exec oc (ledger_op evt) w
         in (case fst res of
               None \<Rightarrow> (False, snd res)
             | Some rows \<Rightarrow> (rows = [], snd res)))
      else (False, w))"

text \<open>The two upserts of a completed checkout: the customer, then the subscription.\<close>

definition customer_op :: "NormalizedStripeInfo \<Rightarrow> jsval \<Rightarrow> dbop" where
  "customer_op n buyerEmail =
     Upsert ''customers''
       (json_row [(''stripe_customer_id'', customerId n), (''email'', nc buyerEmail (Str []))])
       ''stripe_customer_id'' False"

definition subscription_op :: "outcomes \<Rightarrow> NormalizedStripeInfo \<Rightarrow> string option \<Rightarrow> dbop" where
  "subscription_op oc n customer_id =
     Upsert ''premium_subscriptions''
       ((''customer_id'', customer_id) #
        json_row [(''stripe_subscription_id'', Null),
                  (''stripe_checkout_session_id'', checkoutSessionId n),
                  (''status'', Str ''active''),
                  (''plan_id'', nc (planId n) (Str (productName n))),
                  (''last_event_at'', Str (now oc))])
       ''stripe_checkout_session_id'' False"

definition stripe_upserts :: "outcomes \<Rightarrow> NormalizedStripeInfo \<Rightarrow> jsval \<Rightarrow> world \<Rightarrow> world" where
  "stripe_upserts oc n buyerEmail w =
     (let customerRes = exec oc (customer_op n buyerEmail) w;
          customer_id = (case fst customerRes of Some [r] \<Rightarrow> col r ''id'' | _ \<Rightarrow> None)
      in snd (exec oc (subscription_op oc n customer_id) (snd customerRes)))"

text \<open>
  \<^verbatim>\<open>sendOnboardingEmail\<close>: one call to Brevo; its failure is caught and returned
  (\<open>None\<close> is \<^verbatim>\<open>{ ok: true }\<close>).
\<close>

definition sendOnboardingEmail ::
  "outcomes \<Rightarrow> jsval \<Rightarrow> string \<Rightarrow> world \<Rightarrow> string option \<times> world" where
  "sendOnboardingEmail oc to product w =
     (brevo_error oc, w \<lparr> notifications := notifications w @ [BrevoEmail to product] \<rparr>)"

definition onboarding_op :: "NormalizedStripeInfo \<Rightarrow> jsval \<Rightarrow> string option \<Rightarrow> dbop" where
  "onboarding_op n buyerEmail brevo =
     Insert ''onboarding_emails''
       (json_row [(''to_email'', buyerEmail),
                  (''product_name'', Str (productName n)),
                  (''event_id'', Str (eventId n)),
                  (''stripe_checkout_session_id'', checkoutSessionId n),
                  (''stripe_customer_id'', customerId n),
                  (''status'', Str (if brevo = None then ''sent'' else ''error'')),
                  (''error_message'', (case brevo of None \<Rightarrow> Null | Some m \<Rightarrow> Str m))])"

text \<open>
  The handler after the event is parsed. An exception of the normalization, raised after
  the ledger upsert, is caught by the handler's outer \<^verbatim>\<open>try\<close>.
\<close>

definition stripe_process :: "config \<Rightarrow> outcomes \<Rightarrow> jsval \<Rightarrow> world \<Rightarrow> response \<times> world" where
  "stripe_process cfg oc evt w =
     (let led = stripe_ledger cfg oc evt w; w1 = snd led
      in if fst led then (ok (Obj [(''received'', Bool True), (''duplicate'', Bool True)]), w1)
         else if \<not> shouldSend evt then (ok (Obj [(''ignored'', Bool True)]), w1)
         else
           (case normalizeStripeEvent evt of
              Inl e \<Rightarrow> (bad ''internal error'' 500, w1)
            | Inr normalized \<Rightarrow>
                (let buyerEmail = nc (email normalized) (extractBuyerEmail evt)
                 in if \<not> truthy buyerEmail
                    then (ok (Obj [(''skipped'', Bool True), (''reason'', Str ''no_email'')]), w1)
                    else
                      (let w2 = (if db cfg \<and> shouldProcessDb evt
                                 then stripe_upserts oc normalized buyerEmail w1 else w1);
                           sent = sendOnboardingEmail oc buyerEmail (productName normalized) w2;
                           brevo = fst sent;
                           w3 = snd sent;
                           w4 = (if db cfg
                                 then snd (exec oc (onboarding_op normalized buyerEmail brevo) w3)
                                 else w3)
                       in (ok (Obj [(''received'', Bool True), (''sent'', Bool (brevo = None))]), w4)))))"

text \<open>
  The whole handler: an exception becomes \<^verbatim>\<open>500 internal error\<close>. Before the event is
  parsed nothing has been written.
\<close>

definition stripe_serve ::
  "config \<Rightarrow> platform \<Rightarrow> outcomes \<Rightarrow> request \<Rightarrow> world \<Rightarrow> response \<times> world" where
  "stripe_serve cfg plat oc req w =
     (case stripe_gate cfg plat req of
        Throw e \<Rightarrow> (bad ''internal error'' 500, w)
      | Reply r \<Rightarrow> (r, w)
      | Cont evt \<Rightarrow> stripe_process cfg oc evt w)"

section \<open>Marketplace webhook: Gumroad\<close>

text \<open>
  \<^verbatim>\<open>parseForm\<close>: a later entry with the same name overwrites an earlier one, so the
  entries are listed last first.
\<close>

definition parseForm :: "platform \<Rightarrow> string \<Rightarrow> jsval" where
  "parseForm plat raw = Obj (rev (map (\<lambda>(k, v). (k, Str v)) (form_entries plat raw)))"

text \<open>\<^verbatim>\<open>parseBody\<close>: \<^verbatim>\<open>req.json()\<close> raises on a body that is not JSON.\<close>

definition parseBody :: "platform \<Rightarrow> request \<Rightarrow> exn + jsval" where
  "parseBody plat req =
     (let ct = toLowerCase (case header req ''content-type'' of None \<Rightarrow> [] | Some h \<Rightarrow> h)
      in if includes_js ct ''application/json'' then
           (case JSON_parse plat (req_body req) of None \<Rightarrow> Inl SyntaxError | Some v \<Rightarrow> Inr v)
         else if includes_js ct ''application/x-www-form-urlencoded'' then
           Inr (parseForm plat (req_body req))
         else
           (case JSON_parse plat (req_body req) of
              None \<Rightarrow> Inr (Obj [(''raw'', Str (req_body req))])
            | Some v \<Rightarrow> Inr v))"

text \<open>\<^verbatim>\<open>actionOf\<close>\<close>

definition actionOf :: "jsval \<Rightarrow> exn + string" where
  "actionOf p =
     (if nullish p then Inl TypeError
      else then_str (nc (opt_get p ''action'') (nc (opt_get p ''resource_name'') (Str [])))
             (\<lambda>a. Inr (toLowerCase a)))"

text \<open>\<^verbatim>\<open>verifyHmac\<close> of the Gumroad handler.\<close>

definition gumroad_verifyHmac :: "config \<Rightarrow> platform \<Rightarrow> request \<Rightarrow> string \<Rightarrow> bool" where
  "gumroad_verifyHmac cfg plat req raw =
     (case gumroadWebhookSecret cfg of
        None \<Rightarrow> False
      | Some secret \<Rightarrow>
          if secret = [] then False
          else
            (let hdr = (case header req ''X-Gumroad-Signature'' of
                          Some h \<Rightarrow> h
                        | None \<Rightarrow> (case header req ''x-gumroad-signature'' of Some h \<Rightarrow> h | None \<Rightarrow> []))
             in if hdr = [] then False
                else toLowerCase (hmacSHA256Hex plat secret raw) = toLowerCase (trim hdr)))"

text \<open>
  The authentication block of \<^verbatim>\<open>serve\<close>: the header HMAC, else the secret and the seller
  id carried in the body, each compared only when it is configured.
\<close>

definition gumroad_authed :: "config \<Rightarrow> platform \<Rightarrow> request \<Rightarrow> jsval \<Rightarrow> bool" where
  "gumroad_authed cfg plat req payload =
     (if gumroad_verifyHmac cfg plat req (req_body req) then True
      else
        (let gotSecret = nc (opt_get payload ''secret'') (opt_get (opt_get payload ''custom_fields'') ''secret'');
             gotSeller = nc (opt_get payload ''seller_id'') (opt_get (opt_get payload ''seller'') ''id'')
         in (if configured (gumroadWebhookSecret cfg)
             then Some gotSecret = map_option Str (gumroadWebhookSecret cfg) else True)
            \<and> (if configured (gumroadSellerId cfg)
               then Some gotSeller = map_option Str (gumroadSellerId cfg) else True)))"

text \<open>\<^verbatim>\<open>x || null\<close> for a string \<open>x\<close>.\<close>

definition or_null :: "string \<Rightarrow> jsval" where
  "or_null x = (if x = [] then Null else Str x)"

definition opt_str :: "string option \<Rightarrow> jsval" where
  "opt_str v = (case v of None \<Rightarrow> Null | Some x \<Rightarrow> Str x)"

text \<open>
  \<^verbatim>\<open>handleSale\<close>. \<^verbatim>\<open>supa()\<close> raises when there is no database; the Telegram message and
  the invite are sent after a successful upsert, and the signed URLs are stored last.
\<close>

definition sale_op :: "string \<Rightarrow> string \<Rightarrow> string \<Rightarrow> string \<Rightarrow> string \<Rightarrow> dbop" where
  "sale_op sale_id email_addr productId sellerId fullName =
     Upsert ''subscribers''
       (json_row [(''sale_id'', Str sale_id),
                  (''email'', Str email_addr),
                  (''product_id'', or_null productId),
                  (''seller_id'', or_null sellerId),
                  (''full_name'', or_null fullName)])
       ''sale_id'' False"

definition telegram_notify :: "config \<Rightarrow> string \<Rightarrow> string \<Rightarrow> world \<Rightarrow> world" where
  "telegram_notify cfg email_addr productId w =
     (if configured (telegramBotToken cfg) \<and> configured (telegramCommunityChatId cfg)
      then w \<lparr> notifications := notifications w @
                 [TelegramNotify email_addr (if productId = [] then ''n/a'' else productId)] \<rparr>
      else w)"

text \<open>The invite block: its \<^verbatim>\<open>try\<close> catches the exception of the conversion.\<close>

definition auto_invite :: "config \<Rightarrow> platform \<Rightarrow> jsval \<Rightarrow> world \<Rightarrow> world" where
  "auto_invite cfg plat p w =
     (case String (nc (opt_get p ''telegram_user_id'')
                  (nc (opt_get (opt_get p ''custom_fields'') ''telegram_user_id'')
                  (nc (opt_get p ''telegram_id'')
                  (nc (opt_get (opt_get p ''custom_fields'') ''telegram_id'')
                  (nc (opt_get p ''telegram'') (Str [])))))) of
        Inl e \<Rightarrow> w
      | Inr tg \<Rightarrow>
          (let rawTg = dropWhile (\<lambda>c. c = CHR ''@'') tg
           in if rawTg \<noteq> [] \<and> finite_number plat rawTg \<and> supabaseUrl cfg \<noteq> [] \<and>
                 supabaseServiceRoleKey cfg \<noteq> []
              then w \<lparr> notifications := notifications w @ [AutoInvite rawTg] \<rparr>
              else w))"

text \<open>
  \<^verbatim>\<open>handleSale\<close> after the five conversions, which are outside any \<^verbatim>\<open>try\<close>: the check
  of the sale id and the address, the upsert, the notifications, the signed URLs.
\<close>

definition sale_write ::
  "config \<Rightarrow> platform \<Rightarrow> outcomes \<Rightarrow> jsval \<Rightarrow> string \<Rightarrow> string \<Rightarrow> string \<Rightarrow> string \<Rightarrow> string \<Rightarrow>
   world \<Rightarrow> jsval \<times> world" where
  "sale_write cfg plat oc p sale_id email_addr productId sellerId fullName w =
     (if sale_id = [] \<or> email_addr = []
      then (Obj [(''ok'', Bool False), (''error'', Str ''missing_sale_or_email'')], w)
      else
        (let res = exec oc (sale_op sale_id email_addr productId sellerId fullName) w
         in if fst res = None
            then (Obj [(''ok'', Bool False), (''error'', Str (db_message oc))], snd res)
            else
              (let w1 = telegram_notify cfg email_addr productId (snd res);
                   w2 = auto_invite cfg plat p w1;
                   w3 = snd (exec oc
                          (Update ''subscribers''
                             (json_row [(''pdf_url'', opt_str (pdf_signed_url oc)),
                                        (''csv_url'', opt_str (csv_signed_url oc))])
                             ''sale_id'' sale_id) w2)
               in (Obj [(''ok'', Bool True),
                        (''pdf_url'', opt_str (pdf_signed_url oc)),
                        (''csv_url'', opt_str (csv_signed_url oc))], w3))))"

definition handleSale ::
  "config \<Rightarrow> platform \<Rightarrow> outcomes \<Rightarrow> jsval \<Rightarrow> world \<Rightarrow> exn + (jsval \<times> world)" where
  "handleSale cfg plat oc p w =
     (if \<not> db cfg then Inl (Error ''supabase not configured'')
      else if nullish p then Inl TypeError
      else
        then_str (nc (opt_get p ''sale_id'') (nc (opt_get p ''id'') (Str []))) (\<lambda>sale_id.
        then_str (nc (opt_get p ''email'') (nc (opt_get p ''purchaser_email'') (Str []))) (\<lambda>email_addr.
        then_str (nc (opt_get p ''product_id'') (nc (opt_get (opt_get p ''product'') ''id'') (Str []))) (\<lambda>productId.
        then_str (nc (opt_get p ''seller_id'') (nc (opt_get (opt_get p ''seller'') ''id'') (Str []))) (\<lambda>sellerId.
        then_str (nc (opt_get p ''full_name'') (nc (opt_get p ''purchaser_name'') (Str []))) (\<lambda>fullName.
          Inr (sale_write cfg plat oc p sale_id email_addr productId sellerId fullName w)))))))"

text \<open>
  The refund branch of \<^verbatim>\<open>serve\<close>: the exceptions of \<^verbatim>\<open>supa()\<close> and of the
  conversion are caught, and the update is issued only for a sale id that is not empty.
\<close>

definition revoke_op :: "outcomes \<Rightarrow> string \<Rightarrow> dbop" where
  "revoke_op oc sale_id =
     Update ''subscribers'' (json_row [(''revoked_at'', Str (now oc))]) ''sale_id'' sale_id"

definition gumroad_revoke :: "config \<Rightarrow> outcomes \<Rightarrow> jsval \<Rightarrow> world \<Rightarrow> world" where
  "gumroad_revoke cfg oc payload w =
     (if \<not> db cfg then w
      else
        (case String (nc (opt_get payload ''sale_id'') (nc (opt_get payload ''id'') (Str []))) of
           Inl e \<Rightarrow> w
         | Inr sale_id \<Rightarrow> if sale_id = [] then w else snd (exec oc (revoke_op oc sale_id) w)))"

definition json200 :: "jsval \<Rightarrow> response" where
  "json200 data = Response 200 (Json data)"

text \<open>
  \<^verbatim>\<open>serve\<close> of the Gumroad handler. \<open>Inl\<close> is an exception that leaves the handler.
  Rebuilding the request with a body raises a TypeError for the methods GET and HEAD.
\<close>

definition gumroad_serve ::
  "config \<Rightarrow> platform \<Rightarrow> outcomes \<Rightarrow> request \<Rightarrow> world \<Rightarrow> (exn + response) \<times> world" where
  "gumroad_serve cfg plat oc req w =
     (if req_method req = ''GET'' \<or> req_method req = ''HEAD'' then (Inl TypeError, w)
      else
        (case parseBody plat req of
           Inl e \<Rightarrow> (Inl e, w)
         | Inr payload \<Rightarrow>
             (case actionOf payload of
                Inl e \<Rightarrow> (Inl e, w)
              | Inr action \<Rightarrow>
                  if action = ''ping''
                  then (Inr (json200 (Obj [(''ok'', Bool True), (''type'', Str ''ping'')])), w)
                  else if requireGumroadAuth cfg \<and> \<not> gumroad_authed cfg plat req payload
                  then (Inr (json200 (Obj [(''ok'', Bool False), (''error'', Str ''unauthorized'')])), w)
                  else if action = ''sale'' then
                    (case handleSale cfg plat oc payload w of
                       Inl e \<Rightarrow> (Inl e, w)
                     | Inr res \<Rightarrow> (Inr (json200 (fst res)), snd res))
                  else if action = ''refund'' \<or> action = ''chargeback'' \<or>
                          action = ''subscription_cancelled''
                  then (Inr (json200 (Obj [(''ok'', Bool True)])), gumroad_revoke cfg oc payload w)
                  else (Inr (json200 (Obj [(''ok'', Bool True),
                                           (''received'', Str (if action = [] then ''unknown'' else action))])),
                        w))))"

section \<open>Marketplace webhook: Payhip\<close>

text \<open>\<^verbatim>\<open>verifyHmac\<close> of the Payhip handler.\<close>

definition payhip_verifyHmac :: "config \<Rightarrow> platform \<Rightarrow> request \<Rightarrow> string \<Rightarrow> bool" where
  "payhip_verifyHmac cfg plat req raw =
     (case payhipApiKey cfg of
        None \<Rightarrow> False
      | Some secret \<Rightarrow>
          if secret = [] then False
          else
            (let hdr = (case header req ''X-Payhip-Signature'' of
                          None \<Rightarrow> (case header req ''x-payhip-signature'' of Some h \<Rightarrow> h | None \<Rightarrow> [])
                        | Some h \<Rightarrow>
                            if h \<noteq> [] then h
                            else (case header req ''x-payhip-signature'' of Some h' \<Rightarrow> h' | None \<Rightarrow> []))
             in if hdr = [] then False
                else toLowerCase (hmacSHA256Hex plat secret raw) = toLowerCase (trim hdr)))"

text \<open>\<^verbatim>\<open>upsert\<close>: the row is keyed by the e-mail address; the sale id is optional.\<close>

definition payhip_upsert_op :: "string \<Rightarrow> jsval \<Rightarrow> jsval \<Rightarrow> dbop" where
  "payhip_upsert_op email_addr sale_id product_id =
     Upsert ''subscribers''
       (json_row ([(''email'', Str email_addr), (''source'', Str ''payhip'')]
                  @ (if truthy sale_id then [(''sale_id'', sale_id)] else [])
                  @ (if truthy product_id then [(''product_id'', product_id)] else [])))
       ''email'' False"

text \<open>
  The \<^verbatim>\<open>try\<close> block of \<^verbatim>\<open>serve\<close> for a non-empty event name, in its two halves.
  \<open>Inl\<close> is an exception, which ends the block; each half raises, if it does, before its
  write. The first half is the sale: the conversion of the address, \<^verbatim>\<open>upsert\<close>, which
  returns at once for an empty address, and in it \<^verbatim>\<open>supa()\<close>.
\<close>

definition payhip_sale_part :: "config \<Rightarrow> outcomes \<Rightarrow> jsval \<Rightarrow> string \<Rightarrow> world \<Rightarrow> exn + world" where
  "payhip_sale_part cfg oc payload event w =
     (if includes_js event ''sale'' \<or> includes_js event ''purchase'' \<or> includes_js event ''completed''
      then
        then_str (lor (opt_get (opt_get payload ''customer'') ''email'')
                    (lor (opt_get payload ''email'') (Str []))) (\<lambda>email_addr.
          if email_addr = [] then Inr w
          else if \<not> db cfg then Inl (Error ''supabase not configured'')
          else Inr (snd (exec oc
                 (payhip_upsert_op email_addr
                    (lor (opt_get payload ''id'') (opt_get payload ''order_id''))
                    (opt_get payload ''product_id'')) w)))
      else Inr w)"

text \<open>The second half is the refund: \<^verbatim>\<open>supa()\<close>, the conversion of the sale id, the update.\<close>

definition payhip_refund_part :: "config \<Rightarrow> outcomes \<Rightarrow> jsval \<Rightarrow> string \<Rightarrow> world \<Rightarrow> exn + world" where
  "payhip_refund_part cfg oc payload event w =
     (if includes_js event ''refund'' \<or> includes_js event ''chargeback''
      then
        if \<not> db cfg then Inl (Error ''supabase not configured'')
        else
          then_str (lor (opt_get payload ''id'') (lor (opt_get payload ''order_id'') (Str []))) (\<lambda>sale_id.
            if sale_id = [] then Inr w else Inr (snd (exec oc (revoke_op oc sale_id) w)))
      else Inr w)"

definition payhip_event :: "config \<Rightarrow> outcomes \<Rightarrow> jsval \<Rightarrow> string \<Rightarrow> world \<Rightarrow> world" where
  "payhip_event cfg oc payload event w =
     (case payhip_sale_part cfg oc payload event w of
        Inl e \<Rightarrow> w
      | Inr w1 \<Rightarrow>
          (case payhip_refund_part cfg oc payload event w1 of
             Inl e \<Rightarrow> w1
           | Inr w2 \<Rightarrow> w2))"

text \<open>
  \<^verbatim>\<open>serve\<close> of the Payhip handler. The conversion of the event name is outside the
  \<^verbatim>\<open>try\<close> block: \<open>Inl\<close> is its exception, which leaves the handler.
\<close>

definition payhip_serve ::
  "config \<Rightarrow> platform \<Rightarrow> outcomes \<Rightarrow> request \<Rightarrow> world \<Rightarrow> (exn + response) \<times> world" where
  "payhip_serve cfg plat oc req w =
     (if req_method req \<noteq> ''POST'' then (Inr (Response 405 (Text ''Method Not Allowed'')), w)
      else if \<not> payhip_verifyHmac cfg plat req (req_body req)
      then (Inr (Response 401 (Json (Obj [(''ok'', Bool False), (''error'', Str ''unauthorized'')]))), w)
      else
        (let payload = (case JSON_parse plat (req_body req) of None \<Rightarrow> Obj [] | Some v \<Rightarrow> v)
         in case String (lor (opt_get payload ''event'') (lor (opt_get payload ''type'') (Str []))) of
              Inl e \<Rightarrow> (Inl e, w)
            | Inr event \<Rightarrow>
                (Inr (json200 (Obj [(''ok'', Bool True)])),
                 if event = [] then w else payhip_event cfg oc payload event w)))"

section \<open>Write sequences\<close>

text \<open>
  \<open>steps P w w'\<close>: the world \<open>w'\<close> comes from \<open>w\<close> by write requests that satisfy \<open>P\<close> and
  by outbound notification calls, in any number and order.
\<close>

inductive steps :: "(dbop \<Rightarrow> bool) \<Rightarrow> world \<Rightarrow> world \<Rightarrow> bool" for P :: "dbop \<Rightarrow> bool" where
  steps_refl: "steps P w w"
| steps_exec: "steps P w w1 \<Longrightarrow> P q \<Longrightarrow> steps P w (snd (exec oc q w1))"
| steps_notify: "steps P w w1 \<Longrightarrow> steps P w (w1 \<lparr> notifications := ns \<rparr>)"

text \<open>The conflict key of an upsert into a table of entitlements.\<close>

fun entitlement_key :: "dbop \<Rightarrow> string option" where
  "entitlement_key (Upsert t r c ign) =
     (if t = ''premium_subscriptions'' \<or> t = ''subscribers'' then Some c else None)"
| "entitlement_key (Insert t r) = None"
| "entitlement_key (Update t vals c k) = None"

text \<open>The table a write request addresses.\<close>

fun op_table :: "dbop \<Rightarrow> string" where
  "op_table (Upsert t r c ign) = t"
| "op_table (Insert t r) = t"
| "op_table (Update t vals c k) = t"

text \<open>The values of a write request, and whether they leave \<open>revoked_at\<close> set.\<close>

fun op_values :: "dbop \<Rightarrow> row" where
  "op_values (Upsert t r c ign) = r"
| "op_values (Insert t r) = r"
| "op_values (Update t vals c k) = vals"

definition revoke_safe :: "dbop \<Rightarrow> bool" where
  "revoke_safe q = list_all (\<lambda>cv. fst cv = ''revoked_at'' \<longrightarrow> snd cv \<noteq> None) (op_values q)"

text \<open>A write to the subscriptions of the card processor sets the status \<open>active\<close>.\<close>

definition activates :: "dbop \<Rightarrow> bool" where
  "activates q =
     (op_table q = ''premium_subscriptions'' \<longrightarrow> col (op_values q) ''status'' = Some ''active'')"

text \<open>
  What every write request of the handlers satisfies, \<open>k\<close> being the conflict key of the
  handler's entitlement upsert.
\<close>

definition allowed :: "string \<Rightarrow> dbop \<Rightarrow> bool" where
  "allowed k q =
     (revoke_safe q \<and> (entitlement_key q = None \<or> entitlement_key q = Some k) \<and> activates q)"

text \<open>The write requests of the card-processor handler never address the subscribers.\<close>

definition stripe_write :: "dbop \<Rightarrow> bool" where
  "stripe_write q = (allowed ''stripe_checkout_session_id'' q \<and> op_table q \<noteq> ''subscribers'')"

text \<open>The write requests issued between two worlds.\<close>

definition new_writes :: "world \<Rightarrow> world \<Rightarrow> dbop list" where
  "new_writes w w' = drop (length (writes w)) (writes w')"


text \<open>A subscriber row is revoked when its \<open>revoked_at\<close> is set.\<close>

definition revoked :: "row \<Rightarrow> bool" where
  "revoked r = (col r ''revoked_at'' \<noteq> None)"

text \<open>Every row of the old table is still there, and the revoked ones are still revoked.\<close>

definition keeps_revoked :: "row list \<Rightarrow> row list \<Rightarrow> bool" where
  "keeps_revoked tbl tbl' =
     (length tbl \<le> length tbl' \<and>
      list_all (\<lambda>i. revoked (tbl ! i) \<longrightarrow> revoked (tbl' ! i)) [0 ..< length tbl])"

text \<open>The event id \<open>k\<close> is in the ledger.\<close>

definition ledgered :: "string \<Rightarrow> world \<Rightarrow> bool" where
  "ledgered k w = (filter (\<lambda>r. col r ''event_id'' = Some k) (tables w ''stripe_event_ledger'') \<noteq> [])"




section \<open>Sample deliveries\<close>

text \<open>
  Concrete inputs on which the handlers are evaluated: a configuration with every secret
  set, a platform whose HMAC is a constant and whose JSON parser knows the sample bodies,
  outcomes without failures, and the world before any delivery.
\<close>

definition sample_config :: config where
  "sample_config =
     \<lparr> stripeWebhookSecret = Some ''whsec_1'',
       brevoApiKey = Some ''brevo_key'',
       emailFrom = Some ''shop@example.com'',
       requireGumroadAuth = True,
       gumroadWebhookSecret = Some ''gumroad_secret'',
       gumroadSellerId = None,
       payhipApiKey = Some ''payhip_key'',
       telegramBotToken = None,
       telegramCommunityChatId = None,
       supabaseUrl = ''https://db.example.com'',
       supabaseServiceRoleKey = ''service_role'' \<rparr>"

text \<open>The same configuration with the authentication of Gumroad deliveries switched off.\<close>

definition open_config :: config where
  "open_config = sample_config \<lparr> requireGumroadAuth := False \<rparr>"

definition checkout_event :: jsval where
  "checkout_event =
     Obj [(''id'', Str ''evt_1''),
          (''type'', Str ''checkout.session.completed''),
          (''data'', Obj [(''object'', Obj [
             (''id'', Str ''cs_1''),
             (''customer'', Str ''cus_1''),
             (''customer_details'', Obj [(''email'', Str ''a@b.com'')]),
             (''metadata'', Obj [(''plan_id'', Str ''premium_telegram'')])])])]"

text \<open>
  A completed checkout whose product name is an object with a property \<^verbatim>\<open>toString\<close> that
  is not a function: its conversion to a string raises.
\<close>

definition unnamed_event :: jsval where
  "unnamed_event =
     Obj [(''id'', Str ''evt_3''),
          (''type'', Str ''checkout.session.completed''),
          (''data'', Obj [(''object'', Obj [
             (''id'', Str ''cs_3''),
             (''customer_details'', Obj [(''email'', Str ''a@b.com'')]),
             (''metadata'', Obj [(''product_name'', Obj [(''toString'', Null)])])])])]"

definition refund_event :: jsval where
  "refund_event =
     Obj [(''id'', Str ''evt_2''),
          (''type'', Str ''charge.refunded''),
          (''data'', Obj [(''object'', Obj [
             (''id'', Str ''ch_1''),
             (''metadata'', Obj [(''checkout_session_id'', Str ''cs_1'')])])])]"

definition gumroad_sale :: jsval where
  "gumroad_sale =
     Obj [(''action'', Str ''sale''), (''sale_id'', Str ''S1''), (''email'', Str ''a@b.com'')]"

text \<open>A Gumroad sale that carries the configured secret in its body.\<close>

definition gumroad_secret_sale :: jsval where
  "gumroad_secret_sale =
     Obj [(''action'', Str ''sale''), (''sale_id'', Str ''S2''), (''email'', Str ''c@d.com''),
          (''secret'', Str ''gumroad_secret'')]"

definition payhip_sale :: jsval where
  "payhip_sale =
     Obj [(''event'', Str ''sale.completed''), (''id'', Str ''P1''), (''email'', Str ''a@b.com'')]"

definition payhip_refund :: jsval where
  "payhip_refund = Obj [(''event'', Str ''refunded''), (''id'', Str ''P1'')]"

definition gumroad_refund :: jsval where
  "gumroad_refund = Obj [(''action'', Str ''refund''), (''sale_id'', Str ''S1'')]"

text \<open>The bodies of the sample deliveries, as the JSON texts that carry the values above.\<close>

definition checkout_body :: string where
  \<open>checkout_body = ''{"id":"evt_1","type":"checkout.session.completed","data":{"object":{"id":"cs_1","customer":"cus_1","customer_details":{"email":"a@b.com"},"metadata":{"plan_id":"premium_telegram"}}}}''\<close>

definition refund_body :: string where
  \<open>refund_body = ''{"id":"evt_2","type":"charge.refunded","data":{"object":{"id":"ch_1","metadata":{"checkout_session_id":"cs_1"}}}}''\<close>

definition gumroad_sale_body :: string where
  \<open>gumroad_sale_body = ''{"action":"sale","sale_id":"S1","email":"a@b.com"}''\<close>

definition gumroad_refund_body :: string where
  \<open>gumroad_refund_body = ''{"action":"refund","sale_id":"S1"}''\<close>

definition gumroad_secret_sale_body :: string where
  \<open>gumroad_secret_sale_body = ''{"action":"sale","sale_id":"S2","email":"c@d.com","secret":"gumroad_secret"}''\<close>

definition unnamed_body :: string where
  \<open>unnamed_body = ''{"id":"evt_3","type":"checkout.session.completed","data":{"object":{"id":"cs_3","customer_details":{"email":"a@b.com"},"metadata":{"product_name":{"toString":null}}}}}''\<close>

definition payhip_sale_body :: string where
  \<open>payhip_sale_body = ''{"event":"sale.completed","id":"P1","email":"a@b.com"}''\<close>

definition payhip_refund_body :: string where
  \<open>payhip_refund_body = ''{"event":"refunded","id":"P1"}''\<close>

definition sample_platform :: platform where
  "sample_platform =
     \<lparr> hmacSHA256Hex = (\<lambda>secret message. ''c0ffee''),
       JSON_parse = map_of [(checkout_body, checkout_event),
                            (refund_body, refund_event),
                            (gumroad_sale_body, gumroad_sale),
                            (gumroad_refund_body, gumroad_refund),
                            (payhip_sale_body, payhip_sale),
                            (payhip_refund_body, payhip_refund),
                            (gumroad_secret_sale_body, gumroad_secret_sale),
                            (unnamed_body, unnamed_event)],
       form_entries = (\<lambda>raw. if raw = ''action=ping'' then [(''action'', ''ping'')] else []),
       finite_number = (\<lambda>raw. False) \<rparr>"

definition sample_outcomes :: outcomes where
  "sample_outcomes =
     \<lparr> now = ''2025-01-01T00:00:00.000Z'',
       db_fails = (\<lambda>q. False),
       db_message = [],
       defaults = (\<lambda>t. []),
       brevo_error = None,
       pdf_signed_url = None,
       csv_signed_url = None \<rparr>"

definition empty_world :: world where
  "empty_world = \<lparr> tables = (\<lambda>t. []), writes = [], notifications = [] \<rparr>"

text \<open>A world with one Gumroad subscriber, sale \<open>S1\<close>.\<close>

definition subscribed_world :: world where
  "subscribed_world =
     \<lparr> tables = (\<lambda>t. if t = ''subscribers''
                       then [[(''sale_id'', Some ''S1''), (''email'', Some ''a@b.com'')]]
                       else []),
       writes = [],
       notifications = [] \<rparr>"

text \<open>
  A world in which the subscription of checkout session \<open>cs_1\<close> carries the status
  \<open>revoked\<close>.
\<close>

definition revoked_world :: world where
  "revoked_world =
     \<lparr> tables = (\<lambda>t. if t = ''premium_subscriptions''
                       then [[(''stripe_checkout_session_id'', Some ''cs_1''),
                              (''status'', Some ''revoked'')]]
                       else []),
       writes = [],
       notifications = [] \<rparr>"

text \<open>
  Answers of the network to the status request: a rejection with a message, a rejection
  whose error has the empty message, a server error, and the JSON body \<^verbatim>\<open>null\<close>.
\<close>

definition unreachable_fetch :: "string \<Rightarrow> fetch_result" where
  "unreachable_fetch a = NetworkError ''Failed to fetch''"

definition silent_fetch :: "string \<Rightarrow> fetch_result" where
  "silent_fetch a = NetworkError []"

definition down_fetch :: "string \<Rightarrow> fetch_result" where
  "down_fetch a = HttpResponse 500 (Some ''down'') (Inl ''Unexpected token'')"

definition null_fetch :: "string \<Rightarrow> fetch_result" where
  "null_fetch a = HttpResponse 200 (Some ''null'') (Inr Null)"

text \<open>A request with the given method, headers and body.\<close>

definition mk_request :: "string \<Rightarrow> (string \<times> string) list \<Rightarrow> string \<Rightarrow> request" where
  "mk_request m hs raw = \<lparr> req_method = m, headers = map_of hs, req_body = raw \<rparr>"

section \<open>Properties\<close>

lemma xor_nat_zero: "(x::nat) XOR y = 0 \<longleftrightarrow> x = y"
  by (metis xor.right_neutral xor_self_eq xor.left_commute xor.commute)

lemma or_xor_fold_zero:
  "fold (\<lambda>i r. r OR (f i XOR g i)) js (r0::nat) = 0 \<longleftrightarrow> r0 = 0 \<and> (\<forall>i \<in> set js. f i = g i)"
proof (induction js arbitrary: r0)
  case Nil
  show ?case by simp
next
  case (Cons j js)
  show ?case by (simp add: Cons.IH or_eq_0_iff xor_nat_zero)
qed

lemma tsec_iff: "tsec a b \<longleftrightarrow> a = b"
proof (cases "length a = length b")
  case False
  then show ?thesis by (auto simp: tsec_def)
next
  case True
  have "tsec a b \<longleftrightarrow> (\<forall>i < length a. a ! i = b ! i)"
    using True by (auto simp: tsec_def or_xor_fold_zero charCodeAt_def)
  with True show ?thesis by (simp add: list_eq_iff_nth_eq)
qed

subsection \<open>Signature verification of the card processor\<close>


lemma some_tsec_defined: "some_tsec (map Some vs) expected = Inr (expected \<in> set vs)"
  by (induction vs) (auto simp: tsec_iff)

lemma verifyStripeSignature_unparsed:
  "parseStripeSigHeader (Some h) = None \<Longrightarrow> verifyStripeSignature hmac rawBody h secret = Inr False"
  by (simp add: verifyStripeSignature_def)

lemma verifyStripeSignature_defined:
  "parseStripeSigHeader (Some h) = Some (t, map Some vs) \<Longrightarrow>
   verifyStripeSignature hmac rawBody h secret = Inr (hmac secret (t @ ''.'' @ rawBody) \<in> set vs)"
  by (simp add: verifyStripeSignature_def some_tsec_defined)

text \<open>
  C3. The verification of the card processor's signature is to return true exactly when
  the header parses and one \<open>v1\<close> value equals the digest of \<open>t.rawBody\<close>, and false
  otherwise. For the header \<open>t=1,v1\<close> the parser accepts a \<open>v1\<close> candidate that has no
  value, and the comparison raises a TypeError instead of returning false, whatever the
  body, the secret and the digest are.
\<close>

theorem verifyStripeSignature_valueless_candidate:
  "verifyStripeSignature hmac rawBody ''t=1,v1'' secret = Inl TypeError"
  by (simp add: verifyStripeSignature_def parseStripeSigHeader_def sig_step_def sig_part_def
      trim_def is_space_def)

subsection \<open>Normalization of a completed checkout\<close>


lemma normalizeStripeEvent_Inr:
  assumes "normalizeStripeEvent evt = Inr n"
  shows "\<exists>i p. String (nc (opt_get evt ''id'') (Str [])) = Inr i \<and> extractProductName evt = Inr p"
  using assms by (auto simp: normalizeStripeEvent_def then_str_def split: sum.splits)


lemma sample_checkout_normalized:
  "normalizeStripeEvent checkout_event =
     Inr \<lparr> eventId = ''evt_1'', customerId = Str ''cus_1'', checkoutSessionId = Str ''cs_1'',
           email = Str ''a@b.com'', productName = ''Premium Access'',
           planId = Str ''premium_telegram'' \<rparr>"
  by (simp add: normalizeStripeEvent_def then_str_def extractProductName_def nc_def Let_def
      checkout_event_def)


subsection \<open>Premium status client\<close>

lemma show_nat_nonempty: "show_nat n \<noteq> []"
  by (subst show_nat.simps) simp

text \<open>
  C10, as the code has it. \<open>getPremiumStatus\<close> is a total function into the response
  record, whose \<open>isPremium\<close> field is a boolean. On every failure path (blank address,
  rejected request, status outside 200..299, body that is not JSON, JSON body \<open>null\<close>) the
  response has \<open>isPremium = False\<close>, \<open>member = Null\<close> and a string as error: \<open>empty_email\<close>,
  the \<open>http_\<close> text with the status, the message of the TypeError of the null read, or
  the message of the error that the platform raised, passed on as it is. So the message
  is empty exactly when the platform raises an error whose message is empty.
\<close>

theorem getPremiumStatus_failure:
  assumes "premium_failure fetch e"
  shows "isPremium (getPremiumStatus fetch e) = False \<and>
         member (getPremiumStatus fetch e) = Null \<and>
         (\<exists>m. error (getPremiumStatus fetch e) = Str m \<and>
              (m = [] \<longleftrightarrow>
                 trim e \<noteq> [] \<and> raised_message (fetch (toLowerCase (trim e))) = Some []))"
proof (cases "trim e = []")
  case True
  then show ?thesis by (simp add: getPremiumStatus_def)
next
  case False
  show ?thesis
  proof (cases "fetch (toLowerCase (trim e))")
    case (NetworkError msg)
    with False show ?thesis
      by (auto simp: getPremiumStatus_def premium_try_def raised_message_def)
  next
    case (HttpResponse st body_text js)
    show ?thesis
    proof (cases "res_ok st")
      case bad_status: False
      with False HttpResponse show ?thesis
        by (simp add: getPremiumStatus_def premium_try_def raised_message_def)
    next
      case good_status: True
      show ?thesis
      proof (cases js)
        case (Inl msg)
        with False HttpResponse good_status show ?thesis
          by (auto simp: getPremiumStatus_def premium_try_def raised_message_def)
      next
        case (Inr d)
        with False HttpResponse good_status assms have "nullish d"
          by (simp add: premium_failure_def)
        with False HttpResponse good_status Inr show ?thesis
          by (simp add: getPremiumStatus_def premium_try_def raised_message_def
              null_read_message_def)
      qed
    qed
  qed
qed

theorem getPremiumStatus_failure_witness:
  "premium_failure down_fetch ''a@b.com'' \<and>
   getPremiumStatus down_fetch ''a@b.com''
     = \<lparr> isPremium = False, member = Null, error = Str ''http_500: down'' \<rparr>
   \<and> premium_failure unreachable_fetch '' A@b.com '' \<and>
   getPremiumStatus unreachable_fetch '' A@b.com ''
     = \<lparr> isPremium = False, member = Null, error = Str ''Failed to fetch'' \<rparr>
   \<and> premium_failure null_fetch ''a@b.com'' \<and>
   isPremium (getPremiumStatus null_fetch ''a@b.com'') = False
   \<and> premium_failure unreachable_fetch [CHR 0xA0, CHR '' ''] \<and>
   getPremiumStatus unreachable_fetch [CHR 0xA0, CHR '' '']
     = \<lparr> isPremium = False, member = Null, error = Str ''empty_email'' \<rparr>"
  using getPremiumStatus_failure [of down_fetch "''a@b.com''"]
        getPremiumStatus_failure [of unreachable_fetch "'' A@b.com ''"]
        getPremiumStatus_failure [of null_fetch "''a@b.com''"]
        getPremiumStatus_failure [of unreachable_fetch "[CHR 0xA0, CHR '' '']"]
  by (simp add: premium_failure_def getPremiumStatus_def premium_try_def res_ok_def
      raised_message_def trim_def is_space_def down_fetch_def unreachable_fetch_def
      null_fetch_def)

text \<open>
  When the request is rejected with an error whose message is empty, the error message of
  the response is empty.
\<close>

theorem getPremiumStatus_empty_message_counterexample:
  "premium_failure silent_fetch ''a@b.com'' \<and>
   getPremiumStatus silent_fetch ''a@b.com''
     = \<lparr> isPremium = False, member = Null, error = Str [] \<rparr>"
  by (simp add: premium_failure_def getPremiumStatus_def premium_try_def silent_fetch_def
      trim_def is_space_def)

subsection \<open>Write requests and their effect on the tables\<close>

lemma exec_writes: "writes (snd (exec oc q w)) = writes w @ [q]"
  by (cases q) (simp_all add: exec_def Let_def)

lemma exec_notifications: "notifications (snd (exec oc q w)) = notifications w"
  by (cases q) (simp_all add: exec_def Let_def)

lemma col_set_col: "col (set_col c v r) k = (if k = c then v else col r k)"
  by (induction r) (auto simp: col_def)

lemma merge_row_keeps_set:
  "list_all (\<lambda>cv. fst cv = k \<longrightarrow> snd cv \<noteq> None) new \<Longrightarrow> col old k \<noteq> None \<Longrightarrow>
   col (merge_row old new) k \<noteq> None"
  unfolding merge_row_def
  by (induction new arbitrary: old) (auto simp: col_set_col split: prod.splits)

lemma keeps_revoked_iff:
  "keeps_revoked tbl tbl' \<longleftrightarrow>
   length tbl \<le> length tbl' \<and> (\<forall>i < length tbl. revoked (tbl ! i) \<longrightarrow> revoked (tbl' ! i))"
  by (auto simp: keeps_revoked_def list_all_iff)

lemma keeps_revoked_refl: "keeps_revoked tbl tbl"
  by (simp add: keeps_revoked_iff)

lemma keeps_revoked_trans:
  "keeps_revoked a b \<Longrightarrow> keeps_revoked b c \<Longrightarrow> keeps_revoked a c"
  by (fastforce simp: keeps_revoked_iff)

lemma keeps_revoked_append: "keeps_revoked tbl (tbl @ rs)"
  by (simp add: keeps_revoked_iff nth_append)

lemma keeps_revoked_merge:
  "list_all (\<lambda>cv. fst cv = ''revoked_at'' \<longrightarrow> snd cv \<noteq> None) new \<Longrightarrow>
   keeps_revoked tbl (map (\<lambda>r. if sel r then merge_row r new else r) tbl)"
proof -
  assume safe: "list_all (\<lambda>cv. fst cv = ''revoked_at'' \<longrightarrow> snd cv \<noteq> None) new"
  have "revoked r \<Longrightarrow> revoked (merge_row r new)" for r
    unfolding revoked_def by (rule merge_row_keeps_set [OF safe])
  then show ?thesis by (simp add: keeps_revoked_iff)
qed

lemma exec_keeps_revoked:
  assumes "revoke_safe q"
  shows "keeps_revoked (tables w t) (tables (snd (exec oc q w)) t)"
proof (cases q)
  case (Upsert t' new c ign)
  with assms have safe: "list_all (\<lambda>cv. fst cv = ''revoked_at'' \<longrightarrow> snd cv \<noteq> None) new"
    by (simp add: revoke_safe_def)
  show ?thesis
    using Upsert keeps_revoked_merge [OF safe]
    by (auto simp: exec_def Let_def db_upsert_def keeps_revoked_refl keeps_revoked_append
        split: option.splits)
next
  case (Insert t' new)
  then show ?thesis
    by (auto simp: exec_def Let_def keeps_revoked_refl keeps_revoked_append)
next
  case (Update t' vals c k)
  with assms have safe: "list_all (\<lambda>cv. fst cv = ''revoked_at'' \<longrightarrow> snd cv \<noteq> None) vals"
    by (simp add: revoke_safe_def)
  show ?thesis
    using Update keeps_revoked_merge [OF safe]
    by (auto simp: exec_def Let_def db_update_def keeps_revoked_refl)
qed

lemma steps_keeps_revoked:
  assumes "steps P w w'" and "\<And>q. P q \<Longrightarrow> revoke_safe q"
  shows "keeps_revoked (tables w t) (tables w' t)"
  using assms(1)
proof (induction rule: steps.induct)
  case (steps_refl w)
  show ?case by (rule keeps_revoked_refl)
next
  case (steps_exec w w1 q oc)
  then show ?case
    using exec_keeps_revoked [OF assms(2), of q w1 t oc] keeps_revoked_trans by blast
next
  case (steps_notify w w1 ns)
  then show ?case by simp
qed

lemma steps_writes:
  assumes "steps P w w'"
  shows "\<exists>ops. writes w' = writes w @ ops \<and> list_all P ops"
  using assms
proof (induction rule: steps.induct)
  case (steps_refl w)
  show ?case by simp
next
  case (steps_exec w w1 q oc)
  then obtain ops where "writes w1 = writes w @ ops" "list_all P ops" by blast
  with steps_exec.hyps(2) have "writes (snd (exec oc q w1)) = writes w @ (ops @ [q]) \<and> list_all P (ops @ [q])"
    by (simp add: exec_writes)
  then show ?case by blast
next
  case (steps_notify w w1 ns)
  then show ?case by simp
qed

lemma steps_new_writes: "steps P w w' \<Longrightarrow> list_all P (new_writes w w')"
  using steps_writes [of P w w'] by (auto simp: new_writes_def)

lemma steps_trans:
  assumes "steps P w1 w2" and "steps P w w1"
  shows "steps P w w2"
  using assms by (induction rule: steps.induct) (auto intro: steps.intros)

lemma steps_exec1: "P q \<Longrightarrow> steps P w (snd (exec oc q w))"
  by (rule steps_exec [OF steps_refl])


lemma steps_mono:
  assumes "steps P w w'" and "\<And>q. P q \<Longrightarrow> Q q"
  shows "steps Q w w'"
  using assms(1) by (induction rule: steps.induct) (auto intro: steps.intros assms(2))

lemma allowed_ledger_op: "allowed k (ledger_op evt)"
  by (simp add: allowed_def revoke_safe_def activates_def ledger_op_def json_row_def)

lemma allowed_customer_op: "allowed k (customer_op n e)"
  by (simp add: allowed_def revoke_safe_def activates_def customer_op_def json_row_def)

lemma subscription_op_status: "col (op_values (subscription_op oc n cid)) ''status'' = Some ''active''"
  by (simp add: subscription_op_def json_row_def col_def cell_def)

lemma allowed_subscription_op: "allowed ''stripe_checkout_session_id'' (subscription_op oc n cid)"
  using subscription_op_status [of oc n cid]
  by (simp add: allowed_def revoke_safe_def activates_def)
     (simp add: subscription_op_def json_row_def)

lemma allowed_onboarding_op: "allowed k (onboarding_op n e b)"
  by (simp add: allowed_def revoke_safe_def activates_def onboarding_op_def json_row_def)

lemma stripe_write_ops:
  "stripe_write (ledger_op evt)"
  "stripe_write (customer_op n e)"
  "stripe_write (subscription_op oc n cid)"
  "stripe_write (onboarding_op n e b)"
  by (simp_all add: stripe_write_def allowed_ledger_op allowed_customer_op allowed_subscription_op
      allowed_onboarding_op)
     (simp_all add: ledger_op_def customer_op_def subscription_op_def onboarding_op_def)

lemma snd_stripe_ledger:
  "snd (stripe_ledger cfg oc evt w) = (if db cfg then snd (exec oc (ledger_op evt) w) else w)"
  by (simp add: stripe_ledger_def Let_def split: option.splits)

lemma steps_stripe_upserts: "steps stripe_write w w1 \<Longrightarrow> steps stripe_write w (stripe_upserts oc n e w1)"
  by (simp add: stripe_upserts_def Let_def steps_exec stripe_write_ops)

lemma steps_stripe_ledger: "steps stripe_write w (snd (stripe_ledger cfg oc evt w))"
  by (simp add: snd_stripe_ledger steps_refl steps_exec1 stripe_write_ops)

lemma steps_stripe_process: "steps stripe_write w (snd (stripe_process cfg oc evt w))"
proof -
  note l = steps_stripe_ledger [of w cfg oc evt]
  have up: "steps stripe_write w (stripe_upserts oc n e (snd (stripe_ledger cfg oc evt w)))" for n e
    by (rule steps_stripe_upserts) (rule l)
  show ?thesis
    unfolding stripe_process_def Let_def sendOnboardingEmail_def
    by (auto simp: l up stripe_write_ops intro!: steps_exec steps_notify split: sum.splits)
qed

lemma steps_stripe_write_serve: "steps stripe_write w (snd (stripe_serve cfg plat oc req w))"
  by (simp add: stripe_serve_def steps_stripe_process steps_refl split: step.splits)

lemma steps_stripe_serve:
  "steps (allowed ''stripe_checkout_session_id'') w (snd (stripe_serve cfg plat oc req w))"
  by (rule steps_mono [OF steps_stripe_write_serve]) (simp add: stripe_write_def)

lemma allowed_sale_op: "allowed ''sale_id'' (sale_op a b c d e)"
  by (simp add: allowed_def revoke_safe_def activates_def sale_op_def json_row_def or_null_def)

lemma allowed_urls_op:
  "allowed k (Update ''subscribers'' (json_row [(''pdf_url'', a), (''csv_url'', b)]) c s)"
  by (simp add: allowed_def revoke_safe_def activates_def json_row_def)

lemma allowed_revoke_op: "allowed k (revoke_op oc s)"
  by (simp add: allowed_def revoke_safe_def activates_def revoke_op_def json_row_def cell_def)

lemma allowed_payhip_upsert_op: "allowed ''email'' (payhip_upsert_op e a b)"
  by (simp add: allowed_def revoke_safe_def activates_def payhip_upsert_op_def json_row_def)

lemma steps_telegram_notify: "steps P w w1 \<Longrightarrow> steps P w (telegram_notify cfg e p w1)"
  by (simp add: telegram_notify_def steps_notify)

lemma steps_auto_invite: "steps P w w1 \<Longrightarrow> steps P w (auto_invite cfg plat p w1)"
  by (simp add: auto_invite_def Let_def steps_notify split: sum.splits)

lemma steps_sale_write:
  "steps (allowed ''sale_id'') w (snd (sale_write cfg plat oc p sale_id e productId sellerId fullName w))"
proof -
  have s0: "steps (allowed ''sale_id'') w (snd (exec oc (sale_op sale_id e productId sellerId fullName) w))"
    by (rule steps_exec1) (rule allowed_sale_op)
  have s3: "steps (allowed ''sale_id'') w
      (snd (exec oc (Update ''subscribers''
                      (json_row [(''pdf_url'', opt_str (pdf_signed_url oc)),
                                 (''csv_url'', opt_str (csv_signed_url oc))])
                      ''sale_id'' sale_id)
             (auto_invite cfg plat p (telegram_notify cfg e productId
                (snd (exec oc (sale_op sale_id e productId sellerId fullName) w))))))"
    by (intro steps_exec steps_auto_invite steps_telegram_notify s0 allowed_urls_op)
  show ?thesis
    by (simp add: sale_write_def Let_def steps_refl s0 s3)
qed

lemma handleSale_Inr:
  assumes "handleSale cfg plat oc p w = Inr res"
  shows "\<exists>sale_id e productId sellerId fullName.
           String (nc (opt_get p ''sale_id'') (nc (opt_get p ''id'') (Str []))) = Inr sale_id \<and>
           String (nc (opt_get p ''email'') (nc (opt_get p ''purchaser_email'') (Str []))) = Inr e \<and>
           res = sale_write cfg plat oc p sale_id e productId sellerId fullName w"
  using assms by (auto simp: handleSale_def then_str_def split: if_splits sum.splits)

lemma steps_handleSale:
  assumes "handleSale cfg plat oc p w = Inr res"
  shows "steps (allowed ''sale_id'') w (snd res)"
  using handleSale_Inr [OF assms] steps_sale_write by blast

lemma steps_gumroad_revoke: "steps (allowed k) w (gumroad_revoke cfg oc payload w)"
  by (simp add: gumroad_revoke_def Let_def steps_refl steps_exec1 allowed_revoke_op
      split: sum.splits)

lemma steps_gumroad_serve:
  "steps (allowed ''sale_id'') w (snd (gumroad_serve cfg plat oc req w))"
  by (simp add: gumroad_serve_def steps_gumroad_revoke steps_handleSale steps_refl
      split: sum.splits)

lemma steps_payhip_sale_part:
  "payhip_sale_part cfg oc payload event w = Inr w1 \<Longrightarrow> steps (allowed ''email'') w w1"
  by (auto simp: payhip_sale_part_def then_str_def steps_refl steps_exec1 allowed_payhip_upsert_op
      split: if_splits sum.splits)

lemma steps_payhip_refund_part:
  "payhip_refund_part cfg oc payload event w = Inr w1 \<Longrightarrow> steps (allowed ''email'') w w1"
  by (auto simp: payhip_refund_part_def then_str_def steps_refl steps_exec1 allowed_revoke_op
      split: if_splits sum.splits)

lemma steps_payhip_event: "steps (allowed ''email'') w (payhip_event cfg oc payload event w)"
proof (cases "payhip_sale_part cfg oc payload event w")
  case (Inl e)
  then show ?thesis by (simp add: payhip_event_def steps_refl)
next
  case (Inr w1)
  note s1 = steps_payhip_sale_part [OF Inr]
  show ?thesis
  proof (cases "payhip_refund_part cfg oc payload event w1")
    case Inl
    with Inr s1 show ?thesis by (simp add: payhip_event_def)
  next
    case (Inr w2)
    from steps_trans [OF steps_payhip_refund_part [OF Inr] s1] Inr \<open>payhip_sale_part cfg oc payload event w = Inr w1\<close>
    show ?thesis by (simp add: payhip_event_def)
  qed
qed

lemma steps_payhip_serve:
  "steps (allowed ''email'') w (snd (payhip_serve cfg plat oc req w))"
  by (simp add: payhip_serve_def Let_def steps_payhip_event steps_refl split: sum.splits)

lemma header_lower [simp]:
  "toLowerCase ''stripe-signature'' = ''stripe-signature''"
  "toLowerCase ''X-Gumroad-Signature'' = ''x-gumroad-signature''"
  "toLowerCase ''x-gumroad-signature'' = ''x-gumroad-signature''"
  "toLowerCase ''X-Payhip-Signature'' = ''x-payhip-signature''"
  "toLowerCase ''x-payhip-signature'' = ''x-payhip-signature''"
  "toLowerCase ''content-type'' = ''content-type''"
  by (simp_all add: toLowerCase_def lower_char_def)

lemmas sample_defs =
  sample_config_def sample_platform_def sample_outcomes_def empty_world_def mk_request_def
  checkout_event_def refund_event_def gumroad_sale_def gumroad_refund_def payhip_sale_def
  payhip_refund_def checkout_body_def refund_body_def gumroad_sale_body_def
  gumroad_refund_body_def payhip_sale_body_def payhip_refund_body_def
  gumroad_secret_sale_def gumroad_secret_sale_body_def unnamed_event_def unnamed_body_def

text \<open>
  C7. A Gumroad delivery whose action is \<open>ping\<close> is answered with
  \<open>200 {ok: true, type: "ping"}\<close> whatever the configuration, the headers and the rest of
  the body are; no signature is checked and nothing is written or sent.
\<close>

theorem gumroad_ping_always_ok:
  assumes "req_method req \<noteq> ''GET''" and "req_method req \<noteq> ''HEAD''"
    and "parseBody plat req = Inr payload"
    and "actionOf payload = Inr ''ping''"
  shows "gumroad_serve cfg plat oc req w =
           (Inr (Response 200 (Json (Obj [(''ok'', Bool True), (''type'', Str ''ping'')]))), w)"
  using assms by (simp add: gumroad_serve_def json200_def)

theorem gumroad_ping_always_ok_witness:
  "parseBody sample_platform
     (mk_request ''POST'' [(''content-type'', ''application/x-www-form-urlencoded'')] ''action=ping'')
     = Inr (Obj [(''action'', Str ''ping'')])
   \<and> actionOf (Obj [(''action'', Str ''ping'')]) = Inr ''ping''
   \<and> gumroad_serve (sample_config \<lparr> gumroadWebhookSecret := None \<rparr>) sample_platform sample_outcomes
       (mk_request ''POST'' [(''content-type'', ''application/x-www-form-urlencoded'')] ''action=ping'')
       empty_world
     = (Inr (Response 200 (Json (Obj [(''ok'', Bool True), (''type'', Str ''ping'')]))), empty_world)"
proof -
  have p: "parseBody sample_platform
     (mk_request ''POST'' [(''content-type'', ''application/x-www-form-urlencoded'')] ''action=ping'')
     = Inr (Obj [(''action'', Str ''ping'')])"
    by (simp add: parseBody_def parseForm_def header_def sample_defs toLowerCase_def lower_char_def)
  have a: "actionOf (Obj [(''action'', Str ''ping'')]) = Inr ''ping''"
    by (simp add: actionOf_def then_str_def nc_def toLowerCase_def lower_char_def)
  have m: "req_method (mk_request ''POST'' [(''content-type'', ''application/x-www-form-urlencoded'')] ''action=ping'') \<noteq> ''GET''"
      "req_method (mk_request ''POST'' [(''content-type'', ''application/x-www-form-urlencoded'')] ''action=ping'') \<noteq> ''HEAD''"
    by (simp_all add: mk_request_def)
  show ?thesis
    using gumroad_ping_always_ok [OF m p a] p a by simp
qed

subsection \<open>Deliveries that fail authentication\<close>

lemma stripe_missing_signature:
  assumes "req_method req \<noteq> ''GET''"
    and "configured (stripeWebhookSecret cfg)" and "configured (brevoApiKey cfg)"
    and "configured (emailFrom cfg)"
    and "header req ''stripe-signature'' = None \<or> header req ''stripe-signature'' = Some []"
  shows "stripe_serve cfg plat oc req w = (bad ''missing signature'' 400, w)"
  using assms
  by (auto simp: stripe_serve_def stripe_gate_def configured_def split: option.splits)

lemma stripe_bad_signature:
  assumes "req_method req \<noteq> ''GET''"
    and "stripeWebhookSecret cfg = Some secret" and "secret \<noteq> []"
    and "configured (brevoApiKey cfg)" and "configured (emailFrom cfg)"
    and "header req ''stripe-signature'' = Some h" and "h \<noteq> []"
    and "verifyStripeSignature (hmacSHA256Hex plat) (req_body req) h secret = Inr False"
  shows "stripe_serve cfg plat oc req w = (bad ''bad signature'' 400, w)"
  using assms by (simp add: stripe_serve_def stripe_gate_def)

lemma payhip_unauthorized:
  assumes "req_method req = ''POST''" and "\<not> payhip_verifyHmac cfg plat req (req_body req)"
  shows "payhip_serve cfg plat oc req w =
           (Inr (Response 401 (Json (Obj [(''ok'', Bool False), (''error'', Str ''unauthorized'')]))), w)"
  using assms by (simp add: payhip_serve_def)

lemma gumroad_unauthorized:
  assumes "req_method req \<noteq> ''GET''" and "req_method req \<noteq> ''HEAD''"
    and "parseBody plat req = Inr payload" and "actionOf payload = Inr action"
    and "action \<noteq> ''ping''"
    and "requireGumroadAuth cfg" and "\<not> gumroad_authed cfg plat req payload"
  shows "gumroad_serve cfg plat oc req w =
           (Inr (Response 200 (Json (Obj [(''ok'', Bool False), (''error'', Str ''unauthorized'')]))), w)"
  using assms by (simp add: gumroad_serve_def json200_def)

lemma actionOf_not_nullish: "actionOf p = Inr a \<Longrightarrow> \<not> nullish p"
  by (auto simp: actionOf_def split: if_splits)

lemma handleSale_converted:
  assumes "db cfg" and "\<not> nullish p"
    and "String (nc (opt_get p ''sale_id'') (nc (opt_get p ''id'') (Str []))) = Inr sale_id"
    and "String (nc (opt_get p ''email'') (nc (opt_get p ''purchaser_email'') (Str []))) = Inr e"
    and "String (nc (opt_get p ''product_id'') (nc (opt_get (opt_get p ''product'') ''id'') (Str [])))
           = Inr productId"
    and "String (nc (opt_get p ''seller_id'') (nc (opt_get (opt_get p ''seller'') ''id'') (Str [])))
           = Inr sellerId"
    and "String (nc (opt_get p ''full_name'') (nc (opt_get p ''purchaser_name'') (Str []))) = Inr fullName"
  shows "handleSale cfg plat oc p w = Inr (sale_write cfg plat oc p sale_id e productId sellerId fullName w)"
  using assms by (simp add: handleSale_def then_str_def)

lemma gumroad_sale_served:
  assumes "req_method req \<noteq> ''GET''" and "req_method req \<noteq> ''HEAD''"
    and "parseBody plat req = Inr payload" and "actionOf payload = Inr ''sale''"
    and "\<not> requireGumroadAuth cfg \<or> gumroad_authed cfg plat req payload"
    and "handleSale cfg plat oc payload w = Inr res"
  shows "gumroad_serve cfg plat oc req w = (Inr (json200 (fst res)), snd res)"
  using assms by (auto simp: gumroad_serve_def)

lemma sale_write_first:
  assumes "sale_id \<noteq> []" and "e \<noteq> []"
  shows "take 1 (new_writes w (snd (sale_write cfg plat oc p sale_id e productId sellerId fullName w)))
         = [sale_op sale_id e productId sellerId fullName]"
proof -
  have n: "writes (auto_invite cfg plat p w1) = writes w1" for w1
    by (simp add: auto_invite_def Let_def split: sum.splits)
  have t: "writes (telegram_notify cfg e productId w1) = writes w1" for w1
    by (simp add: telegram_notify_def)
  show ?thesis
    using assms by (simp add: sale_write_def Let_def new_writes_def exec_writes n t)
qed


text \<open>
  C1, as the code has it. The card-processor handler (configured, method other than GET)
  answers 400 when the signature header is missing or empty or the verification returns
  false, and the Payhip handler answers 401 when its HMAC check fails; both leave the
  world, with its tables and its logs of write requests and notifications, as it was.
  The Gumroad handler does not reject a delivery for its signature alone. Only when
  authentication is required and the secret and seller id of the body do not authenticate
  the delivery either (pings apart) it answers, with status 200,
  \<open>{ok: false, error: "unauthorized"}\<close> and leaves the world as it was. When
  authentication is not required, or the body check passes, a sale whose HMAC check fails
  is answered 200 with the result of the sale, and the upsert of the subscriber is the
  first write request it issues.
\<close>

theorem failed_signature_delivery:
  "(req_method req \<noteq> ''GET'' \<and> stripeWebhookSecret cfg = Some secret \<and> secret \<noteq> [] \<and>
    configured (brevoApiKey cfg) \<and> configured (emailFrom cfg) \<and>
    (case header req ''stripe-signature'' of
       None \<Rightarrow> True
     | Some h \<Rightarrow> h = [] \<or>
         verifyStripeSignature (hmacSHA256Hex plat) (req_body req) h secret = Inr False)
    \<longrightarrow> status (fst (stripe_serve cfg plat oc req w)) = 400 \<and>
        snd (stripe_serve cfg plat oc req w) = w)
   \<and> (req_method req = ''POST'' \<and> \<not> payhip_verifyHmac cfg plat req (req_body req)
    \<longrightarrow> payhip_serve cfg plat oc req w =
          (Inr (Response 401 (Json (Obj [(''ok'', Bool False), (''error'', Str ''unauthorized'')]))), w))
   \<and> (req_method req \<noteq> ''GET'' \<and> req_method req \<noteq> ''HEAD'' \<and>
      parseBody plat req = Inr payload \<and> actionOf payload = Inr action \<and> action \<noteq> ''ping'' \<and>
      requireGumroadAuth cfg \<and> \<not> gumroad_authed cfg plat req payload
    \<longrightarrow> gumroad_serve cfg plat oc req w =
          (Inr (Response 200 (Json (Obj [(''ok'', Bool False), (''error'', Str ''unauthorized'')]))), w))
   \<and> (req_method req \<noteq> ''GET'' \<and> req_method req \<noteq> ''HEAD'' \<and>
      parseBody plat req = Inr payload \<and> actionOf payload = Inr ''sale'' \<and>
      \<not> gumroad_verifyHmac cfg plat req (req_body req) \<and>
      (\<not> requireGumroadAuth cfg \<or> gumroad_authed cfg plat req payload) \<and> db cfg \<and>
      String (nc (opt_get payload ''sale_id'') (nc (opt_get payload ''id'') (Str []))) = Inr sale_id \<and>
      String (nc (opt_get payload ''email'') (nc (opt_get payload ''purchaser_email'') (Str []))) = Inr e \<and>
      String (nc (opt_get payload ''product_id'') (nc (opt_get (opt_get payload ''product'') ''id'') (Str [])))
        = Inr productId \<and>
      String (nc (opt_get payload ''seller_id'') (nc (opt_get (opt_get payload ''seller'') ''id'') (Str [])))
        = Inr sellerId \<and>
      String (nc (opt_get payload ''full_name'') (nc (opt_get payload ''purchaser_name'') (Str [])))
        = Inr fullName \<and>
      sale_id \<noteq> [] \<and> e \<noteq> []
    \<longrightarrow> fst (gumroad_serve cfg plat oc req w)
          = Inr (Response 200 (Json (fst (sale_write cfg plat oc payload sale_id e productId sellerId fullName w)))) \<and>
        take 1 (new_writes w (snd (gumroad_serve cfg plat oc req w)))
          = [sale_op sale_id e productId sellerId fullName])"
proof (intro conjI impI)
  assume a: "req_method req \<noteq> ''GET'' \<and> stripeWebhookSecret cfg = Some secret \<and> secret \<noteq> [] \<and>
    configured (brevoApiKey cfg) \<and> configured (emailFrom cfg) \<and>
    (case header req ''stripe-signature'' of
       None \<Rightarrow> True
     | Some h \<Rightarrow> h = [] \<or>
         verifyStripeSignature (hmacSHA256Hex plat) (req_body req) h secret = Inr False)"
  then have c: "configured (stripeWebhookSecret cfg)" by (simp add: configured_def)
  have "stripe_serve cfg plat oc req w = (bad ''missing signature'' 400, w) \<or>
        stripe_serve cfg plat oc req w = (bad ''bad signature'' 400, w)"
  proof (cases "header req ''stripe-signature''")
    case None
    with a c show ?thesis by (simp add: stripe_missing_signature)
  next
    case (Some h)
    show ?thesis
    proof (cases "h = []")
      case True
      with a c Some show ?thesis by (simp add: stripe_missing_signature)
    next
      case False
      with a Some show ?thesis by (simp add: stripe_bad_signature)
    qed
  qed
  then show "status (fst (stripe_serve cfg plat oc req w)) = 400"
    and "snd (stripe_serve cfg plat oc req w) = w"
    by (auto simp: bad_def)
next
  assume "req_method req = ''POST'' \<and> \<not> payhip_verifyHmac cfg plat req (req_body req)"
  then show "payhip_serve cfg plat oc req w =
          (Inr (Response 401 (Json (Obj [(''ok'', Bool False), (''error'', Str ''unauthorized'')]))), w)"
    by (simp add: payhip_unauthorized)
next
  assume "req_method req \<noteq> ''GET'' \<and> req_method req \<noteq> ''HEAD'' \<and>
      parseBody plat req = Inr payload \<and> actionOf payload = Inr action \<and> action \<noteq> ''ping'' \<and>
      requireGumroadAuth cfg \<and> \<not> gumroad_authed cfg plat req payload"
  then show "gumroad_serve cfg plat oc req w =
          (Inr (Response 200 (Json (Obj [(''ok'', Bool False), (''error'', Str ''unauthorized'')]))), w)"
    by (simp add: gumroad_unauthorized)
next
  assume a: "req_method req \<noteq> ''GET'' \<and> req_method req \<noteq> ''HEAD'' \<and>
      parseBody plat req = Inr payload \<and> actionOf payload = Inr ''sale'' \<and>
      \<not> gumroad_verifyHmac cfg plat req (req_body req) \<and>
      (\<not> requireGumroadAuth cfg \<or> gumroad_authed cfg plat req payload) \<and> db cfg \<and>
      String (nc (opt_get payload ''sale_id'') (nc (opt_get payload ''id'') (Str []))) = Inr sale_id \<and>
      String (nc (opt_get payload ''email'') (nc (opt_get payload ''purchaser_email'') (Str []))) = Inr e \<and>
      String (nc (opt_get payload ''product_id'') (nc (opt_get (opt_get payload ''product'') ''id'') (Str [])))
        = Inr productId \<and>
      String (nc (opt_get payload ''seller_id'') (nc (opt_get (opt_get payload ''seller'') ''id'') (Str [])))
        = Inr sellerId \<and>
      String (nc (opt_get payload ''full_name'') (nc (opt_get payload ''purchaser_name'') (Str [])))
        = Inr fullName \<and>
      sale_id \<noteq> [] \<and> e \<noteq> []"
  then have n: "\<not> nullish payload" by (simp add: actionOf_not_nullish)
  from a n have h: "handleSale cfg plat oc payload w
      = Inr (sale_write cfg plat oc payload sale_id e productId sellerId fullName w)"
    by (simp add: handleSale_converted)
  from a have s: "gumroad_serve cfg plat oc req w
      = (Inr (json200 (fst (sale_write cfg plat oc payload sale_id e productId sellerId fullName w))),
         snd (sale_write cfg plat oc payload sale_id e productId sellerId fullName w))"
    by (intro gumroad_sale_served [OF _ _ _ _ _ h]) simp_all
  show "fst (gumroad_serve cfg plat oc req w)
          = Inr (Response 200 (Json (fst (sale_write cfg plat oc payload sale_id e productId sellerId fullName w))))"
    by (simp add: s json200_def)
  from a have "sale_id \<noteq> []" and "e \<noteq> []" by simp_all
  then show "take 1 (new_writes w (snd (gumroad_serve cfg plat oc req w)))
          = [sale_op sale_id e productId sellerId fullName]"
    unfolding s snd_conv by (rule sale_write_first)
qed

lemma sample_parse_gumroad_sale:
  "parseBody sample_platform
     (mk_request ''POST'' ((''content-type'', ''application/json'') # hs) gumroad_sale_body)
   = Inr gumroad_sale"
  by (simp add: parseBody_def header_def sample_platform_def mk_request_def
      gumroad_sale_body_def checkout_body_def refund_body_def toLowerCase_def lower_char_def)

lemma sample_parse_gumroad_secret_sale:
  "parseBody sample_platform
     (mk_request ''POST'' ((''content-type'', ''application/json'') # hs) gumroad_secret_sale_body)
   = Inr gumroad_secret_sale"
  by (simp add: parseBody_def header_def sample_platform_def mk_request_def
      gumroad_sale_body_def checkout_body_def refund_body_def gumroad_refund_body_def
      payhip_sale_body_def payhip_refund_body_def gumroad_secret_sale_body_def
      toLowerCase_def lower_char_def)

lemma sample_action_gumroad_sale:
  "actionOf gumroad_sale = Inr ''sale''"
  "actionOf gumroad_secret_sale = Inr ''sale''"
  by (simp_all add: actionOf_def then_str_def gumroad_sale_def gumroad_secret_sale_def nc_def
      toLowerCase_def lower_char_def)

lemma sample_forged_hmac:
  "\<not> gumroad_verifyHmac cfg sample_platform
       (mk_request ''POST'' [(''content-type'', ''application/json''),
                             (''x-gumroad-signature'', ''deadbeef'')] raw) raw'"
  by (simp add: gumroad_verifyHmac_def header_def sample_platform_def mk_request_def
      toLowerCase_def lower_char_def trim_def is_space_def split: option.splits)

lemma sample_forged_not_authed:
  "\<not> gumroad_authed sample_config sample_platform
       (mk_request ''POST'' [(''content-type'', ''application/json''),
                             (''x-gumroad-signature'', ''deadbeef'')] gumroad_sale_body)
       gumroad_sale"
  by (simp add: gumroad_authed_def sample_forged_hmac Let_def)
     (simp add: sample_config_def gumroad_sale_def configured_def nc_def)

lemma sample_secret_authed:
  "gumroad_authed sample_config sample_platform
       (mk_request ''POST'' [(''content-type'', ''application/json''),
                             (''x-gumroad-signature'', ''deadbeef'')] gumroad_secret_sale_body)
       gumroad_secret_sale"
  by (simp add: gumroad_authed_def sample_forged_hmac Let_def)
     (simp add: sample_config_def gumroad_secret_sale_def configured_def nc_def)

lemma sample_request_method:
  "req_method (mk_request ''POST'' hs raw) = ''POST''"
  "req_method (mk_request ''POST'' hs raw) \<noteq> ''GET''"
  "req_method (mk_request ''POST'' hs raw) \<noteq> ''HEAD''"
  by (simp_all add: mk_request_def)

lemma sample_auto_invite: "auto_invite cfg sample_platform p w = w"
  by (simp add: auto_invite_def sample_platform_def Let_def split: sum.splits)

lemma sample_sale_write:
  assumes "telegramBotToken cfg = None" and "sale_id \<noteq> []" and "e \<noteq> []"
  shows "sale_write cfg sample_platform sample_outcomes p sale_id e [] [] [] empty_world
      = (Obj [(''ok'', Bool True), (''pdf_url'', Null), (''csv_url'', Null)],
         \<lparr> tables = (\<lambda>t. [])(''subscribers'' :=
              [[(''sale_id'', Some sale_id), (''email'', Some e), (''product_id'', None),
                (''seller_id'', None), (''full_name'', None), (''pdf_url'', None),
                (''csv_url'', None)]]),
           writes = [sale_op sale_id e [] [] [],
                     Update ''subscribers'' [(''pdf_url'', None), (''csv_url'', None)] ''sale_id'' sale_id],
           notifications = [] \<rparr>)"
  using assms
  by (simp add: sale_write_def sample_auto_invite sample_outcomes_def
      empty_world_def Let_def exec_def sale_op_def json_row_def cell_def
      or_null_def opt_str_def db_upsert_def db_update_def col_def merge_row_def
      telegram_notify_def configured_def)

lemma sample_sale_strings:
  "String (nc (opt_get gumroad_sale ''sale_id'') (nc (opt_get gumroad_sale ''id'') (Str []))) = Inr ''S1''"
  "String (nc (opt_get gumroad_sale ''email'') (nc (opt_get gumroad_sale ''purchaser_email'') (Str [])))
     = Inr ''a@b.com''"
  "String (nc (opt_get gumroad_sale ''product_id'') (nc (opt_get (opt_get gumroad_sale ''product'') ''id'') (Str [])))
     = Inr []"
  "String (nc (opt_get gumroad_sale ''seller_id'') (nc (opt_get (opt_get gumroad_sale ''seller'') ''id'') (Str [])))
     = Inr []"
  "String (nc (opt_get gumroad_sale ''full_name'') (nc (opt_get gumroad_sale ''purchaser_name'') (Str [])))
     = Inr []"
  "\<not> nullish gumroad_sale"
  by (simp_all add: gumroad_sale_def nc_def)

lemma sample_secret_sale_strings:
  "String (nc (opt_get gumroad_secret_sale ''sale_id'') (nc (opt_get gumroad_secret_sale ''id'') (Str [])))
     = Inr ''S2''"
  "String (nc (opt_get gumroad_secret_sale ''email'') (nc (opt_get gumroad_secret_sale ''purchaser_email'') (Str [])))
     = Inr ''c@d.com''"
  "String (nc (opt_get gumroad_secret_sale ''product_id'')
       (nc (opt_get (opt_get gumroad_secret_sale ''product'') ''id'') (Str []))) = Inr []"
  "String (nc (opt_get gumroad_secret_sale ''seller_id'')
       (nc (opt_get (opt_get gumroad_secret_sale ''seller'') ''id'') (Str []))) = Inr []"
  "String (nc (opt_get gumroad_secret_sale ''full_name'')
       (nc (opt_get gumroad_secret_sale ''purchaser_name'') (Str []))) = Inr []"
  "\<not> nullish gumroad_secret_sale"
  by (simp_all add: gumroad_secret_sale_def nc_def)

lemma sample_config_facts:
  "db sample_config" "db open_config"
  "telegramBotToken sample_config = None" "telegramBotToken open_config = None"
  "requireGumroadAuth sample_config" "\<not> requireGumroadAuth open_config"
  by (simp_all add: db_def sample_config_def open_config_def)

lemma sample_sale_served:
  assumes "db cfg" and "telegramBotToken cfg = None"
    and "\<not> requireGumroadAuth cfg \<or> gumroad_authed cfg sample_platform
           (mk_request ''POST'' ((''content-type'', ''application/json'') # hs) gumroad_sale_body)
           gumroad_sale"
  shows "gumroad_serve cfg sample_platform sample_outcomes
           (mk_request ''POST'' ((''content-type'', ''application/json'') # hs) gumroad_sale_body)
           empty_world
         = (Inr (json200 (fst (sale_write cfg sample_platform sample_outcomes gumroad_sale
                                 ''S1'' ''a@b.com'' [] [] [] empty_world))),
            snd (sale_write cfg sample_platform sample_outcomes gumroad_sale
                   ''S1'' ''a@b.com'' [] [] [] empty_world))"
  by (rule gumroad_sale_served
        [OF sample_request_method(2) sample_request_method(3) sample_parse_gumroad_sale
            sample_action_gumroad_sale(1) assms(3)
            handleSale_converted [OF assms(1) sample_sale_strings(6) sample_sale_strings(1)
              sample_sale_strings(2) sample_sale_strings(3) sample_sale_strings(4)
              sample_sale_strings(5)]])

lemma sample_secret_sale_served:
  assumes "db cfg" and "telegramBotToken cfg = None"
    and "\<not> requireGumroadAuth cfg \<or> gumroad_authed cfg sample_platform
           (mk_request ''POST'' ((''content-type'', ''application/json'') # hs) gumroad_secret_sale_body)
           gumroad_secret_sale"
  shows "gumroad_serve cfg sample_platform sample_outcomes
           (mk_request ''POST'' ((''content-type'', ''application/json'') # hs) gumroad_secret_sale_body)
           empty_world
         = (Inr (json200 (fst (sale_write cfg sample_platform sample_outcomes gumroad_secret_sale
                                 ''S2'' ''c@d.com'' [] [] [] empty_world))),
            snd (sale_write cfg sample_platform sample_outcomes gumroad_secret_sale
                   ''S2'' ''c@d.com'' [] [] [] empty_world))"
  by (rule gumroad_sale_served
        [OF sample_request_method(2) sample_request_method(3) sample_parse_gumroad_secret_sale
            sample_action_gumroad_sale(2) assms(3)
            handleSale_converted [OF assms(1) sample_secret_sale_strings(6) sample_secret_sale_strings(1)
              sample_secret_sale_strings(2) sample_secret_sale_strings(3) sample_secret_sale_strings(4)
              sample_secret_sale_strings(5)]])

text \<open>
  A Gumroad sale with a wrong signature is not answered 400 or 401. With authentication
  switched off it is answered 200 and the subscriber is written; with authentication
  required, the same holds for a sale that carries the secret in its body; and without
  the secret in the body the answer is 200 \<open>unauthorized\<close>.
\<close>

theorem forged_gumroad_delivery_counterexample:
  "\<not> gumroad_verifyHmac open_config sample_platform
       (mk_request ''POST'' [(''content-type'', ''application/json''),
                             (''x-gumroad-signature'', ''deadbeef'')] gumroad_sale_body)
       gumroad_sale_body
   \<and> fst (gumroad_serve open_config sample_platform sample_outcomes
       (mk_request ''POST'' [(''content-type'', ''application/json''),
                             (''x-gumroad-signature'', ''deadbeef'')] gumroad_sale_body)
       empty_world)
     = Inr (Response 200 (Json (Obj [(''ok'', Bool True), (''pdf_url'', Null), (''csv_url'', Null)])))
   \<and> tables (snd (gumroad_serve open_config sample_platform sample_outcomes
       (mk_request ''POST'' [(''content-type'', ''application/json''),
                             (''x-gumroad-signature'', ''deadbeef'')] gumroad_sale_body)
       empty_world)) ''subscribers''
     = [[(''sale_id'', Some ''S1''), (''email'', Some ''a@b.com''), (''product_id'', None),
         (''seller_id'', None), (''full_name'', None), (''pdf_url'', None), (''csv_url'', None)]]
   \<and> \<not> gumroad_verifyHmac sample_config sample_platform
       (mk_request ''POST'' [(''content-type'', ''application/json''),
                             (''x-gumroad-signature'', ''deadbeef'')] gumroad_secret_sale_body)
       gumroad_secret_sale_body
   \<and> fst (gumroad_serve sample_config sample_platform sample_outcomes
       (mk_request ''POST'' [(''content-type'', ''application/json''),
                             (''x-gumroad-signature'', ''deadbeef'')] gumroad_secret_sale_body)
       empty_world)
     = Inr (Response 200 (Json (Obj [(''ok'', Bool True), (''pdf_url'', Null), (''csv_url'', Null)])))
   \<and> tables (snd (gumroad_serve sample_config sample_platform sample_outcomes
       (mk_request ''POST'' [(''content-type'', ''application/json''),
                             (''x-gumroad-signature'', ''deadbeef'')] gumroad_secret_sale_body)
       empty_world)) ''subscribers''
     = [[(''sale_id'', Some ''S2''), (''email'', Some ''c@d.com''), (''product_id'', None),
         (''seller_id'', None), (''full_name'', None), (''pdf_url'', None), (''csv_url'', None)]]
   \<and> \<not> gumroad_verifyHmac sample_config sample_platform
       (mk_request ''POST'' [(''content-type'', ''application/json''),
                             (''x-gumroad-signature'', ''deadbeef'')] gumroad_sale_body)
       gumroad_sale_body
   \<and> gumroad_serve sample_config sample_platform sample_outcomes
       (mk_request ''POST'' [(''content-type'', ''application/json''),
                             (''x-gumroad-signature'', ''deadbeef'')] gumroad_sale_body)
       empty_world
     = (Inr (Response 200 (Json (Obj [(''ok'', Bool False), (''error'', Str ''unauthorized'')]))),
        empty_world)"
proof -
  have a: "gumroad_serve sample_config sample_platform sample_outcomes
       (mk_request ''POST'' [(''content-type'', ''application/json''),
                             (''x-gumroad-signature'', ''deadbeef'')] gumroad_sale_body)
       empty_world
     = (Inr (Response 200 (Json (Obj [(''ok'', Bool False), (''error'', Str ''unauthorized'')]))),
        empty_world)"
    by (rule gumroad_unauthorized [OF _ _ sample_parse_gumroad_sale sample_action_gumroad_sale(1) _ _
          sample_forged_not_authed])
       (simp_all add: mk_request_def sample_config_def)
  have b: "\<not> requireGumroadAuth open_config \<or> gumroad_authed open_config sample_platform
       (mk_request ''POST'' [(''content-type'', ''application/json''),
                             (''x-gumroad-signature'', ''deadbeef'')] gumroad_sale_body)
       gumroad_sale"
    by (simp add: sample_config_facts)
  have c: "\<not> requireGumroadAuth sample_config \<or> gumroad_authed sample_config sample_platform
       (mk_request ''POST'' [(''content-type'', ''application/json''),
                             (''x-gumroad-signature'', ''deadbeef'')] gumroad_secret_sale_body)
       gumroad_secret_sale"
    by (simp add: sample_secret_authed)
  show ?thesis
    by (simp add: a sample_forged_hmac
        sample_sale_served [OF sample_config_facts(2) sample_config_facts(4) b]
        sample_secret_sale_served [OF sample_config_facts(1) sample_config_facts(3) c]
        sample_sale_write sample_config_facts json200_def)
qed

lemma sample_stripe_bad_signature:
  "verifyStripeSignature (hmacSHA256Hex sample_platform) checkout_body ''t=1,v1=deadbeef'' ''whsec_1''
   = Inr False"
  by (simp add: verifyStripeSignature_def parseStripeSigHeader_def sig_step_def sig_part_def
      trim_def is_space_def sample_platform_def tsec_iff)

lemma sample_payhip_no_header:
  "\<not> payhip_verifyHmac sample_config sample_platform (mk_request ''POST'' [] raw) raw'"
  by (simp add: payhip_verifyHmac_def header_def sample_config_def mk_request_def)

theorem failed_signature_delivery_witness:
  "(verifyStripeSignature (hmacSHA256Hex sample_platform) checkout_body ''t=1,v1=deadbeef'' ''whsec_1''
      = Inr False
    \<and> status (fst (stripe_serve sample_config sample_platform sample_outcomes
          (mk_request ''POST'' [(''stripe-signature'', ''t=1,v1=deadbeef'')] checkout_body)
          empty_world)) = 400
    \<and> snd (stripe_serve sample_config sample_platform sample_outcomes
          (mk_request ''POST'' [(''stripe-signature'', ''t=1,v1=deadbeef'')] checkout_body)
          empty_world) = empty_world)
   \<and> (\<not> payhip_verifyHmac sample_config sample_platform
          (mk_request ''POST'' [] payhip_sale_body) payhip_sale_body
    \<and> payhip_serve sample_config sample_platform sample_outcomes
          (mk_request ''POST'' [] payhip_sale_body) empty_world
       = (Inr (Response 401 (Json (Obj [(''ok'', Bool False), (''error'', Str ''unauthorized'')]))),
          empty_world))
   \<and> (\<not> gumroad_authed sample_config sample_platform
          (mk_request ''POST'' [(''content-type'', ''application/json''),
                             (''x-gumroad-signature'', ''deadbeef'')] gumroad_sale_body)
          gumroad_sale
    \<and> snd (gumroad_serve sample_config sample_platform sample_outcomes
          (mk_request ''POST'' [(''content-type'', ''application/json''),
                             (''x-gumroad-signature'', ''deadbeef'')] gumroad_sale_body)
          empty_world) = empty_world)
   \<and> (\<not> gumroad_verifyHmac open_config sample_platform
          (mk_request ''POST'' [(''content-type'', ''application/json''),
                             (''x-gumroad-signature'', ''deadbeef'')] gumroad_sale_body)
          gumroad_sale_body
    \<and> take 1 (new_writes empty_world (snd (gumroad_serve open_config sample_platform sample_outcomes
          (mk_request ''POST'' [(''content-type'', ''application/json''),
                             (''x-gumroad-signature'', ''deadbeef'')] gumroad_sale_body)
          empty_world)))
       = [sale_op ''S1'' ''a@b.com'' [] [] []])"
proof -
  note thm1 = failed_signature_delivery
    [where req = "mk_request ''POST'' [(''stripe-signature'', ''t=1,v1=deadbeef'')] checkout_body"
       and cfg = sample_config and plat = sample_platform and secret = "''whsec_1''"
       and oc = sample_outcomes and w = empty_world, THEN conjunct1, rule_format]
  note thm2 = failed_signature_delivery
    [where req = "mk_request ''POST'' [] payhip_sale_body"
       and cfg = sample_config and plat = sample_platform
       and oc = sample_outcomes and w = empty_world, THEN conjunct2, THEN conjunct1, rule_format]
  note thm3 = failed_signature_delivery
    [where req = "mk_request ''POST'' [(''content-type'', ''application/json''),
                                (''x-gumroad-signature'', ''deadbeef'')] gumroad_sale_body"
       and cfg = sample_config and plat = sample_platform and payload = gumroad_sale
       and action = "''sale''"
       and oc = sample_outcomes and w = empty_world,
     THEN conjunct2, THEN conjunct2, THEN conjunct1, rule_format]
  note thm4 = failed_signature_delivery
    [where req = "mk_request ''POST'' [(''content-type'', ''application/json''),
                                (''x-gumroad-signature'', ''deadbeef'')] gumroad_sale_body"
       and cfg = open_config and plat = sample_platform and payload = gumroad_sale
       and sale_id = "''S1''" and e = "''a@b.com''" and productId = "[]" and sellerId = "[]"
       and fullName = "[]"
       and oc = sample_outcomes and w = empty_world,
     THEN conjunct2, THEN conjunct2, THEN conjunct2, rule_format]
  have h1: "req_method (mk_request ''POST'' [(''stripe-signature'', ''t=1,v1=deadbeef'')] checkout_body) \<noteq> ''GET'' \<and>
    stripeWebhookSecret sample_config = Some ''whsec_1'' \<and> ''whsec_1'' \<noteq> [] \<and>
    configured (brevoApiKey sample_config) \<and> configured (emailFrom sample_config) \<and>
    (case header (mk_request ''POST'' [(''stripe-signature'', ''t=1,v1=deadbeef'')] checkout_body)
            ''stripe-signature'' of
       None \<Rightarrow> True
     | Some h \<Rightarrow> h = [] \<or>
         verifyStripeSignature (hmacSHA256Hex sample_platform)
           (req_body (mk_request ''POST'' [(''stripe-signature'', ''t=1,v1=deadbeef'')] checkout_body))
           h ''whsec_1'' = Inr False)"
    by (simp add: mk_request_def sample_config_def configured_def header_def
        sample_stripe_bad_signature toLowerCase_def lower_char_def)
  have h2: "req_method (mk_request ''POST'' [] payhip_sale_body) = ''POST'' \<and>
      \<not> payhip_verifyHmac sample_config sample_platform (mk_request ''POST'' [] payhip_sale_body)
          (req_body (mk_request ''POST'' [] payhip_sale_body))"
    by (simp add: sample_payhip_no_header) (simp add: mk_request_def)
  have h3: "req_method (mk_request ''POST'' [(''content-type'', ''application/json''),
                             (''x-gumroad-signature'', ''deadbeef'')] gumroad_sale_body) \<noteq> ''GET'' \<and>
      req_method (mk_request ''POST'' [(''content-type'', ''application/json''),
                             (''x-gumroad-signature'', ''deadbeef'')] gumroad_sale_body) \<noteq> ''HEAD'' \<and>
      parseBody sample_platform (mk_request ''POST'' [(''content-type'', ''application/json''),
                             (''x-gumroad-signature'', ''deadbeef'')] gumroad_sale_body) = Inr gumroad_sale \<and>
      actionOf gumroad_sale = Inr ''sale'' \<and> ''sale'' \<noteq> ''ping'' \<and>
      requireGumroadAuth sample_config \<and>
      \<not> gumroad_authed sample_config sample_platform (mk_request ''POST'' [(''content-type'', ''application/json''),
                             (''x-gumroad-signature'', ''deadbeef'')] gumroad_sale_body) gumroad_sale"
    by (simp add: sample_parse_gumroad_sale sample_action_gumroad_sale sample_forged_not_authed
        sample_request_method sample_config_facts)
  have h4: "req_method (mk_request ''POST'' [(''content-type'', ''application/json''),
                             (''x-gumroad-signature'', ''deadbeef'')] gumroad_sale_body) \<noteq> ''GET'' \<and> req_method (mk_request ''POST'' [(''content-type'', ''application/json''),
                             (''x-gumroad-signature'', ''deadbeef'')] gumroad_sale_body) \<noteq> ''HEAD'' \<and>
      parseBody sample_platform (mk_request ''POST'' [(''content-type'', ''application/json''),
                             (''x-gumroad-signature'', ''deadbeef'')] gumroad_sale_body) = Inr gumroad_sale \<and> actionOf gumroad_sale = Inr ''sale'' \<and>
      \<not> gumroad_verifyHmac open_config sample_platform (mk_request ''POST'' [(''content-type'', ''application/json''),
                             (''x-gumroad-signature'', ''deadbeef'')] gumroad_sale_body) (req_body (mk_request ''POST'' [(''content-type'', ''application/json''),
                             (''x-gumroad-signature'', ''deadbeef'')] gumroad_sale_body)) \<and>
      (\<not> requireGumroadAuth open_config \<or> gumroad_authed open_config sample_platform (mk_request ''POST'' [(''content-type'', ''application/json''),
                             (''x-gumroad-signature'', ''deadbeef'')] gumroad_sale_body) gumroad_sale) \<and> db open_config \<and>
      String (nc (opt_get gumroad_sale ''sale_id'') (nc (opt_get gumroad_sale ''id'') (Str []))) = Inr ''S1'' \<and>
      String (nc (opt_get gumroad_sale ''email'') (nc (opt_get gumroad_sale ''purchaser_email'') (Str []))) = Inr ''a@b.com'' \<and>
      String (nc (opt_get gumroad_sale ''product_id'') (nc (opt_get (opt_get gumroad_sale ''product'') ''id'') (Str [])))
        = Inr [] \<and>
      String (nc (opt_get gumroad_sale ''seller_id'') (nc (opt_get (opt_get gumroad_sale ''seller'') ''id'') (Str [])))
        = Inr [] \<and>
      String (nc (opt_get gumroad_sale ''full_name'') (nc (opt_get gumroad_sale ''purchaser_name'') (Str [])))
        = Inr [] \<and>
      ''S1'' \<noteq> [] \<and> ''a@b.com'' \<noteq> []"
    by (simp add: sample_parse_gumroad_sale sample_action_gumroad_sale sample_forged_hmac
        sample_request_method sample_config_facts sample_sale_strings)
  show ?thesis
    using thm1 [OF h1] thm2 [OF h2] thm3 [OF h3] thm4 [OF h4] sample_stripe_bad_signature h2 h3
      sample_forged_hmac
    by (simp add: mk_request_def)
qed

subsection \<open>Missing signature header\<close>

text \<open>
  C4, as the code has it. A request without the signature header is answered 400
  \<open>missing signature\<close> by the card-processor handler (configured, method other than GET)
  and 401 by the Payhip handler. The Gumroad handler then authenticates by the secret and
  the seller id of the body alone, and when authentication is required and that check
  fails too it answers 200 \<open>{ok: false, error: "unauthorized"}\<close> (pings apart). In each of
  these answers nothing is written and nothing is sent: the world is unchanged.
\<close>

theorem missing_signature_header:
  "(req_method req \<noteq> ''GET'' \<and> configured (stripeWebhookSecret cfg) \<and>
    configured (brevoApiKey cfg) \<and> configured (emailFrom cfg) \<and>
    header req ''stripe-signature'' = None
    \<longrightarrow> stripe_serve cfg plat oc req w =
          (Response 400 (Json (Obj [(''ok'', Bool False), (''error'', Str ''missing signature'')])), w))
   \<and> (req_method req = ''POST'' \<and> header req ''X-Payhip-Signature'' = None
    \<longrightarrow> payhip_serve cfg plat oc req w =
          (Inr (Response 401 (Json (Obj [(''ok'', Bool False), (''error'', Str ''unauthorized'')]))), w))
   \<and> (header req ''X-Gumroad-Signature'' = None
    \<longrightarrow> gumroad_authed cfg plat req payload =
          ((if configured (gumroadWebhookSecret cfg)
            then Some (nc (opt_get payload ''secret'') (opt_get (opt_get payload ''custom_fields'') ''secret''))
                 = map_option Str (gumroadWebhookSecret cfg)
            else True) \<and>
           (if configured (gumroadSellerId cfg)
            then Some (nc (opt_get payload ''seller_id'') (opt_get (opt_get payload ''seller'') ''id''))
                 = map_option Str (gumroadSellerId cfg)
            else True)))
   \<and> (req_method req \<noteq> ''GET'' \<and> req_method req \<noteq> ''HEAD'' \<and>
      parseBody plat req = Inr payload \<and> actionOf payload = Inr action \<and> action \<noteq> ''ping'' \<and>
      requireGumroadAuth cfg \<and> header req ''X-Gumroad-Signature'' = None \<and>
      \<not> gumroad_authed cfg plat req payload
    \<longrightarrow> gumroad_serve cfg plat oc req w =
          (Inr (Response 200 (Json (Obj [(''ok'', Bool False), (''error'', Str ''unauthorized'')]))), w))"
proof (intro conjI impI)
  assume "req_method req \<noteq> ''GET'' \<and> configured (stripeWebhookSecret cfg) \<and>
    configured (brevoApiKey cfg) \<and> configured (emailFrom cfg) \<and>
    header req ''stripe-signature'' = None"
  then show "stripe_serve cfg plat oc req w =
          (Response 400 (Json (Obj [(''ok'', Bool False), (''error'', Str ''missing signature'')])), w)"
    using stripe_missing_signature [of req cfg plat oc w] by (simp add: bad_def)
next
  assume "req_method req = ''POST'' \<and> header req ''X-Payhip-Signature'' = None"
  then have "req_method req = ''POST''" and "\<not> payhip_verifyHmac cfg plat req (req_body req)"
    by (simp_all add: payhip_verifyHmac_def header_def toLowerCase_def lower_char_def
        split: option.splits)
  then show "payhip_serve cfg plat oc req w =
          (Inr (Response 401 (Json (Obj [(''ok'', Bool False), (''error'', Str ''unauthorized'')]))), w)"
    by (rule payhip_unauthorized)
next
  assume "header req ''X-Gumroad-Signature'' = None"
  then have "\<not> gumroad_verifyHmac cfg plat req (req_body req)"
    by (simp add: gumroad_verifyHmac_def header_def toLowerCase_def lower_char_def
        split: option.splits)
  then show "gumroad_authed cfg plat req payload =
          ((if configured (gumroadWebhookSecret cfg)
            then Some (nc (opt_get payload ''secret'') (opt_get (opt_get payload ''custom_fields'') ''secret''))
                 = map_option Str (gumroadWebhookSecret cfg)
            else True) \<and>
           (if configured (gumroadSellerId cfg)
            then Some (nc (opt_get payload ''seller_id'') (opt_get (opt_get payload ''seller'') ''id''))
                 = map_option Str (gumroadSellerId cfg)
            else True))"
    by (simp add: gumroad_authed_def Let_def)
next
  assume "req_method req \<noteq> ''GET'' \<and> req_method req \<noteq> ''HEAD'' \<and>
      parseBody plat req = Inr payload \<and> actionOf payload = Inr action \<and> action \<noteq> ''ping'' \<and>
      requireGumroadAuth cfg \<and> header req ''X-Gumroad-Signature'' = None \<and>
      \<not> gumroad_authed cfg plat req payload"
  then show "gumroad_serve cfg plat oc req w =
          (Inr (Response 200 (Json (Obj [(''ok'', Bool False), (''error'', Str ''unauthorized'')]))), w)"
    by (simp add: gumroad_unauthorized)
qed

lemma sample_gumroad_no_header_not_authed:
  "\<not> gumroad_authed sample_config sample_platform
       (mk_request ''POST'' [(''content-type'', ''application/json'')] gumroad_sale_body) gumroad_sale"
  by (simp add: gumroad_authed_def gumroad_verifyHmac_def header_def sample_config_def
      sample_platform_def mk_request_def gumroad_sale_def configured_def nc_def Let_def
      toLowerCase_def lower_char_def)

theorem missing_signature_header_witness:
  "stripe_serve sample_config sample_platform sample_outcomes
      (mk_request ''POST'' [] checkout_body) empty_world
     = (Response 400 (Json (Obj [(''ok'', Bool False), (''error'', Str ''missing signature'')])),
        empty_world)
   \<and> payhip_serve sample_config sample_platform sample_outcomes
        (mk_request ''POST'' [] payhip_sale_body) empty_world
     = (Inr (Response 401 (Json (Obj [(''ok'', Bool False), (''error'', Str ''unauthorized'')]))),
        empty_world)
   \<and> \<not> gumroad_authed sample_config sample_platform
        (mk_request ''POST'' [(''content-type'', ''application/json'')] gumroad_sale_body) gumroad_sale
   \<and> gumroad_serve sample_config sample_platform sample_outcomes
        (mk_request ''POST'' [(''content-type'', ''application/json'')] gumroad_sale_body) empty_world
     = (Inr (Response 200 (Json (Obj [(''ok'', Bool False), (''error'', Str ''unauthorized'')]))),
        empty_world)"
proof -
  note thm1 = missing_signature_header
    [where req = "mk_request ''POST'' [] checkout_body"
       and cfg = sample_config and plat = sample_platform
       and oc = sample_outcomes and w = empty_world, THEN conjunct1, rule_format]
  note thm2 = missing_signature_header
    [where req = "mk_request ''POST'' [] payhip_sale_body"
       and cfg = sample_config and plat = sample_platform
       and oc = sample_outcomes and w = empty_world, THEN conjunct2, THEN conjunct1, rule_format]
  note thm3 = missing_signature_header
    [where req = "mk_request ''POST'' [(''content-type'', ''application/json'')] gumroad_sale_body"
       and cfg = sample_config and plat = sample_platform and payload = gumroad_sale,
     THEN conjunct2, THEN conjunct2, THEN conjunct1, rule_format]
  note thm4 = missing_signature_header
    [where req = "mk_request ''POST'' [(''content-type'', ''application/json'')] gumroad_sale_body"
       and cfg = sample_config and plat = sample_platform and payload = gumroad_sale
       and action = "''sale''" and oc = sample_outcomes and w = empty_world,
     THEN conjunct2, THEN conjunct2, THEN conjunct2, rule_format]
  have h1: "req_method (mk_request ''POST'' [] checkout_body) \<noteq> ''GET'' \<and>
      configured (stripeWebhookSecret sample_config) \<and>
      configured (brevoApiKey sample_config) \<and> configured (emailFrom sample_config) \<and>
      header (mk_request ''POST'' [] checkout_body) ''stripe-signature'' = None"
    by (simp add: mk_request_def sample_config_def configured_def header_def)
  have h2: "req_method (mk_request ''POST'' [] payhip_sale_body) = ''POST'' \<and>
      header (mk_request ''POST'' [] payhip_sale_body) ''X-Payhip-Signature'' = None"
    by (simp add: mk_request_def header_def)
  have h3: "header (mk_request ''POST'' [(''content-type'', ''application/json'')] gumroad_sale_body)
      ''X-Gumroad-Signature'' = None"
    by (simp add: mk_request_def header_def toLowerCase_def lower_char_def)
  have h4: "req_method (mk_request ''POST'' [(''content-type'', ''application/json'')] gumroad_sale_body) \<noteq> ''GET'' \<and>
      req_method (mk_request ''POST'' [(''content-type'', ''application/json'')] gumroad_sale_body) \<noteq> ''HEAD'' \<and>
      parseBody sample_platform
        (mk_request ''POST'' [(''content-type'', ''application/json'')] gumroad_sale_body) = Inr gumroad_sale \<and>
      actionOf gumroad_sale = Inr ''sale'' \<and> ''sale'' \<noteq> ''ping'' \<and>
      requireGumroadAuth sample_config \<and>
      header (mk_request ''POST'' [(''content-type'', ''application/json'')] gumroad_sale_body)
        ''X-Gumroad-Signature'' = None \<and>
      \<not> gumroad_authed sample_config sample_platform
        (mk_request ''POST'' [(''content-type'', ''application/json'')] gumroad_sale_body) gumroad_sale"
    by (simp add: sample_parse_gumroad_sale sample_action_gumroad_sale(1) h3
        sample_gumroad_no_header_not_authed)
       (simp add: mk_request_def sample_config_def)
  show ?thesis
    using thm1 [OF h1] thm2 [OF h2] thm3 [OF h3] thm4 [OF h4] sample_gumroad_no_header_not_authed
    by simp
qed

text \<open>Without its signature header a Payhip delivery is answered 401, not 400.\<close>

theorem missing_signature_payhip_counterexample:
  "header (mk_request ''POST'' [(''content-type'', ''application/json'')] payhip_sale_body)
      ''X-Payhip-Signature'' = None
   \<and> fst (payhip_serve sample_config sample_platform sample_outcomes
        (mk_request ''POST'' [(''content-type'', ''application/json'')] payhip_sale_body)
        empty_world)
     = Inr (Response 401 (Json (Obj [(''ok'', Bool False), (''error'', Str ''unauthorized'')])))"
  by (simp add: payhip_serve_def payhip_verifyHmac_def header_def mk_request_def
      sample_config_def toLowerCase_def lower_char_def)

subsection \<open>No secret configured\<close>

lemma stripe_not_configured:
  assumes "req_method req \<noteq> ''GET''" and "\<not> configured (stripeWebhookSecret cfg)"
  shows "stripe_serve cfg plat oc req w = (bad ''server not configured (secret)'' 500, w)"
  using assms
  by (auto simp: stripe_serve_def stripe_gate_def configured_def split: option.splits)

text \<open>
  C5, as the code has it. Without a configured secret the HMAC verification of both
  marketplace handlers returns false. The Payhip handler then rejects every POST with
  401, and the card-processor handler answers every request other than GET with 500
  before any verification, both leaving the world unchanged. The Gumroad handler still
  accepts the delivery through the body check, which without a secret compares only the
  seller id, and only when one is configured.
\<close>

theorem no_secret_configured:
  "(\<not> configured (gumroadWebhookSecret cfg) \<longrightarrow> \<not> gumroad_verifyHmac cfg plat req raw)
   \<and> (\<not> configured (payhipApiKey cfg) \<longrightarrow> \<not> payhip_verifyHmac cfg plat req raw)
   \<and> (\<not> configured (payhipApiKey cfg) \<and> req_method req = ''POST''
      \<longrightarrow> payhip_serve cfg plat oc req w =
            (Inr (Response 401 (Json (Obj [(''ok'', Bool False), (''error'', Str ''unauthorized'')]))), w))
   \<and> (\<not> configured (stripeWebhookSecret cfg) \<and> req_method req \<noteq> ''GET''
      \<longrightarrow> stripe_serve cfg plat oc req w =
            (Response 500 (Json (Obj [(''ok'', Bool False),
                                      (''error'', Str ''server not configured (secret)'')])), w))
   \<and> (\<not> configured (gumroadWebhookSecret cfg)
      \<longrightarrow> gumroad_authed cfg plat req payload =
            (if configured (gumroadSellerId cfg)
             then Some (nc (opt_get payload ''seller_id'') (opt_get (opt_get payload ''seller'') ''id''))
                  = map_option Str (gumroadSellerId cfg)
             else True))"
proof (intro conjI impI)
  assume "\<not> configured (gumroadWebhookSecret cfg)"
  then show g: "\<not> gumroad_verifyHmac cfg plat req raw" for raw
    by (auto simp: gumroad_verifyHmac_def configured_def split: option.splits)
  from g [of "req_body req"] \<open>\<not> configured (gumroadWebhookSecret cfg)\<close>
  show "gumroad_authed cfg plat req payload =
            (if configured (gumroadSellerId cfg)
             then Some (nc (opt_get payload ''seller_id'') (opt_get (opt_get payload ''seller'') ''id''))
                  = map_option Str (gumroadSellerId cfg)
             else True)"
    by (simp add: gumroad_authed_def Let_def)
next
  assume "\<not> configured (payhipApiKey cfg)"
  then show "\<not> payhip_verifyHmac cfg plat req raw"
    by (auto simp: payhip_verifyHmac_def configured_def split: option.splits)
next
  assume "\<not> configured (payhipApiKey cfg) \<and> req_method req = ''POST''"
  then have "req_method req = ''POST''" and "\<not> payhip_verifyHmac cfg plat req (req_body req)"
    by (auto simp: payhip_verifyHmac_def configured_def split: option.splits)
  then show "payhip_serve cfg plat oc req w =
            (Inr (Response 401 (Json (Obj [(''ok'', Bool False), (''error'', Str ''unauthorized'')]))), w)"
    by (rule payhip_unauthorized)
next
  assume "\<not> configured (stripeWebhookSecret cfg) \<and> req_method req \<noteq> ''GET''"
  then show "stripe_serve cfg plat oc req w =
            (Response 500 (Json (Obj [(''ok'', Bool False),
                                      (''error'', Str ''server not configured (secret)'')])), w)"
    using stripe_not_configured [of req cfg plat oc w] by (simp add: bad_def)
qed


theorem no_secret_configured_witness:
  "\<not> configured (gumroadWebhookSecret (sample_config \<lparr> gumroadWebhookSecret := None \<rparr>))
   \<and> \<not> gumroad_verifyHmac (sample_config \<lparr> gumroadWebhookSecret := None \<rparr>) sample_platform
        (mk_request ''POST'' [(''x-gumroad-signature'', ''c0ffee'')] gumroad_sale_body) gumroad_sale_body
   \<and> \<not> configured (payhipApiKey (sample_config \<lparr> payhipApiKey := None \<rparr>))
   \<and> payhip_serve (sample_config \<lparr> payhipApiKey := None \<rparr>) sample_platform sample_outcomes
        (mk_request ''POST'' [(''x-payhip-signature'', ''c0ffee'')] payhip_sale_body) empty_world
      = (Inr (Response 401 (Json (Obj [(''ok'', Bool False), (''error'', Str ''unauthorized'')]))), empty_world)
   \<and> \<not> configured (stripeWebhookSecret (sample_config \<lparr> stripeWebhookSecret := None \<rparr>))
   \<and> stripe_serve (sample_config \<lparr> stripeWebhookSecret := None \<rparr>) sample_platform sample_outcomes
        (mk_request ''POST'' [(''stripe-signature'', ''t=1,v1=c0ffee'')] checkout_body) empty_world
      = (Response 500 (Json (Obj [(''ok'', Bool False),
                                  (''error'', Str ''server not configured (secret)'')])), empty_world)
   \<and> gumroad_authed (sample_config \<lparr> gumroadWebhookSecret := None \<rparr>) sample_platform
        (mk_request ''POST'' [(''x-gumroad-signature'', ''c0ffee'')] gumroad_sale_body) gumroad_sale"
proof -
  have c1: "\<not> configured (gumroadWebhookSecret (sample_config \<lparr> gumroadWebhookSecret := None \<rparr>))"
    and c2: "\<not> configured (payhipApiKey (sample_config \<lparr> payhipApiKey := None \<rparr>))"
    and c3: "\<not> configured (stripeWebhookSecret (sample_config \<lparr> stripeWebhookSecret := None \<rparr>))"
    and c4: "\<not> configured (gumroadSellerId (sample_config \<lparr> gumroadWebhookSecret := None \<rparr>))"
    by (simp_all add: configured_def sample_config_def)
  note t1 = no_secret_configured
    [where cfg = "sample_config \<lparr> gumroadWebhookSecret := None \<rparr>" and plat = sample_platform
       and req = "mk_request ''POST'' [(''x-gumroad-signature'', ''c0ffee'')] gumroad_sale_body"
       and raw = gumroad_sale_body and payload = gumroad_sale]
  note t2 = no_secret_configured
    [where cfg = "sample_config \<lparr> payhipApiKey := None \<rparr>" and plat = sample_platform
       and req = "mk_request ''POST'' [(''x-payhip-signature'', ''c0ffee'')] payhip_sale_body"
       and oc = sample_outcomes and w = empty_world]
  note t3 = no_secret_configured
    [where cfg = "sample_config \<lparr> stripeWebhookSecret := None \<rparr>" and plat = sample_platform
       and req = "mk_request ''POST'' [(''stripe-signature'', ''t=1,v1=c0ffee'')] checkout_body"
       and oc = sample_outcomes and w = empty_world]
  from t1 c1 c4 have g: "\<not> gumroad_verifyHmac (sample_config \<lparr> gumroadWebhookSecret := None \<rparr>) sample_platform
        (mk_request ''POST'' [(''x-gumroad-signature'', ''c0ffee'')] gumroad_sale_body) gumroad_sale_body"
    and a: "gumroad_authed (sample_config \<lparr> gumroadWebhookSecret := None \<rparr>) sample_platform
        (mk_request ''POST'' [(''x-gumroad-signature'', ''c0ffee'')] gumroad_sale_body) gumroad_sale"
    by simp_all
  from t2 c2 have p: "payhip_serve (sample_config \<lparr> payhipApiKey := None \<rparr>) sample_platform sample_outcomes
        (mk_request ''POST'' [(''x-payhip-signature'', ''c0ffee'')] payhip_sale_body) empty_world
      = (Inr (Response 401 (Json (Obj [(''ok'', Bool False), (''error'', Str ''unauthorized'')]))), empty_world)"
    by (simp add: sample_request_method)
  from t3 c3 have s: "stripe_serve (sample_config \<lparr> stripeWebhookSecret := None \<rparr>) sample_platform sample_outcomes
        (mk_request ''POST'' [(''stripe-signature'', ''t=1,v1=c0ffee'')] checkout_body) empty_world
      = (Response 500 (Json (Obj [(''ok'', Bool False),
                                  (''error'', Str ''server not configured (secret)'')])), empty_world)"
    by (simp add: sample_request_method)
  from c1 c2 c3 g a p s show ?thesis by simp
qed

text \<open>
  With authentication required but neither a secret nor a seller id configured, the
  Gumroad handler accepts an unsigned sale and writes the subscriber.
\<close>

theorem no_secret_gumroad_counterexample:
  "\<not> configured (gumroadWebhookSecret (sample_config \<lparr> gumroadWebhookSecret := None \<rparr>))
   \<and> requireGumroadAuth (sample_config \<lparr> gumroadWebhookSecret := None \<rparr>)
   \<and> fst (gumroad_serve (sample_config \<lparr> gumroadWebhookSecret := None \<rparr>) sample_platform
             sample_outcomes
             (mk_request ''POST'' [(''content-type'', ''application/json'')] gumroad_sale_body)
             empty_world)
      = Inr (Response 200 (Json (Obj [(''ok'', Bool True), (''pdf_url'', Null), (''csv_url'', Null)])))
   \<and> tables (snd (gumroad_serve (sample_config \<lparr> gumroadWebhookSecret := None \<rparr>) sample_platform
             sample_outcomes
             (mk_request ''POST'' [(''content-type'', ''application/json'')] gumroad_sale_body)
             empty_world)) ''subscribers''
      = [[(''sale_id'', Some ''S1''), (''email'', Some ''a@b.com''), (''product_id'', None),
          (''seller_id'', None), (''full_name'', None), (''pdf_url'', None), (''csv_url'', None)]]"
proof -
  have auth: "\<not> requireGumroadAuth (sample_config \<lparr> gumroadWebhookSecret := None \<rparr>) \<or>
      gumroad_authed (sample_config \<lparr> gumroadWebhookSecret := None \<rparr>) sample_platform
        (mk_request ''POST'' [(''content-type'', ''application/json'')] gumroad_sale_body) gumroad_sale"
    by (simp add: gumroad_authed_def gumroad_verifyHmac_def sample_config_def configured_def Let_def)
  have c: "db (sample_config \<lparr> gumroadWebhookSecret := None \<rparr>)"
    "telegramBotToken (sample_config \<lparr> gumroadWebhookSecret := None \<rparr>) = None"
    by (simp_all add: db_def sample_config_def)
  show ?thesis
    by (simp add: sample_sale_served [OF c auth] sample_sale_write c json200_def)
       (simp add: sample_config_def configured_def)
qed

subsection \<open>The ledger of the card-processor handler\<close>

lemma exec_tables_other:
  "op_table q \<noteq> t \<Longrightarrow> tables (snd (exec oc q w)) t = tables w t"
  by (cases q) (simp_all add: exec_def Let_def)


lemma ledger_row_key:
  "\<not> nullish (opt_get evt ''id'') \<Longrightarrow>
   col (json_row [(''event_id'', opt_get evt ''id''), (''event_type'', opt_get evt ''type'')]) ''event_id''
     = Some (sql_text (opt_get evt ''id''))"
  by (auto simp: json_row_def col_def cell_def)

lemma col_merge_row_last:
  "col (merge_row old (new @ [(c, v)])) c = v"
  by (simp add: merge_row_def col_set_col)

lemma col_merge_row_first:
  "c \<notin> fst ` set new \<Longrightarrow> col (merge_row old ((c, v) # new)) c = v"
proof -
  have "c \<notin> fst ` set new \<Longrightarrow> col r c = v \<Longrightarrow> col (foldl (\<lambda>r (c, v). set_col c v r) r new) c = v" for r
    by (induction new arbitrary: r) (auto simp: col_set_col)
  then show "c \<notin> fst ` set new \<Longrightarrow> col (merge_row old ((c, v) # new)) c = v"
    by (simp add: merge_row_def col_set_col)
qed







lemma stripe_first_ledger:
  assumes "db cfg" and "\<not> nullish (opt_get evt ''id'')" and "\<not> db_fails oc (ledger_op evt)"
    and "\<not> ledgered (sql_text (opt_get evt ''id'')) w"
  shows "fst (stripe_ledger cfg oc evt w) = False"
  using assms ledger_row_key [OF assms(2)]
  by (simp add: stripe_ledger_def exec_def ledger_op_def Let_def db_upsert_def ledgered_def)

lemma stripe_first_delivery:
  assumes "db cfg" and "\<not> nullish (opt_get evt ''id'')" and "\<not> db_fails oc (ledger_op evt)"
    and "\<not> ledgered (sql_text (opt_get evt ''id'')) w"
    and "shouldProcessDb evt"
    and "normalizeStripeEvent evt = Inr n"
    and "truthy (nc (email n) (extractBuyerEmail evt))"
  shows "\<exists>cid. writes (snd (stripe_process cfg oc evt w)) =
           writes w @ [ledger_op evt,
                       customer_op n (nc (email n) (extractBuyerEmail evt)),
                       subscription_op oc n cid,
                       onboarding_op n (nc (email n) (extractBuyerEmail evt)) (brevo_error oc)]"
    and "notifications (snd (stripe_process cfg oc evt w)) =
           notifications w @ [BrevoEmail (nc (email n) (extractBuyerEmail evt)) (productName n)]"
    and "fst (stripe_process cfg oc evt w) =
           ok (Obj [(''received'', Bool True), (''sent'', Bool (brevo_error oc = None))])"
proof -
  note led = stripe_first_ledger [OF assms(1-4)]
  have send: "shouldSend evt"
    using assms(5) by (auto simp: shouldSend_def shouldProcessDb_def Let_def)
  show "\<exists>cid. writes (snd (stripe_process cfg oc evt w)) =
           writes w @ [ledger_op evt,
                       customer_op n (nc (email n) (extractBuyerEmail evt)),
                       subscription_op oc n cid,
                       onboarding_op n (nc (email n) (extractBuyerEmail evt)) (brevo_error oc)]"
    using assms(1,5,6,7) led send
    by (simp add: stripe_process_def Let_def snd_stripe_ledger stripe_upserts_def
        sendOnboardingEmail_def exec_writes) blast
  show "notifications (snd (stripe_process cfg oc evt w)) =
           notifications w @ [BrevoEmail (nc (email n) (extractBuyerEmail evt)) (productName n)]"
    using assms(1,5,6,7) led send
    by (simp add: stripe_process_def Let_def snd_stripe_ledger stripe_upserts_def
        sendOnboardingEmail_def exec_notifications)
  show "fst (stripe_process cfg oc evt w) =
           ok (Obj [(''received'', Bool True), (''sent'', Bool (brevo_error oc = None))])"
    using assms(1,5,6,7) led send
    by (simp add: stripe_process_def Let_def sendOnboardingEmail_def)
qed


subsection \<open>Delivering the same event twice\<close>

lemma stripe_gate_cont:
  "stripe_gate cfg plat req = Cont evt \<Longrightarrow> stripe_serve cfg plat oc req w = stripe_process cfg oc evt w"
  by (simp add: stripe_serve_def)



lemma sample_signature_valid:
  "verifyStripeSignature (hmacSHA256Hex sample_platform) raw ''t=1,v1=c0ffee'' ''whsec_1'' = Inr True"
  "verifyStripeSignature (hmacSHA256Hex sample_platform) raw ''t=2,v1=c0ffee'' ''whsec_1'' = Inr True"
  by (simp_all add: verifyStripeSignature_def parseStripeSigHeader_def sig_step_def sig_part_def
      trim_def is_space_def sample_platform_def tsec_iff)

lemma sample_stripe_gate_parsed:
  assumes "JSON_parse sample_platform raw = Some evt" and "\<not> nullish evt"
  shows "stripe_gate sample_config sample_platform
           (mk_request ''POST'' [(''stripe-signature'', ''t=1,v1=c0ffee'')] raw) = Cont evt"
    and "stripe_gate sample_config sample_platform
           (mk_request ''POST'' [(''stripe-signature'', ''t=2,v1=c0ffee'')] raw) = Cont evt"
  using assms
  by (simp_all add: stripe_gate_def mk_request_def header_def sample_config_def configured_def
      sample_signature_valid)

lemma sample_json_parse:
  "JSON_parse sample_platform checkout_body = Some checkout_event"
  "JSON_parse sample_platform unnamed_body = Some unnamed_event"
  "JSON_parse sample_platform refund_body = Some refund_event"
  by (simp_all add: sample_platform_def checkout_body_def refund_body_def gumroad_sale_body_def
      gumroad_refund_body_def payhip_sale_body_def payhip_refund_body_def
      gumroad_secret_sale_body_def unnamed_body_def)

lemma sample_event_facts:
  "\<not> nullish checkout_event" "\<not> nullish unnamed_event" "\<not> nullish refund_event"
  "\<not> nullish (opt_get checkout_event ''id'')"
  "\<not> nullish (opt_get unnamed_event ''id'')"
  "sql_text (opt_get checkout_event ''id'') = ''evt_1''"
  "sql_text (opt_get unnamed_event ''id'') = ''evt_3''"
  "shouldProcessDb checkout_event"
  "shouldSend unnamed_event"
  "normalizeStripeEvent unnamed_event = Inl TypeError"
  by (simp_all add: checkout_event_def unnamed_event_def refund_event_def shouldProcessDb_def
      shouldSend_def normalizeStripeEvent_def then_str_def extractProductName_def nc_def Let_def)

lemmas sample_stripe_gate =
  sample_stripe_gate_parsed [OF sample_json_parse(1) sample_event_facts(1)]
  sample_stripe_gate_parsed [OF sample_json_parse(2) sample_event_facts(2)]

lemma sample_world_facts:
  "\<not> db_fails sample_outcomes q"
  "\<not> ledgered k empty_world"
  by (simp_all add: sample_outcomes_def ledgered_def empty_world_def)





subsection \<open>Conflict keys of the entitlement upserts\<close>

lemma allowed_keys:
  "list_all (allowed k) ops \<Longrightarrow> set (List.map_filter entitlement_key ops) \<subseteq> {k}"
  by (induction ops) (auto simp: List.map_filter_simps allowed_def split: option.splits)

lemma writes_telegram_notify: "writes (telegram_notify cfg e p w) = writes w"
  by (simp add: telegram_notify_def)

lemma writes_auto_invite: "writes (auto_invite cfg plat p w) = writes w"
  by (simp add: auto_invite_def Let_def split: sum.splits)

lemma stripe_sale_keys:
  assumes "stripe_gate cfg plat req = Cont evt" and "db cfg"
    and "\<not> nullish (opt_get evt ''id'')" and "\<not> db_fails oc (ledger_op evt)"
    and "\<not> ledgered (sql_text (opt_get evt ''id'')) w"
    and "shouldProcessDb evt"
    and "normalizeStripeEvent evt = Inr n"
    and "truthy (nc (email n) (extractBuyerEmail evt))"
  shows "List.map_filter entitlement_key (new_writes w (snd (stripe_serve cfg plat oc req w)))
         = [''stripe_checkout_session_id'']"
proof -
  from stripe_first_delivery(1) [OF assms(2-8)]
  obtain cid where "writes (snd (stripe_process cfg oc evt w)) =
           writes w @ [ledger_op evt,
                       customer_op n (nc (email n) (extractBuyerEmail evt)),
                       subscription_op oc n cid,
                       onboarding_op n (nc (email n) (extractBuyerEmail evt)) (brevo_error oc)]"
    by blast
  then show ?thesis
    by (simp add: stripe_gate_cont [OF assms(1)] new_writes_def List.map_filter_simps
        ledger_op_def customer_op_def subscription_op_def onboarding_op_def)
qed

lemma sale_write_keys:
  assumes "sale_id \<noteq> []" and "e \<noteq> []"
  shows "List.map_filter entitlement_key
           (new_writes w (snd (sale_write cfg plat oc p sale_id e productId sellerId fullName w)))
         = [''sale_id'']"
  using assms
  by (simp add: sale_write_def Let_def new_writes_def exec_writes
      writes_telegram_notify writes_auto_invite List.map_filter_simps sale_op_def)

lemma gumroad_sale_keys:
  assumes "req_method req \<noteq> ''GET''" and "req_method req \<noteq> ''HEAD''"
    and "parseBody plat req = Inr payload" and "actionOf payload = Inr ''sale''"
    and "requireGumroadAuth cfg \<longrightarrow> gumroad_authed cfg plat req payload"
    and "db cfg"
    and "String (nc (opt_get payload ''sale_id'') (nc (opt_get payload ''id'') (Str []))) = Inr sale_id"
    and "String (nc (opt_get payload ''email'') (nc (opt_get payload ''purchaser_email'') (Str []))) = Inr e"
    and "String (nc (opt_get payload ''product_id'') (nc (opt_get (opt_get payload ''product'') ''id'') (Str [])))
           = Inr productId"
    and "String (nc (opt_get payload ''seller_id'') (nc (opt_get (opt_get payload ''seller'') ''id'') (Str [])))
           = Inr sellerId"
    and "String (nc (opt_get payload ''full_name'') (nc (opt_get payload ''purchaser_name'') (Str [])))
           = Inr fullName"
    and "sale_id \<noteq> []" and "e \<noteq> []"
  shows "List.map_filter entitlement_key (new_writes w (snd (gumroad_serve cfg plat oc req w)))
         = [''sale_id'']"
proof -
  note p = actionOf_not_nullish [OF assms(4)]
  note h = handleSale_converted [OF assms(6) p assms(7-11), of plat oc w]
  from assms(5) have a: "\<not> requireGumroadAuth cfg \<or> gumroad_authed cfg plat req payload"
    by blast
  show ?thesis
    unfolding gumroad_sale_served [OF assms(1-4) a h] snd_conv
    by (rule sale_write_keys [OF assms(12,13)])
qed

lemma payhip_sale_keys:
  assumes "req_method req = ''POST''" and "payhip_verifyHmac cfg plat req (req_body req)"
    and "JSON_parse plat (req_body req) = Some payload"
    and "String (lor (opt_get payload ''event'') (lor (opt_get payload ''type'') (Str []))) = Inr event"
    and "includes_js event ''sale'' \<or> includes_js event ''purchase'' \<or> includes_js event ''completed''"
    and "String (lor (opt_get (opt_get payload ''customer'') ''email'')
                  (lor (opt_get payload ''email'') (Str []))) = Inr addr"
    and "addr \<noteq> []" and "db cfg"
  shows "List.map_filter entitlement_key (new_writes w (snd (payhip_serve cfg plat oc req w)))
         = [''email'']"
proof -
  from assms(5) have ne: "event \<noteq> []" by auto
  define w1 where "w1 = snd (exec oc (payhip_upsert_op addr
                    (lor (opt_get payload ''id'') (opt_get payload ''order_id''))
                    (opt_get payload ''product_id'')) w)"
  have s: "payhip_sale_part cfg oc payload event w = Inr w1"
    using assms(5-8) by (simp add: payhip_sale_part_def then_str_def w1_def)
  have w1: "writes w1 = writes w @ [payhip_upsert_op addr
                    (lor (opt_get payload ''id'') (opt_get payload ''order_id''))
                    (opt_get payload ''product_id'')]"
    by (simp add: w1_def exec_writes)
  have r: "List.map_filter entitlement_key (new_writes w (payhip_event cfg oc payload event w)) = [''email'']"
    by (auto simp: payhip_event_def s payhip_refund_part_def then_str_def new_writes_def w1
        exec_writes List.map_filter_simps payhip_upsert_op_def revoke_op_def
        split: sum.splits if_splits)
  show ?thesis
    using assms(1-4) ne r by (simp add: payhip_serve_def)
qed

text \<open>
  C9, as the code has it. Every upsert of an entitlement that the card-processor handler
  issues has the conflict key \<open>stripe_checkout_session_id\<close>, every one of the Gumroad
  handler has \<open>sale_id\<close>, and every one of the Payhip handler has \<open>email\<close>. An accepted
  sale whose fields convert to strings without an exception issues exactly that upsert:
  for the card processor a new completed checkout or payment with a buyer address whose
  normalization returns; for Gumroad a sale whose five conversions return, with a sale id
  and an address; for Payhip a sale event whose name and address convert, with an
  address.
\<close>

theorem entitlement_conflict_keys:
  "set (List.map_filter entitlement_key (new_writes w (snd (stripe_serve cfg plat oc req w))))
     \<subseteq> {''stripe_checkout_session_id''}
   \<and> set (List.map_filter entitlement_key (new_writes w (snd (gumroad_serve cfg plat oc req w))))
     \<subseteq> {''sale_id''}
   \<and> set (List.map_filter entitlement_key (new_writes w (snd (payhip_serve cfg plat oc req w))))
     \<subseteq> {''email''}
   \<and> (stripe_gate cfg plat req = Cont evt \<and> db cfg \<and> \<not> nullish (opt_get evt ''id'') \<and>
      \<not> db_fails oc (ledger_op evt) \<and> \<not> ledgered (sql_text (opt_get evt ''id'')) w \<and>
      shouldProcessDb evt \<and> normalizeStripeEvent evt = Inr n \<and>
      truthy (nc (email n) (extractBuyerEmail evt))
      \<longrightarrow> List.map_filter entitlement_key (new_writes w (snd (stripe_serve cfg plat oc req w)))
          = [''stripe_checkout_session_id''])
   \<and> (req_method req \<noteq> ''GET'' \<and> req_method req \<noteq> ''HEAD'' \<and>
      parseBody plat req = Inr payload \<and> actionOf payload = Inr ''sale'' \<and>
      (requireGumroadAuth cfg \<longrightarrow> gumroad_authed cfg plat req payload) \<and> db cfg \<and>
      String (nc (opt_get payload ''sale_id'') (nc (opt_get payload ''id'') (Str []))) = Inr sale_id \<and>
      String (nc (opt_get payload ''email'') (nc (opt_get payload ''purchaser_email'') (Str []))) = Inr e \<and>
      String (nc (opt_get payload ''product_id'') (nc (opt_get (opt_get payload ''product'') ''id'') (Str [])))
        = Inr productId \<and>
      String (nc (opt_get payload ''seller_id'') (nc (opt_get (opt_get payload ''seller'') ''id'') (Str [])))
        = Inr sellerId \<and>
      String (nc (opt_get payload ''full_name'') (nc (opt_get payload ''purchaser_name'') (Str [])))
        = Inr fullName \<and>
      sale_id \<noteq> [] \<and> e \<noteq> []
      \<longrightarrow> List.map_filter entitlement_key (new_writes w (snd (gumroad_serve cfg plat oc req w)))
          = [''sale_id''])
   \<and> (req_method req = ''POST'' \<and> payhip_verifyHmac cfg plat req (req_body req) \<and>
      JSON_parse plat (req_body req) = Some payload \<and>
      String (lor (opt_get payload ''event'') (lor (opt_get payload ''type'') (Str []))) = Inr event \<and>
      (includes_js event ''sale'' \<or> includes_js event ''purchase'' \<or> includes_js event ''completed'') \<and>
      String (lor (opt_get (opt_get payload ''customer'') ''email'')
                (lor (opt_get payload ''email'') (Str []))) = Inr addr \<and>
      addr \<noteq> [] \<and> db cfg
      \<longrightarrow> List.map_filter entitlement_key (new_writes w (snd (payhip_serve cfg plat oc req w)))
          = [''email''])"
proof (intro conjI impI)
  show "set (List.map_filter entitlement_key (new_writes w (snd (stripe_serve cfg plat oc req w))))
     \<subseteq> {''stripe_checkout_session_id''}"
    by (rule allowed_keys [OF steps_new_writes [OF steps_stripe_serve]])
  show "set (List.map_filter entitlement_key (new_writes w (snd (gumroad_serve cfg plat oc req w))))
     \<subseteq> {''sale_id''}"
    by (rule allowed_keys [OF steps_new_writes [OF steps_gumroad_serve]])
  show "set (List.map_filter entitlement_key (new_writes w (snd (payhip_serve cfg plat oc req w))))
     \<subseteq> {''email''}"
    by (rule allowed_keys [OF steps_new_writes [OF steps_payhip_serve]])
next
  assume a: "stripe_gate cfg plat req = Cont evt \<and> db cfg \<and> \<not> nullish (opt_get evt ''id'') \<and>
      \<not> db_fails oc (ledger_op evt) \<and> \<not> ledgered (sql_text (opt_get evt ''id'')) w \<and>
      shouldProcessDb evt \<and> normalizeStripeEvent evt = Inr n \<and>
      truthy (nc (email n) (extractBuyerEmail evt))"
  show "List.map_filter entitlement_key (new_writes w (snd (stripe_serve cfg plat oc req w)))
          = [''stripe_checkout_session_id'']"
    using a stripe_sale_keys [of cfg plat req evt oc w n] by blast
next
  assume a: "req_method req \<noteq> ''GET'' \<and> req_method req \<noteq> ''HEAD'' \<and>
      parseBody plat req = Inr payload \<and> actionOf payload = Inr ''sale'' \<and>
      (requireGumroadAuth cfg \<longrightarrow> gumroad_authed cfg plat req payload) \<and> db cfg \<and>
      String (nc (opt_get payload ''sale_id'') (nc (opt_get payload ''id'') (Str []))) = Inr sale_id \<and>
      String (nc (opt_get payload ''email'') (nc (opt_get payload ''purchaser_email'') (Str []))) = Inr e \<and>
      String (nc (opt_get payload ''product_id'') (nc (opt_get (opt_get payload ''product'') ''id'') (Str [])))
        = Inr productId \<and>
      String (nc (opt_get payload ''seller_id'') (nc (opt_get (opt_get payload ''seller'') ''id'') (Str [])))
        = Inr sellerId \<and>
      String (nc (opt_get payload ''full_name'') (nc (opt_get payload ''purchaser_name'') (Str [])))
        = Inr fullName \<and>
      sale_id \<noteq> [] \<and> e \<noteq> []"
  show "List.map_filter entitlement_key (new_writes w (snd (gumroad_serve cfg plat oc req w)))
          = [''sale_id'']"
    using a gumroad_sale_keys [of req plat payload cfg sale_id e productId sellerId fullName w oc]
    by blast
next
  assume a: "req_method req = ''POST'' \<and> payhip_verifyHmac cfg plat req (req_body req) \<and>
      JSON_parse plat (req_body req) = Some payload \<and>
      String (lor (opt_get payload ''event'') (lor (opt_get payload ''type'') (Str []))) = Inr event \<and>
      (includes_js event ''sale'' \<or> includes_js event ''purchase'' \<or> includes_js event ''completed'') \<and>
      String (lor (opt_get (opt_get payload ''customer'') ''email'')
                (lor (opt_get payload ''email'') (Str []))) = Inr addr \<and>
      addr \<noteq> [] \<and> db cfg"
  show "List.map_filter entitlement_key (new_writes w (snd (payhip_serve cfg plat oc req w)))
          = [''email'']"
    using a payhip_sale_keys [of req cfg plat payload event addr w oc] by blast
qed

lemma sample_payhip_signed:
  "payhip_verifyHmac sample_config sample_platform
     (mk_request ''POST'' [(''x-payhip-signature'', ''C0FFEE'')] raw) raw'"
  by (simp add: payhip_verifyHmac_def header_def sample_config_def sample_platform_def
      mk_request_def toLowerCase_def lower_char_def trim_def is_space_def)

lemma sample_payhip_parse:
  "JSON_parse sample_platform payhip_sale_body = Some payhip_sale"
  "JSON_parse sample_platform payhip_refund_body = Some payhip_refund"
  by (simp_all add: sample_platform_def checkout_body_def refund_body_def gumroad_sale_body_def
      gumroad_refund_body_def payhip_sale_body_def payhip_refund_body_def)

lemma sample_payhip_sale_facts:
  "String (lor (opt_get payhip_sale ''event'') (lor (opt_get payhip_sale ''type'') (Str [])))
     = Inr ''sale.completed''"
  "includes_js ''sale.completed'' ''sale''"
  "String (lor (opt_get (opt_get payhip_sale ''customer'') ''email'')
             (lor (opt_get payhip_sale ''email'') (Str []))) = Inr ''a@b.com''"
  "\<not> includes_js ''sale.completed'' ''refund''"
  "\<not> includes_js ''sale.completed'' ''chargeback''"
  by (simp_all add: lor_def payhip_sale_def)

theorem entitlement_conflict_keys_witness:
  "List.map_filter entitlement_key (new_writes empty_world
      (snd (stripe_serve sample_config sample_platform sample_outcomes
              (mk_request ''POST'' [(''stripe-signature'', ''t=1,v1=c0ffee'')] checkout_body)
              empty_world)))
     = [''stripe_checkout_session_id'']
   \<and> List.map_filter entitlement_key (new_writes empty_world
      (snd (gumroad_serve open_config sample_platform sample_outcomes
              (mk_request ''POST'' [(''content-type'', ''application/json'')] gumroad_sale_body)
              empty_world)))
     = [''sale_id'']
   \<and> List.map_filter entitlement_key (new_writes empty_world
      (snd (payhip_serve sample_config sample_platform sample_outcomes
              (mk_request ''POST'' [(''x-payhip-signature'', ''C0FFEE'')] payhip_sale_body)
              empty_world)))
     = [''email'']"
proof -
  note t1 = entitlement_conflict_keys
    [where cfg = sample_config and plat = sample_platform and oc = sample_outcomes
       and req = "mk_request ''POST'' [(''stripe-signature'', ''t=1,v1=c0ffee'')] checkout_body"
       and w = empty_world and evt = checkout_event
       and n = "\<lparr> eventId = ''evt_1'', customerId = Str ''cus_1'', checkoutSessionId = Str ''cs_1'',
           email = Str ''a@b.com'', productName = ''Premium Access'',
           planId = Str ''premium_telegram'' \<rparr>",
     THEN conjunct2, THEN conjunct2, THEN conjunct2, THEN conjunct1, rule_format]
  note t2 = entitlement_conflict_keys
    [where cfg = open_config and plat = sample_platform
       and oc = sample_outcomes
       and req = "mk_request ''POST'' [(''content-type'', ''application/json'')] gumroad_sale_body"
       and w = empty_world and payload = gumroad_sale
       and sale_id = "''S1''" and e = "''a@b.com''" and productId = "[]" and sellerId = "[]"
       and fullName = "[]",
     THEN conjunct2, THEN conjunct2, THEN conjunct2, THEN conjunct2, THEN conjunct1, rule_format]
  note t3 = entitlement_conflict_keys
    [where cfg = sample_config and plat = sample_platform and oc = sample_outcomes
       and req = "mk_request ''POST'' [(''x-payhip-signature'', ''C0FFEE'')] payhip_sale_body"
       and w = empty_world and payload = payhip_sale and event = "''sale.completed''"
       and addr = "''a@b.com''",
     THEN conjunct2, THEN conjunct2, THEN conjunct2, THEN conjunct2, THEN conjunct2, rule_format]
  have h1: "stripe_gate sample_config sample_platform (mk_request ''POST'' [(''stripe-signature'', ''t=1,v1=c0ffee'')] checkout_body) = Cont checkout_event \<and> db sample_config \<and> \<not> nullish (opt_get checkout_event ''id'') \<and>
      \<not> db_fails sample_outcomes (ledger_op checkout_event) \<and> \<not> ledgered (sql_text (opt_get checkout_event ''id'')) empty_world \<and>
      shouldProcessDb checkout_event \<and> normalizeStripeEvent checkout_event = Inr (\<lparr> eventId = ''evt_1'', customerId = Str ''cus_1'', checkoutSessionId = Str ''cs_1'',
           email = Str ''a@b.com'', productName = ''Premium Access'',
           planId = Str ''premium_telegram'' \<rparr>) \<and>
      truthy (nc (email (\<lparr> eventId = ''evt_1'', customerId = Str ''cus_1'', checkoutSessionId = Str ''cs_1'',
           email = Str ''a@b.com'', productName = ''Premium Access'',
           planId = Str ''premium_telegram'' \<rparr>)) (extractBuyerEmail checkout_event))"
    using sample_stripe_gate(1) sample_event_facts sample_world_facts sample_config_facts(1)
      sample_checkout_normalized
    by (simp add: nc_def)
  have h2: "req_method (mk_request ''POST'' [(''content-type'', ''application/json'')] gumroad_sale_body) \<noteq> ''GET'' \<and> req_method (mk_request ''POST'' [(''content-type'', ''application/json'')] gumroad_sale_body) \<noteq> ''HEAD'' \<and>
      parseBody sample_platform (mk_request ''POST'' [(''content-type'', ''application/json'')] gumroad_sale_body) = Inr gumroad_sale \<and> actionOf gumroad_sale = Inr ''sale'' \<and>
      (requireGumroadAuth open_config \<longrightarrow> gumroad_authed open_config sample_platform (mk_request ''POST'' [(''content-type'', ''application/json'')] gumroad_sale_body) gumroad_sale) \<and> db open_config \<and>
      String (nc (opt_get gumroad_sale ''sale_id'') (nc (opt_get gumroad_sale ''id'') (Str []))) = Inr ''S1'' \<and>
      String (nc (opt_get gumroad_sale ''email'') (nc (opt_get gumroad_sale ''purchaser_email'') (Str []))) = Inr ''a@b.com'' \<and>
      String (nc (opt_get gumroad_sale ''product_id'') (nc (opt_get (opt_get gumroad_sale ''product'') ''id'') (Str [])))
        = Inr [] \<and>
      String (nc (opt_get gumroad_sale ''seller_id'') (nc (opt_get (opt_get gumroad_sale ''seller'') ''id'') (Str [])))
        = Inr [] \<and>
      String (nc (opt_get gumroad_sale ''full_name'') (nc (opt_get gumroad_sale ''purchaser_name'') (Str [])))
        = Inr [] \<and>
      ''S1'' \<noteq> [] \<and> ''a@b.com'' \<noteq> []"
    by (simp add: sample_request_method sample_parse_gumroad_sale sample_action_gumroad_sale
        sample_sale_strings sample_config_facts)
  have h3: "req_method (mk_request ''POST'' [(''x-payhip-signature'', ''C0FFEE'')] payhip_sale_body) = ''POST'' \<and> payhip_verifyHmac sample_config sample_platform (mk_request ''POST'' [(''x-payhip-signature'', ''C0FFEE'')] payhip_sale_body) (req_body (mk_request ''POST'' [(''x-payhip-signature'', ''C0FFEE'')] payhip_sale_body)) \<and>
      JSON_parse sample_platform (req_body (mk_request ''POST'' [(''x-payhip-signature'', ''C0FFEE'')] payhip_sale_body)) = Some payhip_sale \<and>
      String (lor (opt_get payhip_sale ''event'') (lor (opt_get payhip_sale ''type'') (Str []))) = Inr ''sale.completed'' \<and>
      (includes_js ''sale.completed'' ''sale'' \<or> includes_js ''sale.completed'' ''purchase'' \<or> includes_js ''sale.completed'' ''completed'') \<and>
      String (lor (opt_get (opt_get payhip_sale ''customer'') ''email'')
                (lor (opt_get payhip_sale ''email'') (Str []))) = Inr ''a@b.com'' \<and>
      ''a@b.com'' \<noteq> [] \<and> db sample_config"
    by (simp add: sample_request_method sample_payhip_signed sample_payhip_sale_facts
        sample_config_facts(1))
       (simp add: mk_request_def sample_payhip_parse)
  show ?thesis
    using t1 [OF h1] t2 [OF h2] t3 [OF h3] by simp
qed

text \<open>A Payhip sale is upserted with the e-mail address as conflict key, not the sale id.\<close>

theorem payhip_conflict_key_counterexample:
  "writes (snd (payhip_serve sample_config sample_platform sample_outcomes
      (mk_request ''POST'' [(''x-payhip-signature'', ''C0FFEE'')] payhip_sale_body) empty_world))
   = [Upsert ''subscribers''
        [(''email'', Some ''a@b.com''), (''source'', Some ''payhip''), (''sale_id'', Some ''P1'')]
        ''email'' False]"
proof -
  have "payhip_event sample_config sample_outcomes payhip_sale ''sale.completed'' empty_world
      = snd (exec sample_outcomes
               (Upsert ''subscribers''
                  [(''email'', Some ''a@b.com''), (''source'', Some ''payhip''), (''sale_id'', Some ''P1'')]
                  ''email'' False) empty_world)"
    by (simp add: payhip_event_def payhip_sale_part_def payhip_refund_part_def then_str_def
        sample_payhip_sale_facts sample_config_facts(1) payhip_upsert_op_def)
       (simp add: json_row_def cell_def payhip_sale_def lor_def)
  then show ?thesis
    by (simp add: payhip_serve_def Let_def sample_request_method sample_payhip_signed exec_writes)
       (simp add: mk_request_def sample_payhip_parse sample_payhip_sale_facts exec_writes empty_world_def)
qed

subsection \<open>Revocation\<close>

lemma exec_update_tables:
  "\<not> db_fails oc (Update t vals c k) \<Longrightarrow>
   tables (snd (exec oc (Update t vals c k) w)) = (tables w)(t := db_update vals c k (tables w t))"
  by (simp add: exec_def Let_def)

lemma db_update_unknown:
  "filter (\<lambda>r. col r c = Some k) tbl = [] \<Longrightarrow> db_update vals c k tbl = tbl"
  by (induction tbl) (auto simp: db_update_def split: if_splits)

lemma revoke_row: "json_row [(''revoked_at'', Str ts)] = [(''revoked_at'', Some ts)]"
  by (simp add: json_row_def cell_def)

lemma gumroad_refund_effect:
  assumes "req_method req \<noteq> ''GET''" and "req_method req \<noteq> ''HEAD''"
    and "parseBody plat req = Inr payload" and "actionOf payload = Inr action"
    and "action = ''refund'' \<or> action = ''chargeback'' \<or> action = ''subscription_cancelled''"
    and "requireGumroadAuth cfg \<longrightarrow> gumroad_authed cfg plat req payload"
    and "db cfg"
    and "String (nc (opt_get payload ''sale_id'') (nc (opt_get payload ''id'') (Str []))) = Inr sale_id"
    and "sale_id \<noteq> []"
    and "\<not> db_fails oc (revoke_op oc sale_id)"
  shows "fst (gumroad_serve cfg plat oc req w) = Inr (Response 200 (Json (Obj [(''ok'', Bool True)])))"
    and "tables (snd (gumroad_serve cfg plat oc req w)) =
           (tables w)(''subscribers'' :=
             map (\<lambda>r. if col r ''sale_id'' = Some sale_id
                       then merge_row r [(''revoked_at'', Some (now oc))] else r)
                 (tables w ''subscribers''))"
proof -
  have act: "action \<noteq> ''ping''" "action \<noteq> ''sale''"
    using assms(5) by auto
  have serve: "gumroad_serve cfg plat oc req w =
      (Inr (json200 (Obj [(''ok'', Bool True)])), gumroad_revoke cfg oc payload w)"
    using assms(1-6) act by (auto simp: gumroad_serve_def)
  show "fst (gumroad_serve cfg plat oc req w) = Inr (Response 200 (Json (Obj [(''ok'', Bool True)])))"
    by (simp add: serve json200_def)
  have "gumroad_revoke cfg oc payload w = snd (exec oc (revoke_op oc sale_id) w)"
    using assms(7,8,9) by (simp add: gumroad_revoke_def Let_def)
  then show "tables (snd (gumroad_serve cfg plat oc req w)) =
           (tables w)(''subscribers'' :=
             map (\<lambda>r. if col r ''sale_id'' = Some sale_id
                       then merge_row r [(''revoked_at'', Some (now oc))] else r)
                 (tables w ''subscribers''))"
    using assms(10)
    by (simp add: serve revoke_op_def revoke_row exec_update_tables db_update_def)
qed

lemma payhip_refund_effect:
  assumes "req_method req = ''POST''" and "payhip_verifyHmac cfg plat req (req_body req)"
    and "JSON_parse plat (req_body req) = Some payload"
    and "String (lor (opt_get payload ''event'') (lor (opt_get payload ''type'') (Str []))) = Inr event"
    and "includes_js event ''refund'' \<or> includes_js event ''chargeback''"
    and "payhip_sale_part cfg oc payload event w = Inr w1"
    and "db cfg"
    and "String (lor (opt_get payload ''id'') (lor (opt_get payload ''order_id'') (Str []))) = Inr sale_id"
    and "sale_id \<noteq> []"
    and "\<not> db_fails oc (revoke_op oc sale_id)"
  shows "fst (payhip_serve cfg plat oc req w) = Inr (Response 200 (Json (Obj [(''ok'', Bool True)])))"
    and "tables (snd (payhip_serve cfg plat oc req w)) =
           (tables w1)(''subscribers'' :=
             map (\<lambda>r. if col r ''sale_id'' = Some sale_id
                       then merge_row r [(''revoked_at'', Some (now oc))] else r)
                 (tables w1 ''subscribers''))"
proof -
  from assms(5) have ev: "event \<noteq> []" by auto
  show "fst (payhip_serve cfg plat oc req w) = Inr (Response 200 (Json (Obj [(''ok'', Bool True)])))"
    using assms(1-4) by (simp add: payhip_serve_def Let_def json200_def)
  have r: "payhip_refund_part cfg oc payload event w1 = Inr (snd (exec oc (revoke_op oc sale_id) w1))"
    using assms(5,7,8,9) by (simp add: payhip_refund_part_def then_str_def)
  have "snd (payhip_serve cfg plat oc req w) = snd (exec oc (revoke_op oc sale_id) w1)"
    using assms(1-4) ev by (simp add: payhip_serve_def payhip_event_def assms(6) r)
  then show "tables (snd (payhip_serve cfg plat oc req w)) =
           (tables w1)(''subscribers'' :=
             map (\<lambda>r. if col r ''sale_id'' = Some sale_id
                       then merge_row r [(''revoked_at'', Some (now oc))] else r)
                 (tables w1 ''subscribers''))"
    using assms(10)
    by (simp add: revoke_op_def revoke_row exec_update_tables db_update_def)
qed

lemma stripe_other_event_ignored:
  assumes "stripe_gate cfg plat req = Cont evt" and "\<not> shouldSend evt"
    and "t \<noteq> ''stripe_event_ledger''"
  shows "tables (snd (stripe_serve cfg plat oc req w)) t = tables w t"
    and "notifications (snd (stripe_serve cfg plat oc req w)) = notifications w"
    and "fst (stripe_serve cfg plat oc req w) = ok (Obj [(''ignored'', Bool True)]) \<or>
         fst (stripe_serve cfg plat oc req w) = ok (Obj [(''received'', Bool True), (''duplicate'', Bool True)])"
  using assms
  by (simp_all add: stripe_gate_cont stripe_process_def Let_def snd_stripe_ledger
      exec_tables_other exec_notifications ledger_op_def)

lemma revoked_at_merge: "col (merge_row r [(''revoked_at'', Some ts)]) ''revoked_at'' = Some ts"
  by (simp add: merge_row_def col_set_col)

lemma steps_allowed_keep_revoked:
  assumes "steps (allowed k) w w'"
  shows "keeps_revoked (tables w t) (tables w' t)"
proof (rule steps_keeps_revoked [OF assms])
  fix q
  assume "allowed k q"
  then show "revoke_safe q" by (simp add: allowed_def)
qed

lemma handlers_keep_revoked:
  "keeps_revoked (tables w t) (tables (snd (gumroad_serve cfg plat oc req w)) t)"
  "keeps_revoked (tables w t) (tables (snd (payhip_serve cfg plat oc req w)) t)"
  by (rule steps_allowed_keep_revoked [OF steps_gumroad_serve])
     (rule steps_allowed_keep_revoked [OF steps_payhip_serve])

lemma steps_tables_other:
  assumes "steps P w w'" and "\<And>q. P q \<Longrightarrow> op_table q \<noteq> t"
  shows "tables w' t = tables w t"
  using assms(1)
  by (induction rule: steps.induct) (simp_all add: exec_tables_other assms(2))

lemma stripe_leaves_subscribers:
  "tables (snd (stripe_serve cfg plat oc req w)) ''subscribers'' = tables w ''subscribers''"
  by (rule steps_tables_other [OF steps_stripe_write_serve]) (simp add: stripe_write_def)

lemma stripe_writes_activate:
  "list_all activates (new_writes w (snd (stripe_serve cfg plat oc req w)))"
proof -
  have "list_all (allowed ''stripe_checkout_session_id'')
          (new_writes w (snd (stripe_serve cfg plat oc req w)))"
    by (rule steps_new_writes [OF steps_stripe_serve])
  then show ?thesis
    by (simp add: list_all_iff allowed_def)
qed

lemma col_merge_row:
  "distinct (map fst new) \<Longrightarrow> map_of new x = Some v \<Longrightarrow> col (merge_row old new) x = v"
proof (induction new arbitrary: old)
  case Nil
  then show ?case by simp
next
  case (Cons cv new)
  obtain c v' where cv: "cv = (c, v')" by (cases cv)
  have step: "merge_row old ((c, v') # new) = merge_row (set_col c v' old) new"
    by (simp add: merge_row_def)
  show ?case
  proof (cases "c = x")
    case True
    with Cons.prems cv have "v' = v" and "x \<notin> fst ` set new" by auto
    with True cv show ?thesis by (simp add: col_merge_row_first)
  next
    case False
    with Cons.prems cv have "distinct (map fst new)" and "map_of new x = Some v" by auto
    then show ?thesis unfolding cv step by (rule Cons.IH)
  qed
qed

lemma db_upsert_sets:
  assumes "distinct (map fst new)" and "map_of new c = Some (Some k)" and "map_of new x = Some v"
  shows "filter (\<lambda>r. col r c = Some k) (fst (db_upsert dflt new c False tbl)) \<noteq> []"
    and "list_all (\<lambda>r. col r c = Some k \<longrightarrow> col r x = v) (fst (db_upsert dflt new c False tbl))"
proof -
  have key: "col new c = Some k"
    using assms(2) by (simp add: col_def)
  have m: "col (merge_row r new) c = Some k" "col (merge_row r new) x = v" for r
    using col_merge_row [OF assms(1,2)] col_merge_row [OF assms(1,3)] by simp_all
  show "filter (\<lambda>r. col r c = Some k) (fst (db_upsert dflt new c False tbl)) \<noteq> []"
  proof (cases "filter (\<lambda>r. col r c = Some k) tbl = []")
    case True
    then show ?thesis by (simp add: db_upsert_def key m)
  next
    case False
    then obtain r where "r \<in> set tbl" and "col r c = Some k"
      by (auto simp: filter_empty_conv)
    then have "merge_row r new \<in> set (map (\<lambda>r. if col r c = Some k then merge_row r new else r) tbl)"
      by force
    then have "filter (\<lambda>r. col r c = Some k)
        (map (\<lambda>r. if col r c = Some k then merge_row r new else r) tbl) \<noteq> []"
      unfolding filter_empty_conv using m(1) [of r] by blast
    with False show ?thesis
      by (simp add: db_upsert_def key)
  qed
  show "list_all (\<lambda>r. col r c = Some k \<longrightarrow> col r x = v) (fst (db_upsert dflt new c False tbl))"
    by (auto simp: db_upsert_def key list_all_iff m filter_empty_conv)
qed

lemma subscription_row:
  assumes "cell (checkoutSessionId n) = Some cs"
  shows "distinct (map fst (op_values (subscription_op oc n cid)))"
    and "map_of (op_values (subscription_op oc n cid)) ''stripe_checkout_session_id'' = Some (Some cs)"
    and "map_of (op_values (subscription_op oc n cid)) ''status'' = Some (Some ''active'')"
proof -
  from assms have u: "checkoutSessionId n \<noteq> Undefined"
    by (auto simp: cell_def split: if_splits)
  have p: "nc (planId n) (Str (productName n)) \<noteq> Undefined"
    by (auto simp: nc_def)
  show "distinct (map fst (op_values (subscription_op oc n cid)))"
    and "map_of (op_values (subscription_op oc n cid)) ''stripe_checkout_session_id'' = Some (Some cs)"
    and "map_of (op_values (subscription_op oc n cid)) ''status'' = Some (Some ''active'')"
    using u p assms by (simp_all add: subscription_op_def json_row_def) (simp add: cell_def)
qed

lemma exec_upsert_tables:
  "\<not> db_fails oc (Upsert t new c ign) \<Longrightarrow>
   tables (snd (exec oc (Upsert t new c ign) w)) t = fst (db_upsert (defaults oc t) new c ign (tables w t))"
  by (simp add: exec_def Let_def)

lemma stripe_sale_activates:
  assumes "stripe_gate cfg plat req = Cont evt" and "db cfg"
    and "\<not> nullish (opt_get evt ''id'')" and "\<not> db_fails oc (ledger_op evt)"
    and "\<not> ledgered (sql_text (opt_get evt ''id'')) w"
    and "shouldProcessDb evt"
    and "normalizeStripeEvent evt = Inr n"
    and "truthy (nc (email n) (extractBuyerEmail evt))"
    and "cell (checkoutSessionId n) = Some cs"
    and "\<forall>cid. \<not> db_fails oc (subscription_op oc n cid)"
  shows "filter (\<lambda>r. col r ''stripe_checkout_session_id'' = Some cs)
            (tables (snd (stripe_serve cfg plat oc req w)) ''premium_subscriptions'') \<noteq> []"
    and "list_all (\<lambda>r. col r ''stripe_checkout_session_id'' = Some cs \<longrightarrow>
                         col r ''status'' = Some ''active'')
            (tables (snd (stripe_serve cfg plat oc req w)) ''premium_subscriptions'')"
proof -
  note led = stripe_first_ledger [OF assms(2-5)]
  have send: "shouldSend evt"
    using assms(6) by (auto simp: shouldSend_def shouldProcessDb_def Let_def)
  define e where "e = nc (email n) (extractBuyerEmail evt)"
  define wc where "wc = snd (exec oc (customer_op n e) (snd (stripe_ledger cfg oc evt w)))"
  define cid where "cid = (case fst (exec oc (customer_op n e) (snd (stripe_ledger cfg oc evt w))) of
                             Some [r] \<Rightarrow> col r ''id'' | _ \<Rightarrow> None)"
  have up: "stripe_upserts oc n e (snd (stripe_ledger cfg oc evt w))
      = snd (exec oc (subscription_op oc n cid) wc)"
    by (simp add: stripe_upserts_def Let_def wc_def cid_def)
  have t: "tables (snd (stripe_serve cfg plat oc req w)) ''premium_subscriptions''
      = tables (snd (exec oc (subscription_op oc n cid) wc)) ''premium_subscriptions''"
    using assms(2,6,7,8) led send
    by (simp add: stripe_gate_cont [OF assms(1)] stripe_process_def Let_def e_def [symmetric] up
        sendOnboardingEmail_def exec_tables_other onboarding_op_def)
  have f: "\<not> db_fails oc (subscription_op oc n cid)"
    using assms(10) by simp
  have q: "subscription_op oc n cid
      = Upsert ''premium_subscriptions'' (op_values (subscription_op oc n cid))
          ''stripe_checkout_session_id'' False"
    by (simp add: subscription_op_def)
  have t2: "tables (snd (exec oc (subscription_op oc n cid) wc)) ''premium_subscriptions''
      = fst (db_upsert (defaults oc ''premium_subscriptions'') (op_values (subscription_op oc n cid))
               ''stripe_checkout_session_id'' False (tables wc ''premium_subscriptions''))"
    using f exec_upsert_tables [of oc "''premium_subscriptions''" "op_values (subscription_op oc n cid)"
        "''stripe_checkout_session_id''" False wc]
    by (simp add: q [symmetric])
  note r = subscription_row [OF assms(9), of oc cid]
  show "filter (\<lambda>r. col r ''stripe_checkout_session_id'' = Some cs)
            (tables (snd (stripe_serve cfg plat oc req w)) ''premium_subscriptions'') \<noteq> []"
    unfolding t t2 by (rule db_upsert_sets(1) [OF r(1) r(2) r(3)])
  show "list_all (\<lambda>r. col r ''stripe_checkout_session_id'' = Some cs \<longrightarrow>
                         col r ''status'' = Some ''active'')
            (tables (snd (stripe_serve cfg plat oc req w)) ''premium_subscriptions'')"
    unfolding t t2 by (rule db_upsert_sets(2) [OF r(1) r(2) r(3)])
qed

lemma payhip_no_sale:
  "\<not> (includes_js event ''sale'' \<or> includes_js event ''purchase'' \<or> includes_js event ''completed'') \<Longrightarrow>
   payhip_sale_part cfg oc payload event w = Inr w"
  by (simp add: payhip_sale_part_def)

text \<open>
  C8, as the code has it. The marketplace handlers record a revocation in the column
  \<open>revoked_at\<close> of the subscriber row. An accepted Gumroad event \<open>refund\<close>, \<open>chargeback\<close> or
  \<open>subscription_cancelled\<close>, and an authenticated Payhip event whose name contains
  \<open>refund\<close> or \<open>chargeback\<close>, is answered 200 and, when the sale id converts to a string
  that is not empty and the database accepts the update, sets \<open>revoked_at\<close> to the current
  time in every row with the sale id of the event and leaves the other rows alone; for a
  sale id that no row has, the table stays as it was. For Payhip the update follows the
  sale half of the same event, which changes nothing when the name contains none of
  \<open>sale\<close>, \<open>purchase\<close>, \<open>completed\<close>. Neither marketplace handler ever clears \<open>revoked_at\<close>: a
  revoked subscriber row stays revoked. The card-processor handler has no revocation. It
  never writes to the subscribers; every write it makes to the subscriptions sets the
  status \<open>active\<close>; after a new completed sale that the database accepts, a subscription
  with the checkout session of the sale exists and every such subscription is \<open>active\<close>,
  whatever status it had before; and an event of another type than the three it
  processes, such as a refund, changes no table but the ledger and sends nothing.
\<close>

theorem refund_revokes_subscriber:
  "(req_method req \<noteq> ''GET'' \<and> req_method req \<noteq> ''HEAD'' \<and>
    parseBody plat req = Inr payload \<and> actionOf payload = Inr action \<and>
    (action = ''refund'' \<or> action = ''chargeback'' \<or> action = ''subscription_cancelled'') \<and>
    (requireGumroadAuth cfg \<longrightarrow> gumroad_authed cfg plat req payload) \<and> db cfg \<and>
    String (nc (opt_get payload ''sale_id'') (nc (opt_get payload ''id'') (Str []))) = Inr sale_id \<and>
    sale_id \<noteq> [] \<and> \<not> db_fails oc (revoke_op oc sale_id)
    \<longrightarrow> fst (gumroad_serve cfg plat oc req w) = Inr (Response 200 (Json (Obj [(''ok'', Bool True)]))) \<and>
        tables (snd (gumroad_serve cfg plat oc req w)) =
          (tables w)(''subscribers'' :=
             map (\<lambda>r. if col r ''sale_id'' = Some sale_id
                       then merge_row r [(''revoked_at'', Some (now oc))] else r)
                 (tables w ''subscribers'')))
   \<and> (req_method req = ''POST'' \<and> payhip_verifyHmac cfg plat req (req_body req) \<and>
      JSON_parse plat (req_body req) = Some payload \<and>
      String (lor (opt_get payload ''event'') (lor (opt_get payload ''type'') (Str []))) = Inr event \<and>
      (includes_js event ''refund'' \<or> includes_js event ''chargeback'') \<and>
      payhip_sale_part cfg oc payload event w = Inr w1 \<and> db cfg \<and>
      String (lor (opt_get payload ''id'') (lor (opt_get payload ''order_id'') (Str []))) = Inr sale_id \<and>
      sale_id \<noteq> [] \<and> \<not> db_fails oc (revoke_op oc sale_id)
    \<longrightarrow> fst (payhip_serve cfg plat oc req w) = Inr (Response 200 (Json (Obj [(''ok'', Bool True)]))) \<and>
        tables (snd (payhip_serve cfg plat oc req w)) =
          (tables w1)(''subscribers'' :=
             map (\<lambda>r. if col r ''sale_id'' = Some sale_id
                       then merge_row r [(''revoked_at'', Some (now oc))] else r)
                 (tables w1 ''subscribers'')))
   \<and> (\<not> (includes_js event ''sale'' \<or> includes_js event ''purchase'' \<or> includes_js event ''completed'')
      \<longrightarrow> payhip_sale_part cfg oc payload event w = Inr w)
   \<and> col (merge_row r [(''revoked_at'', Some ts)]) ''revoked_at'' = Some ts
   \<and> (filter (\<lambda>r. col r ''sale_id'' = Some sale_id) tbl = []
      \<longrightarrow> map (\<lambda>r. if col r ''sale_id'' = Some sale_id
                    then merge_row r [(''revoked_at'', Some ts)] else r) tbl = tbl)
   \<and> keeps_revoked (tables w ''subscribers'')
        (tables (snd (gumroad_serve cfg plat oc req w)) ''subscribers'')
   \<and> keeps_revoked (tables w ''subscribers'')
        (tables (snd (payhip_serve cfg plat oc req w)) ''subscribers'')
   \<and> tables (snd (stripe_serve cfg plat oc req w)) ''subscribers'' = tables w ''subscribers''
   \<and> list_all activates (new_writes w (snd (stripe_serve cfg plat oc req w)))
   \<and> (stripe_gate cfg plat req = Cont evt \<and> db cfg \<and> \<not> nullish (opt_get evt ''id'') \<and>
      \<not> db_fails oc (ledger_op evt) \<and> \<not> ledgered (sql_text (opt_get evt ''id'')) w \<and>
      shouldProcessDb evt \<and> normalizeStripeEvent evt = Inr n \<and>
      truthy (nc (email n) (extractBuyerEmail evt)) \<and>
      cell (checkoutSessionId n) = Some cs \<and>
      (\<forall>cid. \<not> db_fails oc (subscription_op oc n cid))
      \<longrightarrow> filter (\<lambda>r. col r ''stripe_checkout_session_id'' = Some cs)
            (tables (snd (stripe_serve cfg plat oc req w)) ''premium_subscriptions'') \<noteq> [] \<and>
          list_all (\<lambda>r. col r ''stripe_checkout_session_id'' = Some cs \<longrightarrow>
                         col r ''status'' = Some ''active'')
            (tables (snd (stripe_serve cfg plat oc req w)) ''premium_subscriptions''))
   \<and> (stripe_gate cfg plat req = Cont evt \<and> \<not> shouldSend evt \<and> t \<noteq> ''stripe_event_ledger''
      \<longrightarrow> tables (snd (stripe_serve cfg plat oc req w)) t = tables w t \<and>
          notifications (snd (stripe_serve cfg plat oc req w)) = notifications w)"
proof (intro conjI impI)
  assume a: "req_method req \<noteq> ''GET'' \<and> req_method req \<noteq> ''HEAD'' \<and>
    parseBody plat req = Inr payload \<and> actionOf payload = Inr action \<and>
    (action = ''refund'' \<or> action = ''chargeback'' \<or> action = ''subscription_cancelled'') \<and>
    (requireGumroadAuth cfg \<longrightarrow> gumroad_authed cfg plat req payload) \<and> db cfg \<and>
    String (nc (opt_get payload ''sale_id'') (nc (opt_get payload ''id'') (Str []))) = Inr sale_id \<and>
    sale_id \<noteq> [] \<and> \<not> db_fails oc (revoke_op oc sale_id)"
  show "fst (gumroad_serve cfg plat oc req w) = Inr (Response 200 (Json (Obj [(''ok'', Bool True)])))"
    using a gumroad_refund_effect(1) [of req plat payload action cfg sale_id oc w] by blast
  show "tables (snd (gumroad_serve cfg plat oc req w)) =
          (tables w)(''subscribers'' :=
             map (\<lambda>r. if col r ''sale_id'' = Some sale_id
                       then merge_row r [(''revoked_at'', Some (now oc))] else r)
                 (tables w ''subscribers''))"
    using a gumroad_refund_effect(2) [of req plat payload action cfg sale_id oc w] by blast
next
  assume a: "req_method req = ''POST'' \<and> payhip_verifyHmac cfg plat req (req_body req) \<and>
      JSON_parse plat (req_body req) = Some payload \<and>
      String (lor (opt_get payload ''event'') (lor (opt_get payload ''type'') (Str []))) = Inr event \<and>
      (includes_js event ''refund'' \<or> includes_js event ''chargeback'') \<and>
      payhip_sale_part cfg oc payload event w = Inr w1 \<and> db cfg \<and>
      String (lor (opt_get payload ''id'') (lor (opt_get payload ''order_id'') (Str []))) = Inr sale_id \<and>
      sale_id \<noteq> [] \<and> \<not> db_fails oc (revoke_op oc sale_id)"
  show "fst (payhip_serve cfg plat oc req w) = Inr (Response 200 (Json (Obj [(''ok'', Bool True)])))"
    using a payhip_refund_effect(1) [of req cfg plat payload event oc w w1 sale_id] by blast
  show "tables (snd (payhip_serve cfg plat oc req w)) =
          (tables w1)(''subscribers'' :=
             map (\<lambda>r. if col r ''sale_id'' = Some sale_id
                       then merge_row r [(''revoked_at'', Some (now oc))] else r)
                 (tables w1 ''subscribers''))"
    using a payhip_refund_effect(2) [of req cfg plat payload event oc w w1 sale_id] by blast
next
  assume "\<not> (includes_js event ''sale'' \<or> includes_js event ''purchase'' \<or> includes_js event ''completed'')"
  then show "payhip_sale_part cfg oc payload event w = Inr w"
    by (rule payhip_no_sale)
next
  show "col (merge_row r [(''revoked_at'', Some ts)]) ''revoked_at'' = Some ts"
    by (rule revoked_at_merge)
next
  assume "filter (\<lambda>r. col r ''sale_id'' = Some sale_id) tbl = []"
  then show "map (\<lambda>r. if col r ''sale_id'' = Some sale_id
                    then merge_row r [(''revoked_at'', Some ts)] else r) tbl = tbl"
    using db_update_unknown [of "''sale_id''" sale_id tbl "[(''revoked_at'', Some ts)]"]
    by (simp add: db_update_def)
next
  show "keeps_revoked (tables w ''subscribers'')
        (tables (snd (gumroad_serve cfg plat oc req w)) ''subscribers'')"
    by (rule handlers_keep_revoked)
  show "keeps_revoked (tables w ''subscribers'')
        (tables (snd (payhip_serve cfg plat oc req w)) ''subscribers'')"
    by (rule handlers_keep_revoked)
  show "tables (snd (stripe_serve cfg plat oc req w)) ''subscribers'' = tables w ''subscribers''"
    by (rule stripe_leaves_subscribers)
  show "list_all activates (new_writes w (snd (stripe_serve cfg plat oc req w)))"
    by (rule stripe_writes_activate)
next
  assume a: "stripe_gate cfg plat req = Cont evt \<and> db cfg \<and> \<not> nullish (opt_get evt ''id'') \<and>
      \<not> db_fails oc (ledger_op evt) \<and> \<not> ledgered (sql_text (opt_get evt ''id'')) w \<and>
      shouldProcessDb evt \<and> normalizeStripeEvent evt = Inr n \<and>
      truthy (nc (email n) (extractBuyerEmail evt)) \<and>
      cell (checkoutSessionId n) = Some cs \<and>
      (\<forall>cid. \<not> db_fails oc (subscription_op oc n cid))"
  show "filter (\<lambda>r. col r ''stripe_checkout_session_id'' = Some cs)
            (tables (snd (stripe_serve cfg plat oc req w)) ''premium_subscriptions'') \<noteq> []"
    using a stripe_sale_activates(1) [of cfg plat req evt oc w n cs] by blast
  show "list_all (\<lambda>r. col r ''stripe_checkout_session_id'' = Some cs \<longrightarrow>
                         col r ''status'' = Some ''active'')
            (tables (snd (stripe_serve cfg plat oc req w)) ''premium_subscriptions'')"
    using a stripe_sale_activates(2) [of cfg plat req evt oc w n cs] by blast
next
  assume a: "stripe_gate cfg plat req = Cont evt \<and> \<not> shouldSend evt \<and> t \<noteq> ''stripe_event_ledger''"
  show "tables (snd (stripe_serve cfg plat oc req w)) t = tables w t"
    using a stripe_other_event_ignored(1) [of cfg plat req evt t oc w] by blast
  show "notifications (snd (stripe_serve cfg plat oc req w)) = notifications w"
    using a stripe_other_event_ignored(2) [of cfg plat req evt t oc w] by blast
qed


lemma sample_refund_facts:
  "stripe_gate sample_config sample_platform (mk_request ''POST'' [(''stripe-signature'', ''t=1,v1=c0ffee'')] refund_body) = Cont refund_event"
  "\<not> shouldSend refund_event"
  "sql_text (opt_get refund_event ''id'') = ''evt_2''"
  "\<not> nullish (opt_get refund_event ''id'')"
  by (rule sample_stripe_gate_parsed(1) [OF sample_json_parse(3) sample_event_facts(3)])
     (simp_all add: shouldSend_def refund_event_def)

lemma sample_gumroad_refund_facts:
  "parseBody sample_platform (mk_request ''POST'' [(''content-type'', ''application/json'')] gumroad_refund_body) = Inr gumroad_refund"
  "actionOf gumroad_refund = Inr ''refund''"
  "String (nc (opt_get gumroad_refund ''sale_id'') (nc (opt_get gumroad_refund ''id'') (Str []))) = Inr ''S1''"
  by (simp_all add: parseBody_def header_def actionOf_def then_str_def nc_def toLowerCase_def
      lower_char_def sample_defs)

lemma sample_payhip_refund_facts:
  "String (lor (opt_get payhip_refund ''event'') (lor (opt_get payhip_refund ''type'') (Str [])))
     = Inr ''refunded''"
  "includes_js ''refunded'' ''refund''"
  "\<not> (includes_js ''refunded'' ''sale'' \<or> includes_js ''refunded'' ''purchase'' \<or>
      includes_js ''refunded'' ''completed'')"
  "String (lor (opt_get payhip_refund ''id'') (lor (opt_get payhip_refund ''order_id'') (Str []))) = Inr ''P1''"
  by (simp_all add: lor_def payhip_refund_def)

lemma sample_sale_tables:
  "tables (snd (stripe_process sample_config sample_outcomes checkout_event empty_world))
     ''premium_subscriptions''
   = [[(''customer_id'', None), (''stripe_subscription_id'', None),
         (''stripe_checkout_session_id'', Some ''cs_1''), (''status'', Some ''active''),
         (''plan_id'', Some ''premium_telegram''),
         (''last_event_at'', Some ''2025-01-01T00:00:00.000Z'')]]"
  "tables (snd (stripe_process sample_config sample_outcomes checkout_event empty_world))
     ''stripe_event_ledger''
   = [[(''event_id'', Some ''evt_1''), (''event_type'', Some ''checkout.session.completed'')]]"
  "tables (snd (stripe_process sample_config sample_outcomes checkout_event revoked_world))
     ''premium_subscriptions''
   = [[(''stripe_checkout_session_id'', Some ''cs_1''), (''status'', Some ''active''),
         (''customer_id'', None), (''stripe_subscription_id'', None),
         (''plan_id'', Some ''premium_telegram''),
         (''last_event_at'', Some ''2025-01-01T00:00:00.000Z'')]]"
  by (simp_all add: stripe_process_def stripe_ledger_def stripe_upserts_def sendOnboardingEmail_def
      Let_def exec_def db_upsert_def ledger_op_def customer_op_def subscription_op_def
      onboarding_op_def json_row_def cell_def col_def merge_row_def nc_def
      normalizeStripeEvent_def then_str_def extractProductName_def extractBuyerEmail_def shouldSend_def
      shouldProcessDb_def db_def sample_config_def sample_outcomes_def empty_world_def
      revoked_world_def checkout_event_def)

theorem refund_revokes_subscriber_witness:
  "tables (snd (gumroad_serve open_config sample_platform sample_outcomes
                  (mk_request ''POST'' [(''content-type'', ''application/json'')] gumroad_refund_body)
                  subscribed_world)) ''subscribers''
     = [[(''sale_id'', Some ''S1''), (''email'', Some ''a@b.com''),
         (''revoked_at'', Some ''2025-01-01T00:00:00.000Z'')]]
   \<and> payhip_sale_part sample_config sample_outcomes payhip_refund ''refunded'' subscribed_world
     = Inr subscribed_world
   \<and> fst (payhip_serve sample_config sample_platform sample_outcomes
            (mk_request ''POST'' [(''x-payhip-signature'', ''C0FFEE'')] payhip_refund_body)
            subscribed_world)
     = Inr (Response 200 (Json (Obj [(''ok'', Bool True)])))
   \<and> tables (snd (payhip_serve sample_config sample_platform sample_outcomes
            (mk_request ''POST'' [(''x-payhip-signature'', ''C0FFEE'')] payhip_refund_body)
            subscribed_world)) ''subscribers''
     = [[(''sale_id'', Some ''S1''), (''email'', Some ''a@b.com'')]]
   \<and> tables (snd (stripe_serve sample_config sample_platform sample_outcomes
            (mk_request ''POST'' [(''stripe-signature'', ''t=1,v1=c0ffee'')] refund_body)
            subscribed_world)) ''subscribers''
     = [[(''sale_id'', Some ''S1''), (''email'', Some ''a@b.com'')]]
   \<and> tables revoked_world ''premium_subscriptions''
     = [[(''stripe_checkout_session_id'', Some ''cs_1''), (''status'', Some ''revoked'')]]
   \<and> filter (\<lambda>r. col r ''stripe_checkout_session_id'' = Some ''cs_1'')
        (tables (snd (stripe_serve sample_config sample_platform sample_outcomes
            (mk_request ''POST'' [(''stripe-signature'', ''t=1,v1=c0ffee'')] checkout_body)
            revoked_world)) ''premium_subscriptions'') \<noteq> []
   \<and> list_all (\<lambda>r. col r ''stripe_checkout_session_id'' = Some ''cs_1'' \<longrightarrow>
                     col r ''status'' = Some ''active'')
        (tables (snd (stripe_serve sample_config sample_platform sample_outcomes
            (mk_request ''POST'' [(''stripe-signature'', ''t=1,v1=c0ffee'')] checkout_body)
            revoked_world)) ''premium_subscriptions'')"
proof -
  note g = refund_revokes_subscriber
    [where cfg = open_config and plat = sample_platform and oc = sample_outcomes
       and req = "mk_request ''POST'' [(''content-type'', ''application/json'')] gumroad_refund_body"
       and w = subscribed_world and payload = gumroad_refund and action = "''refund''"
       and sale_id = "''S1''",
     THEN conjunct1, rule_format]
  note p = refund_revokes_subscriber
    [where cfg = sample_config and plat = sample_platform and oc = sample_outcomes
       and req = "mk_request ''POST'' [(''x-payhip-signature'', ''C0FFEE'')] payhip_refund_body"
       and w = subscribed_world and ?w1.0 = subscribed_world and payload = payhip_refund
       and event = "''refunded''" and sale_id = "''P1''",
     THEN conjunct2, THEN conjunct1, rule_format]
  note n = refund_revokes_subscriber
    [where cfg = sample_config and oc = sample_outcomes
       and w = subscribed_world and payload = payhip_refund and event = "''refunded''",
     THEN conjunct2, THEN conjunct2, THEN conjunct1, rule_format]
  note u = refund_revokes_subscriber
    [where sale_id = "''P1''" and tbl = "tables subscribed_world ''subscribers''"
       and ts = "now sample_outcomes",
     THEN conjunct2, THEN conjunct2, THEN conjunct2, THEN conjunct2, THEN conjunct1, rule_format]
  note a = refund_revokes_subscriber
    [where cfg = sample_config and plat = sample_platform and oc = sample_outcomes
       and req = "mk_request ''POST'' [(''stripe-signature'', ''t=1,v1=c0ffee'')] checkout_body"
       and w = revoked_world and evt = checkout_event and cs = "''cs_1''"
       and n = "\<lparr> eventId = ''evt_1'', customerId = Str ''cus_1'', checkoutSessionId = Str ''cs_1'',
           email = Str ''a@b.com'', productName = ''Premium Access'',
           planId = Str ''premium_telegram'' \<rparr>",
     THEN conjunct2, THEN conjunct2, THEN conjunct2, THEN conjunct2, THEN conjunct2,
     THEN conjunct2, THEN conjunct2, THEN conjunct2, THEN conjunct2, THEN conjunct1, rule_format]
  note s = refund_revokes_subscriber
    [where cfg = sample_config and plat = sample_platform and oc = sample_outcomes
       and req = "mk_request ''POST'' [(''stripe-signature'', ''t=1,v1=c0ffee'')] refund_body"
       and w = subscribed_world and evt = refund_event and t = "''subscribers''",
     THEN conjunct2, THEN conjunct2, THEN conjunct2, THEN conjunct2, THEN conjunct2,
     THEN conjunct2, THEN conjunct2, THEN conjunct2, THEN conjunct2, THEN conjunct2, rule_format]
  have hn: "\<not> (includes_js ''refunded'' ''sale'' \<or> includes_js ''refunded'' ''purchase'' \<or> includes_js ''refunded'' ''completed'')"
    using sample_payhip_refund_facts(3) .
  have hg: "req_method (mk_request ''POST'' [(''content-type'', ''application/json'')] gumroad_refund_body) \<noteq> ''GET'' \<and> req_method (mk_request ''POST'' [(''content-type'', ''application/json'')] gumroad_refund_body) \<noteq> ''HEAD'' \<and>
    parseBody sample_platform (mk_request ''POST'' [(''content-type'', ''application/json'')] gumroad_refund_body) = Inr gumroad_refund \<and> actionOf gumroad_refund = Inr ''refund'' \<and>
    (''refund'' = ''refund'' \<or> ''refund'' = ''chargeback'' \<or> ''refund'' = ''subscription_cancelled'') \<and>
    (requireGumroadAuth open_config \<longrightarrow> gumroad_authed open_config sample_platform (mk_request ''POST'' [(''content-type'', ''application/json'')] gumroad_refund_body) gumroad_refund) \<and> db open_config \<and>
    String (nc (opt_get gumroad_refund ''sale_id'') (nc (opt_get gumroad_refund ''id'') (Str []))) = Inr ''S1'' \<and>
    ''S1'' \<noteq> [] \<and> \<not> db_fails sample_outcomes (revoke_op sample_outcomes ''S1'')"
    by (simp add: sample_request_method sample_gumroad_refund_facts sample_world_facts
        sample_config_facts)
  have hp: "req_method (mk_request ''POST'' [(''x-payhip-signature'', ''C0FFEE'')] payhip_refund_body) = ''POST'' \<and> payhip_verifyHmac sample_config sample_platform (mk_request ''POST'' [(''x-payhip-signature'', ''C0FFEE'')] payhip_refund_body) (req_body (mk_request ''POST'' [(''x-payhip-signature'', ''C0FFEE'')] payhip_refund_body)) \<and>
      JSON_parse sample_platform (req_body (mk_request ''POST'' [(''x-payhip-signature'', ''C0FFEE'')] payhip_refund_body)) = Some payhip_refund \<and>
      String (lor (opt_get payhip_refund ''event'') (lor (opt_get payhip_refund ''type'') (Str []))) = Inr ''refunded'' \<and>
      (includes_js ''refunded'' ''refund'' \<or> includes_js ''refunded'' ''chargeback'') \<and>
      payhip_sale_part sample_config sample_outcomes payhip_refund ''refunded'' subscribed_world = Inr subscribed_world \<and> db sample_config \<and>
      String (lor (opt_get payhip_refund ''id'') (lor (opt_get payhip_refund ''order_id'') (Str []))) = Inr ''P1'' \<and>
      ''P1'' \<noteq> [] \<and> \<not> db_fails sample_outcomes (revoke_op sample_outcomes ''P1'')"
    using sample_payhip_refund_facts(2) n [OF hn]
    by (simp add: sample_request_method sample_payhip_signed sample_payhip_refund_facts(1,4)
        sample_world_facts sample_config_facts(1))
       (simp add: mk_request_def sample_payhip_parse)
  have hu: "filter (\<lambda>r. col r ''sale_id'' = Some ''P1'') (tables subscribed_world ''subscribers'') = []"
    by (simp add: subscribed_world_def col_def)
  have ha: "stripe_gate sample_config sample_platform (mk_request ''POST'' [(''stripe-signature'', ''t=1,v1=c0ffee'')] checkout_body) = Cont checkout_event \<and> db sample_config \<and> \<not> nullish (opt_get checkout_event ''id'') \<and>
      \<not> db_fails sample_outcomes (ledger_op checkout_event) \<and> \<not> ledgered (sql_text (opt_get checkout_event ''id'')) revoked_world \<and>
      shouldProcessDb checkout_event \<and> normalizeStripeEvent checkout_event = Inr (\<lparr> eventId = ''evt_1'', customerId = Str ''cus_1'', checkoutSessionId = Str ''cs_1'',
           email = Str ''a@b.com'', productName = ''Premium Access'',
           planId = Str ''premium_telegram'' \<rparr>) \<and>
      truthy (nc (email (\<lparr> eventId = ''evt_1'', customerId = Str ''cus_1'', checkoutSessionId = Str ''cs_1'',
           email = Str ''a@b.com'', productName = ''Premium Access'',
           planId = Str ''premium_telegram'' \<rparr>)) (extractBuyerEmail checkout_event)) \<and>
      cell (checkoutSessionId (\<lparr> eventId = ''evt_1'', customerId = Str ''cus_1'', checkoutSessionId = Str ''cs_1'',
           email = Str ''a@b.com'', productName = ''Premium Access'',
           planId = Str ''premium_telegram'' \<rparr>)) = Some ''cs_1'' \<and>
      (\<forall>cid. \<not> db_fails sample_outcomes (subscription_op sample_outcomes (\<lparr> eventId = ''evt_1'', customerId = Str ''cus_1'', checkoutSessionId = Str ''cs_1'',
           email = Str ''a@b.com'', productName = ''Premium Access'',
           planId = Str ''premium_telegram'' \<rparr>) cid))"
    using sample_stripe_gate(1) sample_event_facts sample_world_facts(1) sample_config_facts(1)
      sample_checkout_normalized
    by (simp add: nc_def cell_def ledgered_def revoked_world_def)
  have hs: "stripe_gate sample_config sample_platform (mk_request ''POST'' [(''stripe-signature'', ''t=1,v1=c0ffee'')] refund_body) = Cont refund_event \<and> \<not> shouldSend refund_event \<and> ''subscribers'' \<noteq> ''stripe_event_ledger''"
    by (simp add: sample_refund_facts)
  show ?thesis
    using g [OF hg] p [OF hp] n [OF hn] u [OF hu] a [OF ha] s [OF hs]
    by (simp add: subscribed_world_def sample_outcomes_def col_def merge_row_def revoked_world_def)
qed

text \<open>
  A card-processor refund event that refers to the checkout session of a completed sale
  is ignored: the subscription written by the sale stays active. And a completed sale for
  a checkout session whose subscription carries the status \<open>revoked\<close> sets it back to
  \<open>active\<close>.
\<close>

theorem stripe_refund_ignored_counterexample:
  "fst (stripe_serve sample_config sample_platform sample_outcomes
          (mk_request ''POST'' [(''stripe-signature'', ''t=1,v1=c0ffee'')] refund_body)
          (snd (stripe_serve sample_config sample_platform sample_outcomes
                  (mk_request ''POST'' [(''stripe-signature'', ''t=1,v1=c0ffee'')] checkout_body)
                  empty_world)))
     = Response 200 (Json (Obj [(''ignored'', Bool True)]))
   \<and> tables (snd (stripe_serve sample_config sample_platform sample_outcomes
          (mk_request ''POST'' [(''stripe-signature'', ''t=1,v1=c0ffee'')] refund_body)
          (snd (stripe_serve sample_config sample_platform sample_outcomes
                  (mk_request ''POST'' [(''stripe-signature'', ''t=1,v1=c0ffee'')] checkout_body)
                  empty_world)))) ''premium_subscriptions''
     = [[(''customer_id'', None), (''stripe_subscription_id'', None),
         (''stripe_checkout_session_id'', Some ''cs_1''), (''status'', Some ''active''),
         (''plan_id'', Some ''premium_telegram''),
         (''last_event_at'', Some ''2025-01-01T00:00:00.000Z'')]]
   \<and> tables revoked_world ''premium_subscriptions''
     = [[(''stripe_checkout_session_id'', Some ''cs_1''), (''status'', Some ''revoked'')]]
   \<and> tables (snd (stripe_serve sample_config sample_platform sample_outcomes
          (mk_request ''POST'' [(''stripe-signature'', ''t=1,v1=c0ffee'')] checkout_body)
          revoked_world)) ''premium_subscriptions''
     = [[(''stripe_checkout_session_id'', Some ''cs_1''), (''status'', Some ''active''),
         (''customer_id'', None), (''stripe_subscription_id'', None),
         (''plan_id'', Some ''premium_telegram''),
         (''last_event_at'', Some ''2025-01-01T00:00:00.000Z'')]]"
proof -
  define w1 where "w1 = snd (stripe_process sample_config sample_outcomes checkout_event empty_world)"
  have first: "snd (stripe_serve sample_config sample_platform sample_outcomes
                  (mk_request ''POST'' [(''stripe-signature'', ''t=1,v1=c0ffee'')] checkout_body)
                  empty_world) = w1"
    by (simp add: w1_def stripe_gate_cont [OF sample_stripe_gate(1)])
  have led: "\<not> ledgered (sql_text (opt_get refund_event ''id'')) w1"
    by (simp add: sample_refund_facts ledgered_def w1_def sample_sale_tables col_def)
  have "fst (stripe_ledger sample_config sample_outcomes refund_event w1) = False"
    by (rule stripe_first_ledger [OF sample_config_facts(1) sample_refund_facts(4)
          sample_world_facts(1) led])
  then have r: "fst (stripe_process sample_config sample_outcomes refund_event w1)
      = ok (Obj [(''ignored'', Bool True)])"
    by (simp add: stripe_process_def Let_def sample_refund_facts)
  have t: "tables (snd (stripe_process sample_config sample_outcomes refund_event w1))
        ''premium_subscriptions'' = tables w1 ''premium_subscriptions''"
    using stripe_other_event_ignored(1)
      [OF sample_refund_facts(1) sample_refund_facts(2), of "''premium_subscriptions''"
         sample_outcomes w1]
    by (simp add: stripe_gate_cont [OF sample_refund_facts(1)])
  show ?thesis
    unfolding first
    by (simp add: stripe_gate_cont [OF sample_refund_facts(1)]
        stripe_gate_cont [OF sample_stripe_gate(1)] r t ok_def sample_sale_tables)
       (simp add: w1_def sample_sale_tables revoked_world_def)
qed

end
